theory Spec2Isabelle
  imports Main
begin

unbundle bit_operations_syntax

section \<open>Strings\<close>

text \<open>
  A JavaScript string is a sequence of UTF-16 code units. The source text, identifier
  names, token values and error messages are lists of code units; the literals of the
  source code are written as HOL strings and converted by \<open>str\<close>.
\<close>

type_synonym jsstring = "nat list"

definition str :: "string \<Rightarrow> jsstring" where
  "str s = map of_char s"

text \<open>\<open>s.charCodeAt(i)\<close>: the code unit at \<open>i\<close>, or NaN (here \<open>None\<close>) out of range.\<close>

definition charCodeAt :: "jsstring \<Rightarrow> nat \<Rightarrow> nat option" where
  "charCodeAt s i = (if i < length s then Some (s ! i) else None)"

text \<open>\<open>s.slice(a, b)\<close> for non-negative \<open>a\<close> and \<open>b\<close>; empty when \<open>b \<le> a\<close>.\<close>

definition slice :: "jsstring \<Rightarrow> nat \<Rightarrow> nat \<Rightarrow> jsstring" where
  "slice s a b = take (b - a) (drop a s)"

section \<open>Scopes\<close>

text \<open>
  Modelled from the spec: scopeflags.js is not among the sources. The scope flags are a
  bitmask identifying the scope kind (TOP, FUNCTION, ASYNC, GENERATOR, ARROW,
  SIMPLE_CATCH, SUPER, DIRECT_SUPER), and VAR is the union of TOP and FUNCTION. The
  binding kinds are the five of the binding checker plus BIND_NONE.
\<close>

definition SCOPE_TOP :: nat where "SCOPE_TOP = 1"
definition SCOPE_FUNCTION :: nat where "SCOPE_FUNCTION = 2"
definition SCOPE_VAR :: nat where "SCOPE_VAR = SCOPE_TOP OR SCOPE_FUNCTION"
definition SCOPE_ASYNC :: nat where "SCOPE_ASYNC = 4"
definition SCOPE_GENERATOR :: nat where "SCOPE_GENERATOR = 8"
definition SCOPE_ARROW :: nat where "SCOPE_ARROW = 16"
definition SCOPE_SIMPLE_CATCH :: nat where "SCOPE_SIMPLE_CATCH = 32"
definition SCOPE_SUPER :: nat where "SCOPE_SUPER = 64"
definition SCOPE_DIRECT_SUPER :: nat where "SCOPE_DIRECT_SUPER = 128"

definition functionFlags :: "bool \<Rightarrow> bool \<Rightarrow> nat" where
  "functionFlags async generator =
     SCOPE_FUNCTION OR (if async then SCOPE_ASYNC else 0) OR (if generator then SCOPE_GENERATOR else 0)"

datatype BindingType =
  BIND_NONE | BIND_VAR | BIND_LEXICAL | BIND_FUNCTION | BIND_SIMPLE_CATCH | BIND_OUTSIDE

text \<open>The class \<open>Scope\<close>: its flags and the three lists of declared names.\<close>

record Scope =
  flags :: nat
  var :: "jsstring list"
  lexical :: "jsstring list"
  functions' :: "jsstring list"

definition new_Scope :: "nat \<Rightarrow> Scope" where
  "new_Scope fl = \<lparr>flags = fl, var = [], lexical = [], functions' = []\<rparr>"

section \<open>Token types and tokenizer contexts\<close>

text \<open>
  Modelled from the spec: tokentype.js is not among the sources. A token type is an
  object carrying the properties the parser reads (\<open>label\<close>, \<open>keyword\<close>,
  \<open>beforeExpr\<close>, \<open>startsExpr\<close>, \<open>isLoop\<close>, \<open>isAssign\<close>, \<open>prefix\<close>,
  \<open>postfix\<close>, \<open>binop\<close>); the table \<open>tt\<close> is the closed set of token types of
  the spec's external interfaces, with the precedences of its expression parser
  (multiplicative above additive above shifts above relational above equality above the
  bitwise operators above logical AND above logical OR). Token types are compared by
  identity in the source; the labels are pairwise distinct, so equality of the records
  is identity.
\<close>

record TokenType =
  label :: string
  keyword :: "string option"
  beforeExpr :: bool
  startsExpr :: bool
  isLoop :: bool
  isAssign :: bool
  prefix :: bool
  postfix :: bool
  binop :: "nat option"

definition new_TokenType :: "string \<Rightarrow> TokenType" where
  "new_TokenType l = \<lparr>label = l, keyword = None, beforeExpr = False, startsExpr = False,
     isLoop = False, isAssign = False, prefix = False, postfix = False, binop = None\<rparr>"

definition tt_binop :: "string \<Rightarrow> nat \<Rightarrow> TokenType" where
  "tt_binop name prec = (new_TokenType name)\<lparr>beforeExpr := True, binop := Some prec\<rparr>"

definition kw :: "string \<Rightarrow> TokenType" where
  "kw name = (new_TokenType name)\<lparr>keyword := Some name\<rparr>"

definition tt_num :: TokenType where "tt_num = (new_TokenType ''num'')\<lparr>startsExpr := True\<rparr>"
definition tt_regexp :: TokenType where "tt_regexp = (new_TokenType ''regexp'')\<lparr>startsExpr := True\<rparr>"
definition tt_string :: TokenType where "tt_string = (new_TokenType ''string'')\<lparr>startsExpr := True\<rparr>"
definition tt_name :: TokenType where "tt_name = (new_TokenType ''name'')\<lparr>startsExpr := True\<rparr>"
definition tt_eof :: TokenType where "tt_eof = new_TokenType ''eof''"
definition tt_bracketL :: TokenType where
  "tt_bracketL = (new_TokenType ''['')\<lparr>beforeExpr := True, startsExpr := True\<rparr>"
definition tt_bracketR :: TokenType where "tt_bracketR = new_TokenType '']''"
definition tt_braceL :: TokenType where
  "tt_braceL = (new_TokenType ''{'')\<lparr>beforeExpr := True, startsExpr := True\<rparr>"
definition tt_braceR :: TokenType where "tt_braceR = new_TokenType ''}''"
definition tt_parenL :: TokenType where
  "tt_parenL = (new_TokenType ''('')\<lparr>beforeExpr := True, startsExpr := True\<rparr>"
definition tt_parenR :: TokenType where "tt_parenR = new_TokenType '')''"
definition tt_comma :: TokenType where "tt_comma = (new_TokenType '','')\<lparr>beforeExpr := True\<rparr>"
definition tt_semi :: TokenType where "tt_semi = (new_TokenType '';'')\<lparr>beforeExpr := True\<rparr>"
definition tt_colon :: TokenType where "tt_colon = (new_TokenType '':'')\<lparr>beforeExpr := True\<rparr>"
definition tt_dot :: TokenType where "tt_dot = new_TokenType ''.''"
definition tt_question :: TokenType where "tt_question = (new_TokenType ''?'')\<lparr>beforeExpr := True\<rparr>"
definition tt_questionDot :: TokenType where "tt_questionDot = new_TokenType ''?.''"
definition tt_arrow :: TokenType where "tt_arrow = (new_TokenType ''=>'')\<lparr>beforeExpr := True\<rparr>"
definition tt_template :: TokenType where "tt_template = new_TokenType ''template''"
definition tt_invalidTemplate :: TokenType where "tt_invalidTemplate = new_TokenType ''invalidTemplate''"
definition tt_ellipsis :: TokenType where "tt_ellipsis = (new_TokenType ''...'')\<lparr>beforeExpr := True\<rparr>"
definition tt_backQuote :: TokenType where "tt_backQuote = (new_TokenType ''`'')\<lparr>startsExpr := True\<rparr>"
definition tt_dollarBraceL :: TokenType where
  "tt_dollarBraceL = (new_TokenType ''${'')\<lparr>beforeExpr := True, startsExpr := True\<rparr>"
definition tt_eq :: TokenType where
  "tt_eq = (new_TokenType ''='')\<lparr>beforeExpr := True, isAssign := True\<rparr>"
definition tt_assign :: TokenType where
  "tt_assign = (new_TokenType ''_='')\<lparr>beforeExpr := True, isAssign := True\<rparr>"
definition tt_incDec :: TokenType where
  "tt_incDec = (new_TokenType ''++/--'')\<lparr>prefix := True, postfix := True, startsExpr := True\<rparr>"
definition tt_prefix :: TokenType where
  "tt_prefix = (new_TokenType ''!/~'')\<lparr>beforeExpr := True, prefix := True, startsExpr := True\<rparr>"
definition tt_logicalOR :: TokenType where "tt_logicalOR = tt_binop ''||'' 1"
definition tt_logicalAND :: TokenType where "tt_logicalAND = tt_binop ''&&'' 2"
definition tt_bitwiseOR :: TokenType where "tt_bitwiseOR = tt_binop ''|'' 3"
definition tt_bitwiseXOR :: TokenType where "tt_bitwiseXOR = tt_binop ''^'' 4"
definition tt_bitwiseAND :: TokenType where "tt_bitwiseAND = tt_binop ''&'' 5"
definition tt_equality :: TokenType where "tt_equality = tt_binop ''==/!=/===/!=='' 6"
definition tt_relational :: TokenType where "tt_relational = tt_binop ''</>/<=/>='' 7"
definition tt_bitShift :: TokenType where "tt_bitShift = tt_binop ''<</>>/>>>'' 8"
definition tt_plusMin :: TokenType where
  "tt_plusMin = (new_TokenType ''+/-'')\<lparr>beforeExpr := True, startsExpr := True, prefix := True,
     binop := Some 9\<rparr>"
definition tt_modulo :: TokenType where "tt_modulo = tt_binop ''%'' 10"
definition tt_star :: TokenType where "tt_star = tt_binop ''*'' 10"
definition tt_slash :: TokenType where "tt_slash = tt_binop ''/'' 10"
definition tt_starstar :: TokenType where "tt_starstar = (new_TokenType ''**'')\<lparr>beforeExpr := True\<rparr>"
definition tt_coalesce :: TokenType where "tt_coalesce = tt_binop ''??'' 1"

definition tt__break :: TokenType where "tt__break = kw ''break''"
definition tt__case :: TokenType where "tt__case = (kw ''case'')\<lparr>beforeExpr := True\<rparr>"
definition tt__catch :: TokenType where "tt__catch = kw ''catch''"
definition tt__continue :: TokenType where "tt__continue = kw ''continue''"
definition tt__debugger :: TokenType where "tt__debugger = kw ''debugger''"
definition tt__default :: TokenType where "tt__default = (kw ''default'')\<lparr>beforeExpr := True\<rparr>"
definition tt__do :: TokenType where "tt__do = (kw ''do'')\<lparr>beforeExpr := True, isLoop := True\<rparr>"
definition tt__else :: TokenType where "tt__else = (kw ''else'')\<lparr>beforeExpr := True\<rparr>"
definition tt__finally :: TokenType where "tt__finally = kw ''finally''"
definition tt__for :: TokenType where "tt__for = (kw ''for'')\<lparr>isLoop := True\<rparr>"
definition tt__function :: TokenType where "tt__function = (kw ''function'')\<lparr>startsExpr := True\<rparr>"
definition tt__if :: TokenType where "tt__if = kw ''if''"
definition tt__return :: TokenType where "tt__return = (kw ''return'')\<lparr>beforeExpr := True\<rparr>"
definition tt__switch :: TokenType where "tt__switch = kw ''switch''"
definition tt__throw :: TokenType where "tt__throw = (kw ''throw'')\<lparr>beforeExpr := True\<rparr>"
definition tt__try :: TokenType where "tt__try = kw ''try''"
definition tt__var :: TokenType where "tt__var = kw ''var''"
definition tt__const :: TokenType where "tt__const = kw ''const''"
definition tt__while :: TokenType where "tt__while = (kw ''while'')\<lparr>isLoop := True\<rparr>"
definition tt__with :: TokenType where "tt__with = kw ''with''"
definition tt__new :: TokenType where "tt__new = (kw ''new'')\<lparr>beforeExpr := True, startsExpr := True\<rparr>"
definition tt__this :: TokenType where "tt__this = (kw ''this'')\<lparr>startsExpr := True\<rparr>"
definition tt__super :: TokenType where "tt__super = (kw ''super'')\<lparr>startsExpr := True\<rparr>"
definition tt__class :: TokenType where "tt__class = (kw ''class'')\<lparr>startsExpr := True\<rparr>"
definition tt__extends :: TokenType where "tt__extends = (kw ''extends'')\<lparr>beforeExpr := True\<rparr>"
definition tt__export :: TokenType where "tt__export = kw ''export''"
definition tt__import :: TokenType where "tt__import = (kw ''import'')\<lparr>startsExpr := True\<rparr>"
definition tt__null :: TokenType where "tt__null = (kw ''null'')\<lparr>startsExpr := True\<rparr>"
definition tt__true :: TokenType where "tt__true = (kw ''true'')\<lparr>startsExpr := True\<rparr>"
definition tt__false :: TokenType where "tt__false = (kw ''false'')\<lparr>startsExpr := True\<rparr>"
definition tt__in :: TokenType where "tt__in = (kw ''in'')\<lparr>beforeExpr := True, binop := Some 7\<rparr>"
definition tt__instanceof :: TokenType where
  "tt__instanceof = (kw ''instanceof'')\<lparr>beforeExpr := True, binop := Some 7\<rparr>"
definition tt__typeof :: TokenType where
  "tt__typeof = (kw ''typeof'')\<lparr>beforeExpr := True, prefix := True, startsExpr := True\<rparr>"
definition tt__void :: TokenType where
  "tt__void = (kw ''void'')\<lparr>beforeExpr := True, prefix := True, startsExpr := True\<rparr>"
definition tt__delete :: TokenType where
  "tt__delete = (kw ''delete'')\<lparr>beforeExpr := True, prefix := True, startsExpr := True\<rparr>"

text \<open>\<open>keywordTypes\<close>: the keyword token types, looked up by their word.\<close>

definition keywordTypes_list :: "TokenType list" where
  "keywordTypes_list = [tt__break, tt__case, tt__catch, tt__continue, tt__debugger, tt__default,
     tt__do, tt__else, tt__finally, tt__for, tt__function, tt__if, tt__return, tt__switch,
     tt__throw, tt__try, tt__var, tt__const, tt__while, tt__with, tt__new, tt__this, tt__super,
     tt__class, tt__extends, tt__export, tt__import, tt__null, tt__true, tt__false, tt__in,
     tt__instanceof, tt__typeof, tt__void, tt__delete]"

definition keywordTypes :: "jsstring \<Rightarrow> TokenType option" where
  "keywordTypes word = find (\<lambda>t. map_option str (keyword t) = Some word) keywordTypes_list"

text \<open>
  Modelled from the spec: tokencontext.js is not among the sources. The ten syntactic
  contexts of the context stack, each with its \<open>token\<close>, \<open>isExpr\<close>,
  \<open>preserveSpace\<close> (true only inside templates), \<open>override\<close> (only \<open>q_tmpl\<close> has an
  alternate scanner) and \<open>generator\<close>.
\<close>

datatype TokContext =
  b_stat | b_expr | b_tmpl | p_stat | p_expr | q_tmpl | f_stat | f_expr | f_expr_gen | f_gen

definition token :: "TokContext \<Rightarrow> string" where
  "token c = (if c \<in> {b_stat, b_expr} then ''{'' else if c = b_tmpl then ''${''
     else if c \<in> {p_stat, p_expr} then ''('' else if c = q_tmpl then ''`'' else ''function'')"

definition isExpr :: "TokContext \<Rightarrow> bool" where
  "isExpr c = (c \<in> {b_expr, p_expr, q_tmpl, f_expr, f_expr_gen})"

definition preserveSpace :: "TokContext \<Rightarrow> bool" where
  "preserveSpace c = (c = q_tmpl)"

definition has_override :: "TokContext \<Rightarrow> bool" where
  "has_override c = (c = q_tmpl)"

definition generator :: "TokContext \<Rightarrow> bool" where
  "generator c = (c \<in> {f_expr_gen, f_gen})"

section \<open>Values, AST nodes and the parser object\<close>

text \<open>
  Numbers are IEEE doubles in the source and are not computed here: the value of a numeric
  token is kept as the call that produces it (\<open>stringToNumber\<close> on the literal's text
  with its legacy-octal flag, \<open>stringToBigInt\<close>, or the integer accumulated by
  \<open>readInt\<close> for a radix literal).
\<close>

datatype jsnum =
  StringToNumber jsstring bool | StringToBigInt jsstring | IntValue nat

text \<open>
  An AST node is an object: its \<open>type\<close>, \<open>start\<close> and \<open>end\<close>, and the fields the
  parser assigns, in assignment order. \<open>JRegex pattern flags\<close> is the value of a regexp
  token, the object \<open>{pattern, flags, value}\<close> whose \<open>value\<close> is
  \<open>JHostRegExp pattern flags\<close>.
\<close>

datatype jsval =
    JUndefined | JNull | JBool bool | JStr jsstring | JNum jsnum
  | JRegex (pattern: jsstring) (regex_flags: jsstring)
  | JHostRegExp jsstring jsstring
  | JObj "(string \<times> jsval) list"
  | JNode node | JArr "jsval list"
and node =
    Node (ntype: string) (nstart: nat) (nend: nat) (nfields: "(string \<times> jsval) list")

text \<open>
  \<open>JHostRegExp pattern flags\<close> is what \<open>readRegexp\<close> gets from the host for
  \<open>new RegExp(pattern, flags)\<close>: the object, or null where the host rejects the
  expression. \<open>JObj\<close> is a plain object.

  The constructor of \<open>Node\<close> gives every node the fields below; \<open>nfields\<close> holds the
  fields assigned since, and a field not assigned reads as the constructor left it.
\<close>

definition Node_defaults :: "(string \<times> jsval) list" where
  "Node_defaults =
     map (\<lambda>f. (f, JArr [])) [''consequent'', ''declarations'', ''params'', ''properties'', ''quasis'',
       ''elements'', ''expressions'', ''arguments''] @
     [(''operator'', JStr []), (''left'', JNull), (''right'', JNull), (''kind'', JStr []),
      (''bigint'', JStr []), (''name'', JStr []), (''regex'', JNull), (''value'', JUndefined),
      (''raw'', JUndefined)] @
     map (\<lambda>f. (f, JBool False)) [''static'', ''init'', ''delegate'', ''generator'', ''async'',
       ''method'', ''shorthand'', ''tail'', ''computed'', ''prefix'', ''optional''] @
     map (\<lambda>f. (f, JNull)) [''imported'', ''local'', ''exported'', ''key'', ''id'', ''param'', ''meta'',
       ''tag'', ''quasi'', ''callee'', ''expression'', ''argument'', ''alternate'', ''test'', ''object'',
       ''property'', ''body'']"

definition get_field :: "string \<Rightarrow> node \<Rightarrow> jsval" where
  "get_field f n =
     (case map_of (nfields n) f of
        Some v \<Rightarrow> v
      | None \<Rightarrow> (case map_of Node_defaults f of None \<Rightarrow> JUndefined | Some v \<Rightarrow> v))"

definition set_field :: "string \<Rightarrow> jsval \<Rightarrow> node \<Rightarrow> node" where
  "set_field f v n = Node (ntype n) (nstart n) (nend n)
     (if f \<in> fst ` set (nfields n) then map (\<lambda>(k, w). if k = f then (k, v) else (k, w)) (nfields n)
      else nfields n @ [(f, v)])"

text \<open>
  The options that change what is parsed. The options that only decorate the output
  (\<open>locations\<close>, \<open>ranges\<close>, \<open>sourceFile\<close>, \<open>directSourceFile\<close>, \<open>program\<close>) and the
  callbacks (\<open>onToken\<close>, \<open>onComment\<close>, \<open>onInsertedSemicolon\<close>, \<open>onTrailingComma\<close>)
  are at their defaults (off) throughout, and \<open>ecmaVersion\<close> is the number that option
  normalisation leaves.
\<close>

datatype AllowReserved = allowReserved_true | allowReserved_false | allowReserved_never

record Options =
  ecmaVersion :: nat
  sourceType :: string
  allowReserved :: AllowReserved
  allowReturnOutsideFunction :: bool
  allowImportExportEverywhere :: bool
  allowAwaitOutsideFunction :: bool
  allowHashBang :: bool
  preserveParens :: bool

record Label =
  label_kind :: "string option"
  label_name :: "jsstring option"
  statementStart :: "nat option"

text \<open>The class \<open>RegExpValidationState\<close> (without its back pointer to the parser).\<close>

record RegExpValidationState =
  validFlags :: jsstring
  source :: jsstring
  flags' :: jsstring
  rstart :: nat
  switchU :: bool
  switchN :: bool
  rpos :: nat
  lastIntValue :: int
  lastStringValue :: jsstring
  lastAssertionIsQuantifiable :: bool
  numCapturingParens :: nat
  maxBackReference :: int
  groupNames :: "jsstring list"
  backReferenceNames :: "jsstring list"

text \<open>The objects of \<open>DestructuringErrors\<close>: five offsets, \<open>-1\<close> where there is none.\<close>

record DestructuringErrors =
  shorthandAssign :: int
  trailingComma :: int
  parenthesizedAssign :: int
  parenthesizedBind :: int
  doubleProto :: int

definition new_DestructuringErrors :: DestructuringErrors where
  "new_DestructuringErrors =
     \<lparr>shorthandAssign = - 1, trailingComma = - 1, parenthesizedAssign = - 1,
      parenthesizedBind = - 1, doubleProto = - 1\<rparr>"

text \<open>
  The mutable bundle of the class \<open>Parser\<close>. The last field is the store of the
  \<open>DestructuringErrors\<close> objects created so far: the parser hands such an object down
  by reference and its callees write to it, so a reference is an index into this list.
\<close>

record parser =
  options :: Options
  input :: jsstring
  containsEsc :: bool
  pos :: nat
  type :: TokenType
  value' :: jsval
  start :: nat
  end' :: nat
  lastTokStart :: nat
  lastTokEnd :: nat
  context' :: "TokContext list"
  exprAllowed :: bool
  inModule :: bool
  strict :: bool
  potentialArrowAt :: int
  yieldPos :: nat
  awaitPos :: nat
  awaitIdentPos :: nat
  labels :: "Label list"
  undefinedExports :: "(jsstring \<times> node) list"
  scopeStack :: "Scope list"
  regexpState :: "RegExpValidationState option"
  inTemplateElement :: bool
  destructuringErrors :: "DestructuringErrors list"

section \<open>Exceptions\<close>

text \<open>
  \<open>raise(pos, message)\<close> throws a SyntaxError carrying \<open>pos\<close>, the reason and
  \<open>raisedAt\<close> (the cursor); the line and column appended to the message and stored in
  \<open>loc\<close> are computed from \<open>pos\<close> by getLineInfo (locutil.js, not among the
  sources) and are left out. A thrown exception leaves the object as mutated so far, so
  every operation returns the state together with its result (\<open>Ok\<close>) or its exception
  (\<open>Err\<close>). \<open>TypeError\<close> is the host's exception on reading a property of
  \<open>undefined\<close>, and \<open>INVALID_TEMPLATE_ESCAPE_ERROR\<close> the sentinel thrown inside
  template elements. \<open>RegExpReason\<close> is the reason given to \<open>state.raise\<close>
  inside the regular expression validator, before the tokenizer turns it into the
  SyntaxError of the literal. \<open>Unmodelled\<close> marks a call into a part of the program that is not
  embedded here and \<open>OutOfFuel\<close> a recursion cut off by the fuel of the model: neither
  is a result of the source.
\<close>

datatype error =
    SyntaxError (err_pos: nat) (err_message: jsstring) (raisedAt: nat)
  | TypeError
  | INVALID_TEMPLATE_ESCAPE_ERROR
  | RegExpReason string
  | Unmodelled string
  | OutOfFuel

datatype ('a, 's) result = Ok 'a 's | Err error 's

type_synonym 'a M = "parser \<Rightarrow> ('a, parser) result"

text \<open>What an operation has left: the value returned, the exception thrown, the object.\<close>

definition returned :: "('a, 's) result \<Rightarrow> 'a option" where
  "returned r = (case r of Ok x _ \<Rightarrow> Some x | Err _ _ \<Rightarrow> None)"

definition thrown :: "('a, 's) result \<Rightarrow> error option" where
  "thrown r = (case r of Ok _ _ \<Rightarrow> None | Err e _ \<Rightarrow> Some e)"

definition state_after :: "('a, 's) result \<Rightarrow> 's" where
  "state_after r = (case r of Ok _ p \<Rightarrow> p | Err _ p \<Rightarrow> p)"

definition ret :: "'a \<Rightarrow> 's \<Rightarrow> ('a, 's) result" where
  "ret x p = Ok x p"

definition throw :: "error \<Rightarrow> 's \<Rightarrow> ('a, 's) result" where
  "throw e p = Err e p"

definition bind :: "('s \<Rightarrow> ('a, 's) result) \<Rightarrow> ('a \<Rightarrow> 's \<Rightarrow> ('b, 's) result) \<Rightarrow> 's \<Rightarrow> ('b, 's) result" where
  "bind m f p = (case m p of Err e p' \<Rightarrow> Err e p' | Ok x p' \<Rightarrow> f x p')"

definition seq :: "('s \<Rightarrow> ('a, 's) result) \<Rightarrow> ('s \<Rightarrow> ('b, 's) result) \<Rightarrow> 's \<Rightarrow> ('b, 's) result" where
  "seq m k p = (case m p of Err e p' \<Rightarrow> Err e p' | Ok x p' \<Rightarrow> k p')"

definition modify :: "('s \<Rightarrow> 's) \<Rightarrow> 's \<Rightarrow> (unit, 's) result" where
  "modify f p = Ok () (f p)"

definition get :: "('s \<Rightarrow> 'a) \<Rightarrow> 's \<Rightarrow> ('a, 's) result" where
  "get f p = Ok (f p) p"

definition when' :: "bool \<Rightarrow> ('s \<Rightarrow> (unit, 's) result) \<Rightarrow> 's \<Rightarrow> (unit, 's) result" where
  "when' b m p = (if b then m p else Ok () p)"

text \<open>\<open>a(state) || b(state)\<close> and \<open>a(state) && b(state)\<close> on operations returning booleans.\<close>

definition orElse :: "('s \<Rightarrow> (bool, 's) result) \<Rightarrow> ('s \<Rightarrow> (bool, 's) result) \<Rightarrow> 's \<Rightarrow> (bool, 's) result" where
  "orElse a b p = (case a p of Err e p' \<Rightarrow> Err e p' | Ok r p' \<Rightarrow> if r then Ok True p' else b p')"

definition andAlso :: "('s \<Rightarrow> (bool, 's) result) \<Rightarrow> ('s \<Rightarrow> (bool, 's) result) \<Rightarrow> 's \<Rightarrow> (bool, 's) result" where
  "andAlso a b p = (case a p of Err e p' \<Rightarrow> Err e p' | Ok r p' \<Rightarrow> if r then b p' else Ok False p')"

definition raise :: "nat \<Rightarrow> jsstring \<Rightarrow> 'a M" where
  "raise at message p = Err (SyntaxError at message (pos p)) p"

definition raiseRecoverable :: "nat \<Rightarrow> jsstring \<Rightarrow> 'a M" where
  "raiseRecoverable at message p = raise at message p"

section \<open>Scope tracking\<close>

definition enterScope :: "nat \<Rightarrow> parser \<Rightarrow> parser" where
  "enterScope fl p = p\<lparr>scopeStack := scopeStack p @ [new_Scope fl]\<rparr>"

definition exitScope :: "parser \<Rightarrow> parser" where
  "exitScope p = p\<lparr>scopeStack := butlast (scopeStack p)\<rparr>"

definition treatFunctionsAsVarInScope :: "parser \<Rightarrow> Scope \<Rightarrow> bool" where
  "treatFunctionsAsVarInScope p scope =
     (flags scope AND SCOPE_FUNCTION \<noteq> 0 \<or> (\<not> inModule p \<and> flags scope AND SCOPE_TOP \<noteq> 0))"

text \<open>\<open>currentScope()\<close> is \<open>undefined\<close> on an empty scope stack.\<close>

definition currentScope :: "parser \<Rightarrow> Scope option" where
  "currentScope p = (if scopeStack p = [] then None else Some (last (scopeStack p)))"

definition set_currentScope :: "Scope \<Rightarrow> parser \<Rightarrow> parser" where
  "set_currentScope scope p =
     p\<lparr>scopeStack := (scopeStack p)[length (scopeStack p) - 1 := scope]\<rparr>"

definition delete_key :: "jsstring \<Rightarrow> (jsstring \<times> 'a) list \<Rightarrow> (jsstring \<times> 'a) list" where
  "delete_key k m = filter (\<lambda>kv. fst kv \<noteq> k) m"

definition first_is :: "jsstring list \<Rightarrow> jsstring \<Rightarrow> bool" where
  "first_is xs x = (case xs of [] \<Rightarrow> False | y # _ \<Rightarrow> y = x)"

text \<open>
  The loop of the var branch of \<open>declareName\<close>: \<open>i\<close> scopes, counted from the bottom
  of the stack, are still to visit, the innermost of them first. The result is
  \<open>redeclared\<close>.
\<close>

fun declareName_var :: "jsstring \<Rightarrow> nat \<Rightarrow> parser \<Rightarrow> bool \<times> parser" where
  "declareName_var name 0 p = (False, p)"
| "declareName_var name (Suc i) p =
     (let scope = scopeStack p ! i in
      if (name \<in> set (lexical scope) \<and>
            \<not> (flags scope AND SCOPE_SIMPLE_CATCH \<noteq> 0 \<and> first_is (lexical scope) name)) \<or>
         (\<not> treatFunctionsAsVarInScope p scope \<and> name \<in> set (functions' scope))
      then (True, p)
      else
        let p1 = p\<lparr>scopeStack := (scopeStack p)[i := scope\<lparr>var := var scope @ [name]\<rparr>]\<rparr>;
            p2 = (if inModule p1 \<and> flags scope AND SCOPE_TOP \<noteq> 0
                  then p1\<lparr>undefinedExports := delete_key name (undefinedExports p1)\<rparr> else p1)
        in if flags scope AND SCOPE_VAR \<noteq> 0 then (False, p2) else declareName_var name i p2)"

definition already_declared :: "jsstring \<Rightarrow> jsstring" where
  "already_declared name = str ''Identifier '' @ [39] @ name @ [39] @ str '' has already been declared''"

definition declareName :: "jsstring \<Rightarrow> BindingType \<Rightarrow> nat \<Rightarrow> unit M" where
  "declareName name bindingType at p =
     (if bindingType = BIND_LEXICAL then
        (case currentScope p of
           None \<Rightarrow> Err TypeError p
         | Some scope \<Rightarrow>
             let redeclared = (name \<in> set (lexical scope) \<or> name \<in> set (functions' scope) \<or>
                               name \<in> set (var scope));
                 p1 = set_currentScope (scope\<lparr>lexical := lexical scope @ [name]\<rparr>) p;
                 p2 = (if inModule p1 \<and> flags scope AND SCOPE_TOP \<noteq> 0
                       then p1\<lparr>undefinedExports := delete_key name (undefinedExports p1)\<rparr> else p1)
             in if redeclared then raiseRecoverable at (already_declared name) p2 else Ok () p2)
      else if bindingType = BIND_SIMPLE_CATCH then
        (case currentScope p of
           None \<Rightarrow> Err TypeError p
         | Some scope \<Rightarrow> Ok () (set_currentScope (scope\<lparr>lexical := lexical scope @ [name]\<rparr>) p))
      else if bindingType = BIND_FUNCTION then
        (case currentScope p of
           None \<Rightarrow> Err TypeError p
         | Some scope \<Rightarrow>
             let redeclared =
                   (if treatFunctionsAsVarInScope p scope then name \<in> set (lexical scope)
                    else name \<in> set (lexical scope) \<or> name \<in> set (var scope));
                 p1 = set_currentScope (scope\<lparr>functions' := functions' scope @ [name]\<rparr>) p
             in if redeclared then raiseRecoverable at (already_declared name) p1 else Ok () p1)
      else
        (case declareName_var name (length (scopeStack p)) p of
           (redeclared, p1) \<Rightarrow>
             if redeclared then raiseRecoverable at (already_declared name) p1 else Ok () p1))"

section \<open>Character predicates\<close>

text \<open>
  Modelled from the spec: whitespace.js is not among the sources. A line terminator is
  LF, CR, U+2028 or U+2029 (the last two not inside an ES2019 string), \<open>lineBreak\<close>
  matches a string that holds one, and \<open>nonASCIIwhitespace\<close> is the set of the other
  Unicode space characters.
\<close>

definition isNewLine :: "nat \<Rightarrow> bool \<Rightarrow> bool" where
  "isNewLine code ecma2019String =
     (code = 10 \<or> code = 13 \<or> (\<not> ecma2019String \<and> (code = 0x2028 \<or> code = 0x2029)))"

definition lineBreak_test :: "jsstring \<Rightarrow> bool" where
  "lineBreak_test s = list_ex (\<lambda>c. isNewLine c False) s"

definition nonASCIIwhitespace_test :: "nat \<Rightarrow> bool" where
  "nonASCIIwhitespace_test ch =
     (ch = 0x1680 \<or> (0x2000 \<le> ch \<and> ch \<le> 0x200a) \<or> ch = 0x202f \<or> ch = 0x205f \<or>
      ch = 0x3000 \<or> ch = 0xfeff)"

text \<open>
  Modelled from the spec: identifier.js is not among the sources, and the spec treats its
  tables of Unicode identifier characters as opaque predicates. The ASCII part of
  \<open>isIdentifierStart\<close> and \<open>isIdentifierChar\<close> is decided here; on a code that
  needs the tables the result is \<open>None\<close>, which the callers turn into
  \<open>Unmodelled\<close>. Codes are integers: \<open>-1\<close> is the validator's end of input.
\<close>

definition isIdentifierStart :: "int \<Rightarrow> bool \<Rightarrow> bool option" where
  "isIdentifierStart code astral =
     (if code < 65 then Some (code = 36)
      else if code < 91 then Some True
      else if code < 97 then Some (code = 95)
      else if code < 123 then Some True
      else if code \<le> 0xffff then (if code \<ge> 0xaa then None else Some False)
      else if \<not> astral then Some False
      else None)"

definition isIdentifierChar :: "int \<Rightarrow> bool \<Rightarrow> bool option" where
  "isIdentifierChar code astral =
     (if code < 48 then Some (code = 36)
      else if code < 58 then Some True
      else if code < 65 then Some False
      else if code < 91 then Some True
      else if code < 97 then Some (code = 95)
      else if code < 123 then Some True
      else if code \<le> 0xffff then (if code \<ge> 0xaa then None else Some False)
      else if \<not> astral then Some False
      else None)"

text \<open>The predicates on a code read by \<open>charCodeAt\<close>: NaN is no identifier character.\<close>

definition isIdentifierStart_code :: "nat option \<Rightarrow> bool \<Rightarrow> bool option" where
  "isIdentifierStart_code c astral =
     (case c of None \<Rightarrow> Some False | Some code \<Rightarrow> isIdentifierStart (int code) astral)"

definition isIdentifierChar_code :: "nat option \<Rightarrow> bool \<Rightarrow> bool option" where
  "isIdentifierChar_code c astral =
     (case c of None \<Rightarrow> Some False | Some code \<Rightarrow> isIdentifierChar (int code) astral)"

definition known :: "string \<Rightarrow> 'a option \<Rightarrow> 's \<Rightarrow> ('a, 's) result" where
  "known what v p = (case v of None \<Rightarrow> Err (Unmodelled what) p | Some x \<Rightarrow> Ok x p)"

text \<open>
  Modelled from the spec: the keyword and reserved-word lists of identifier.js are not
  among the sources; they are the version-appropriate reserved-word sets of ECMAScript.
  \<open>wordsRegexp(words).test(w)\<close> holds when \<open>w\<close> is one of the words.
\<close>

definition ecma5AndLessKeywords :: "string list" where
  "ecma5AndLessKeywords = [''break'', ''case'', ''catch'', ''continue'', ''debugger'', ''default'',
     ''do'', ''else'', ''finally'', ''for'', ''function'', ''if'', ''return'', ''switch'', ''throw'',
     ''try'', ''var'', ''while'', ''with'', ''null'', ''true'', ''false'', ''instanceof'', ''typeof'',
     ''void'', ''delete'', ''new'', ''in'', ''this'']"

definition keywords_for :: "Options \<Rightarrow> string list" where
  "keywords_for opts =
     (if ecmaVersion opts \<ge> 6
      then ecma5AndLessKeywords @ [''const'', ''class'', ''extends'', ''export'', ''import'', ''super'']
      else if sourceType opts = ''module'' then ecma5AndLessKeywords @ [''export'', ''import'']
      else ecma5AndLessKeywords)"

definition reservedWords_3 :: "string list" where
  "reservedWords_3 = [''abstract'', ''boolean'', ''byte'', ''char'', ''class'', ''double'', ''enum'',
     ''export'', ''extends'', ''final'', ''float'', ''goto'', ''implements'', ''import'', ''int'',
     ''interface'', ''long'', ''native'', ''package'', ''private'', ''protected'', ''public'',
     ''short'', ''static'', ''super'', ''synchronized'', ''throws'', ''transient'', ''volatile'']"

definition reservedWords_5 :: "string list" where
  "reservedWords_5 = [''class'', ''enum'', ''extends'', ''super'', ''const'', ''export'', ''import'']"

definition reservedWords_6 :: "string list" where
  "reservedWords_6 = [''enum'']"

definition reservedWords_strict :: "string list" where
  "reservedWords_strict = [''implements'', ''interface'', ''let'', ''package'', ''private'',
     ''protected'', ''public'', ''static'', ''yield'']"

definition reservedWords_strictBind :: "string list" where
  "reservedWords_strictBind = [''eval'', ''arguments'']"

definition reserved_for :: "Options \<Rightarrow> string list" where
  "reserved_for opts =
     (if allowReserved opts \<noteq> allowReserved_true
      then (if ecmaVersion opts \<ge> 6 then reservedWords_6
            else if ecmaVersion opts = 5 then reservedWords_5 else reservedWords_3) @
           (if sourceType opts = ''module'' then [''await''] else [])
      else [])"

definition words_test :: "string list \<Rightarrow> jsstring \<Rightarrow> bool" where
  "words_test words w = (w \<in> set (map str words))"

text \<open>
  The four regular expressions the constructor builds. An empty list of reserved words
  gives the expression \<open>^(?:)$\<close>, which matches the empty word only.
\<close>

definition keywords_test :: "parser \<Rightarrow> jsstring \<Rightarrow> bool" where
  "keywords_test p w = words_test (keywords_for (options p)) w"

definition reservedWords_test :: "parser \<Rightarrow> jsstring \<Rightarrow> bool" where
  "reservedWords_test p w =
     (if reserved_for (options p) = [] then w = [] else words_test (reserved_for (options p)) w)"

definition reservedWordsStrict_test :: "parser \<Rightarrow> jsstring \<Rightarrow> bool" where
  "reservedWordsStrict_test p w = words_test (reserved_for (options p) @ reservedWords_strict) w"

definition reservedWordsStrictBind_test :: "parser \<Rightarrow> jsstring \<Rightarrow> bool" where
  "reservedWordsStrictBind_test p w =
     words_test (reserved_for (options p) @ reservedWords_strict @ reservedWords_strictBind) w"

definition keywordRelationalOperator_test :: "jsstring \<Rightarrow> bool" where
  "keywordRelationalOperator_test w = (w = str ''in'' \<or> w = str ''instanceof'')"

text \<open>\<open>codePointToString\<close>: UTF-16 encoding of a code point.\<close>

definition codePointToString :: "int \<Rightarrow> jsstring" where
  "codePointToString ch =
     (if ch \<le> 0xFFFF then [nat (ch mod 0x10000)]
      else [nat (((ch - 0x10000) div 1024 + 0xD800) mod 0x10000),
            nat (((ch - 0x10000) mod 1024 + 0xDC00) mod 0x10000)])"

section \<open>The regular expression validator\<close>

subsection \<open>The validation state\<close>

text \<open>
  The reading operations of \<open>RegExpValidationState\<close>. Codes are integers, \<open>-1\<close> at
  the end of the pattern. With the \<open>u\<close> flag (or \<open>forceU\<close>) a surrogate pair is read
  as one code point.
\<close>

definition state_at :: "RegExpValidationState \<Rightarrow> nat \<Rightarrow> bool \<Rightarrow> int" where
  "state_at s i forceU =
     (let l = length (source s) in
      if i \<ge> l then - 1
      else
        let c = source s ! i in
        if \<not> (forceU \<or> switchU s) \<or> c \<le> 0xD7FF \<or> c \<ge> 0xE000 \<or> i + 1 \<ge> l then int c
        else
          let next = source s ! (i + 1) in
          if next \<ge> 0xDC00 \<and> next \<le> 0xDFFF then int (c * 1024 + next) - 0x35FDC00 else int c)"

definition state_nextIndex :: "RegExpValidationState \<Rightarrow> nat \<Rightarrow> bool \<Rightarrow> nat" where
  "state_nextIndex s i forceU =
     (let l = length (source s) in
      if i \<ge> l then l
      else
        let c = source s ! i in
        if \<not> (forceU \<or> switchU s) \<or> c \<le> 0xD7FF \<or> c \<ge> 0xE000 \<or> i + 1 \<ge> l \<or>
           source s ! (i + 1) < 0xDC00 \<or> source s ! (i + 1) > 0xDFFF
        then i + 1 else i + 2)"

definition state_current :: "RegExpValidationState \<Rightarrow> bool \<Rightarrow> int" where
  "state_current s forceU = state_at s (rpos s) forceU"

definition state_lookahead :: "RegExpValidationState \<Rightarrow> bool \<Rightarrow> int" where
  "state_lookahead s forceU = state_at s (state_nextIndex s (rpos s) forceU) forceU"

definition state_advance :: "RegExpValidationState \<Rightarrow> bool \<Rightarrow> RegExpValidationState" where
  "state_advance s forceU = s\<lparr>rpos := state_nextIndex s (rpos s) forceU\<rparr>"

type_synonym 'a RM = "RegExpValidationState \<Rightarrow> ('a, RegExpValidationState) result"

definition state_eat :: "int \<Rightarrow> bool \<Rightarrow> bool RM" where
  "state_eat ch forceU s =
     (if state_current s forceU = ch then Ok True (state_advance s forceU) else Ok False s)"

text \<open>
  \<open>state.raise(message)\<close> goes through the parser's \<open>raiseRecoverable\<close> at the start
  of the literal. Inside the validator the exception carries the reason alone; the
  tokenizer completes it (\<open>readRegexp\<close>).
\<close>




definition state_raise :: "string \<Rightarrow> 'a RM" where
  "state_raise message s = Err (RegExpReason message) s"

definition isSyntaxCharacter :: "int \<Rightarrow> bool" where
  "isSyntaxCharacter ch =
     (ch = 0x24 \<or> (ch \<ge> 0x28 \<and> ch \<le> 0x2B) \<or> ch = 0x2E \<or> ch = 0x3F \<or>
      (ch \<ge> 0x5B \<and> ch \<le> 0x5E) \<or> (ch \<ge> 0x7B \<and> ch \<le> 0x7D))"

definition isRegExpIdentifierStart :: "int \<Rightarrow> bool option" where
  "isRegExpIdentifierStart ch =
     (case isIdentifierStart ch True of None \<Rightarrow> None
      | Some b \<Rightarrow> Some (b \<or> ch = 0x24 \<or> ch = 0x5F))"

definition isRegExpIdentifierPart :: "int \<Rightarrow> bool option" where
  "isRegExpIdentifierPart ch =
     (case isIdentifierChar ch True of None \<Rightarrow> None
      | Some b \<Rightarrow> Some (b \<or> ch = 0x24 \<or> ch = 0x5F \<or> ch = 0x200C \<or> ch = 0x200D))"

definition isControlLetter :: "int \<Rightarrow> bool" where
  "isControlLetter ch = ((ch \<ge> 0x41 \<and> ch \<le> 0x5A) \<or> (ch \<ge> 0x61 \<and> ch \<le> 0x7A))"

definition isValidUnicode :: "int \<Rightarrow> bool" where
  "isValidUnicode ch = (ch \<ge> 0 \<and> ch \<le> 0x10FFFF)"

definition isCharacterClassEscape :: "int \<Rightarrow> bool" where
  "isCharacterClassEscape ch =
     (ch = 0x64 \<or> ch = 0x44 \<or> ch = 0x73 \<or> ch = 0x53 \<or> ch = 0x77 \<or> ch = 0x57)"

definition isDecimalDigit :: "int \<Rightarrow> bool" where
  "isDecimalDigit ch = (ch \<ge> 0x30 \<and> ch \<le> 0x39)"

definition isUnicodePropertyNameCharacter :: "int \<Rightarrow> bool" where
  "isUnicodePropertyNameCharacter ch = (isControlLetter ch \<or> ch = 0x5F)"

definition isUnicodePropertyValueCharacter :: "int \<Rightarrow> bool" where
  "isUnicodePropertyValueCharacter ch = (isUnicodePropertyNameCharacter ch \<or> isDecimalDigit ch)"

definition isHexDigit :: "int \<Rightarrow> bool" where
  "isHexDigit ch =
     ((ch \<ge> 0x30 \<and> ch \<le> 0x39) \<or> (ch \<ge> 0x41 \<and> ch \<le> 0x46) \<or> (ch \<ge> 0x61 \<and> ch \<le> 0x66))"

definition hexToInt :: "int \<Rightarrow> int" where
  "hexToInt ch =
     (if ch \<ge> 0x41 \<and> ch \<le> 0x46 then 10 + (ch - 0x41)
      else if ch \<ge> 0x61 \<and> ch \<le> 0x66 then 10 + (ch - 0x61)
      else ch - 0x30)"

definition isOctalDigit :: "int \<Rightarrow> bool" where
  "isOctalDigit ch = (ch \<ge> 0x30 \<and> ch \<le> 0x37)"

text \<open>
  A code from an identifier.js table that is not decided here stops the validation with
  \<open>Unmodelled\<close>.
\<close>

definition state_known :: "bool option \<Rightarrow> bool RM" where
  "state_known v s = known ''identifier.js'' v s"

subsection \<open>Digits and escapes\<close>

lemma state_current_in_range:
  "state_current s forceU \<noteq> - 1 \<Longrightarrow> rpos s < length (source s)"
  by (auto simp: state_current_def state_at_def Let_def split: if_splits)

lemma state_advance_measure:
  "rpos s < length (source s) \<Longrightarrow>
   length (source (state_advance s forceU)) - rpos (state_advance s forceU) < length (source s) - rpos s"
  by (auto simp: state_advance_def state_nextIndex_def Let_def)

lemma state_current_lastIntValue [simp]:
  "state_current (s\<lparr>lastIntValue := v\<rparr>) forceU = state_current s forceU"
  by (simp add: state_current_def state_at_def Let_def)

text \<open>The loop of \<open>regexp_eatDecimalDigits\<close> (and the tail of \<open>regexp_eatDecimalEscape\<close>).\<close>

function decimalDigits_loop :: "RegExpValidationState \<Rightarrow> RegExpValidationState" where
  "decimalDigits_loop s =
     (if isDecimalDigit (state_current s False)
      then decimalDigits_loop
             (state_advance (s\<lparr>lastIntValue := 10 * lastIntValue s + (state_current s False - 0x30)\<rparr>) False)
      else s)"
  by pat_completeness auto
termination
proof (relation "measure (\<lambda>s. length (source s) - rpos s)")
  show "wf (measure (\<lambda>s. length (source s) - rpos s))" by simp
next
  fix s assume d: "isDecimalDigit (state_current s False)"
  let ?s = "s\<lparr>lastIntValue := 10 * lastIntValue s + (state_current s False - 0x30)\<rparr>"
  have "state_current ?s False \<noteq> - 1"
    using d by (auto simp: isDecimalDigit_def)
  then have "rpos ?s < length (source ?s)" by (rule state_current_in_range)
  then show "(state_advance ?s False, s) \<in> measure (\<lambda>s. length (source s) - rpos s)"
    using state_advance_measure [of ?s False] by simp
qed

declare decimalDigits_loop.simps [simp del]

definition regexp_eatDecimalDigits :: "bool RM" where
  "regexp_eatDecimalDigits s =
     (let s' = decimalDigits_loop (s\<lparr>lastIntValue := 0\<rparr>) in Ok (rpos s' \<noteq> rpos s) s')"

function hexDigits_loop :: "RegExpValidationState \<Rightarrow> RegExpValidationState" where
  "hexDigits_loop s =
     (if isHexDigit (state_current s False)
      then hexDigits_loop
             (state_advance (s\<lparr>lastIntValue := 16 * lastIntValue s + hexToInt (state_current s False)\<rparr>) False)
      else s)"
  by pat_completeness auto
termination
proof (relation "measure (\<lambda>s. length (source s) - rpos s)")
  show "wf (measure (\<lambda>s. length (source s) - rpos s))" by simp
next
  fix s assume d: "isHexDigit (state_current s False)"
  let ?s = "s\<lparr>lastIntValue := 16 * lastIntValue s + hexToInt (state_current s False)\<rparr>"
  have "state_current ?s False \<noteq> - 1"
    using d by (auto simp: isHexDigit_def)
  then have "rpos ?s < length (source ?s)" by (rule state_current_in_range)
  then show "(state_advance ?s False, s) \<in> measure (\<lambda>s. length (source s) - rpos s)"
    using state_advance_measure [of ?s False] by simp
qed

declare hexDigits_loop.simps [simp del]

definition regexp_eatHexDigits :: "bool RM" where
  "regexp_eatHexDigits s =
     (let s' = hexDigits_loop (s\<lparr>lastIntValue := 0\<rparr>) in Ok (rpos s' \<noteq> rpos s) s')"

text \<open>The \<open>for\<close> loop of \<open>regexp_eatFixedHexDigits\<close>, with \<open>start0\<close> the position to go back to.\<close>

fun fixedHexDigits_loop :: "nat \<Rightarrow> nat \<Rightarrow> bool RM" where
  "fixedHexDigits_loop start0 0 s = Ok True s"
| "fixedHexDigits_loop start0 (Suc n) s =
     (let ch = state_current s False in
      if \<not> isHexDigit ch then Ok False (s\<lparr>rpos := start0\<rparr>)
      else fixedHexDigits_loop start0 n
             (state_advance (s\<lparr>lastIntValue := 16 * lastIntValue s + hexToInt ch\<rparr>) False))"

definition regexp_eatFixedHexDigits :: "nat \<Rightarrow> bool RM" where
  "regexp_eatFixedHexDigits len s = fixedHexDigits_loop (rpos s) len (s\<lparr>lastIntValue := 0\<rparr>)"

definition regexp_eatOctalDigit :: "bool RM" where
  "regexp_eatOctalDigit s =
     (let ch = state_current s False in
      if isOctalDigit ch then Ok True (state_advance (s\<lparr>lastIntValue := ch - 0x30\<rparr>) False)
      else Ok False (s\<lparr>lastIntValue := 0\<rparr>))"

definition regexp_eatLegacyOctalEscapeSequence :: "bool RM" where
  "regexp_eatLegacyOctalEscapeSequence s =
     bind regexp_eatOctalDigit (\<lambda>d1 s1.
       if d1 then
         (let n1 = lastIntValue s1 in
          bind regexp_eatOctalDigit (\<lambda>d2 s2.
            if d2 then
              (let n2 = lastIntValue s2 in
               bind (if n1 \<le> 3 then regexp_eatOctalDigit else ret False) (\<lambda>d3 s3.
                 if d3 then Ok True (s3\<lparr>lastIntValue := n1 * 64 + n2 * 8 + lastIntValue s3\<rparr>)
                 else Ok True (s3\<lparr>lastIntValue := n1 * 8 + n2\<rparr>)) s2)
            else Ok True (s2\<lparr>lastIntValue := n1\<rparr>)) s1)
       else Ok False s1) s"

definition regexp_eatHexEscapeSequence :: "bool RM" where
  "regexp_eatHexEscapeSequence s =
     (let start0 = rpos s in
      bind (state_eat 0x78 False) (\<lambda>x s1.
        if x then
          bind (regexp_eatFixedHexDigits 2) (\<lambda>h s2.
            if h then Ok True s2
            else if switchU s2 then state_raise ''Invalid escape'' s2
            else Ok False (s2\<lparr>rpos := start0\<rparr>)) s1
        else Ok False s1) s)"

definition regexp_eatClassControlLetter :: "bool RM" where
  "regexp_eatClassControlLetter s =
     (let ch = state_current s False in
      if isDecimalDigit ch \<or> ch = 0x5f
      then Ok True (state_advance (s\<lparr>lastIntValue := ch mod 0x20\<rparr>) False)
      else Ok False s)"

definition regexp_eatControlLetter :: "bool RM" where
  "regexp_eatControlLetter s =
     (let ch = state_current s False in
      if isControlLetter ch then Ok True (state_advance (s\<lparr>lastIntValue := ch mod 0x20\<rparr>) False)
      else Ok False s)"

definition regexp_eatControlEscape :: "bool RM" where
  "regexp_eatControlEscape s =
     (let ch = state_current s False in
      if ch = 0x74 then Ok True (state_advance (s\<lparr>lastIntValue := 0x09\<rparr>) False)
      else if ch = 0x6e then Ok True (state_advance (s\<lparr>lastIntValue := 0x0a\<rparr>) False)
      else if ch = 0x76 then Ok True (state_advance (s\<lparr>lastIntValue := 0x0b\<rparr>) False)
      else if ch = 0x66 then Ok True (state_advance (s\<lparr>lastIntValue := 0x0c\<rparr>) False)
      else if ch = 0x72 then Ok True (state_advance (s\<lparr>lastIntValue := 0x0d\<rparr>) False)
      else Ok False s)"

definition regexp_eatZero :: "bool RM" where
  "regexp_eatZero s =
     (if state_current s False = 0x30 \<and> \<not> isDecimalDigit (state_lookahead s False)
      then Ok True (state_advance (s\<lparr>lastIntValue := 0\<rparr>) False)
      else Ok False s)"

definition regexp_eatCControlLetter :: "bool RM" where
  "regexp_eatCControlLetter s =
     (let start0 = rpos s in
      bind (state_eat 0x63 False) (\<lambda>c s1.
        if c then
          bind regexp_eatControlLetter (\<lambda>l s2.
            if l then Ok True s2 else Ok False (s2\<lparr>rpos := start0\<rparr>)) s1
        else Ok False s1) s)"

definition regexp_eatSyntaxCharacter :: "bool RM" where
  "regexp_eatSyntaxCharacter s =
     (let ch = state_current s False in
      if isSyntaxCharacter ch then Ok True (state_advance (s\<lparr>lastIntValue := ch\<rparr>) False)
      else Ok False s)"

definition regexp_eatIdentityEscape :: "bool RM" where
  "regexp_eatIdentityEscape s =
     (if switchU s then
        bind regexp_eatSyntaxCharacter (\<lambda>y s1.
          if y then Ok True s1
          else
            bind (state_eat 0x2f False) (\<lambda>sl s2.
              if sl then Ok True (s2\<lparr>lastIntValue := 0x2f\<rparr>) else Ok False s2) s1) s
      else
        (let ch = state_current s False in
         if ch \<noteq> 0x63 \<and> (\<not> switchN s \<or> ch \<noteq> 0x6b)
         then Ok True (state_advance (s\<lparr>lastIntValue := ch\<rparr>) False)
         else Ok False s))"

definition regexp_eatRegExpUnicodeEscapeSequence :: "bool \<Rightarrow> bool RM" where
  "regexp_eatRegExpUnicodeEscapeSequence forceU s =
     (let start0 = rpos s; switchU' = (forceU \<or> switchU s) in
      bind (state_eat 0x75 False) (\<lambda>u s1.
        if \<not> u then Ok False s1
        else
          bind (regexp_eatFixedHexDigits 4) (\<lambda>h s2.
            if h then
              (let lead = lastIntValue s2 in
               if switchU' \<and> lead \<ge> 0xd800 \<and> lead \<le> 0xdbff then
                 (let leadSurrogateEnd = rpos s2 in
                  bind (andAlso (state_eat 0x5c False)
                         (andAlso (state_eat 0x75 False) (regexp_eatFixedHexDigits 4))) (\<lambda>t s3.
                    let trail = lastIntValue s3 in
                    if t \<and> trail \<ge> 0xdc00 \<and> trail \<le> 0xdfff
                    then Ok True (s3\<lparr>lastIntValue := (lead - 0xd800) * 0x400 + (trail - 0xdc00) + 0x10000\<rparr>)
                    else Ok True (s3\<lparr>rpos := leadSurrogateEnd, lastIntValue := lead\<rparr>)) s2)
               else Ok True s2)
            else
              bind (if switchU'
                    then andAlso (state_eat 0x7b False)
                           (andAlso regexp_eatHexDigits
                              (andAlso (state_eat 0x7d False)
                                 (\<lambda>s4. Ok (isValidUnicode (lastIntValue s4)) s4)))
                    else ret False) (\<lambda>b s3.
                if b then Ok True s3
                else if switchU' then state_raise ''Invalid unicode escape'' s3
                else Ok False (s3\<lparr>rpos := start0\<rparr>)) s2) s1) s)"

definition regexp_eatCharacterEscape :: "bool RM" where
  "regexp_eatCharacterEscape s =
     orElse regexp_eatControlEscape
       (orElse regexp_eatCControlLetter
          (orElse regexp_eatZero
             (orElse regexp_eatHexEscapeSequence
                (orElse (regexp_eatRegExpUnicodeEscapeSequence False)
                   (orElse (\<lambda>s1. if \<not> switchU s1 then regexp_eatLegacyOctalEscapeSequence s1
                                    else Ok False s1)
                      regexp_eatIdentityEscape))))) s"

definition regexp_eatDecimalEscape :: "bool RM" where
  "regexp_eatDecimalEscape s =
     (let s0 = s\<lparr>lastIntValue := 0\<rparr>; ch = state_current s0 False in
      if ch \<ge> 0x31 \<and> ch \<le> 0x39
      then Ok True (decimalDigits_loop
                      (state_advance (s0\<lparr>lastIntValue := 10 * lastIntValue s0 + (ch - 0x30)\<rparr>) False))
      else Ok False s0)"

subsection \<open>Unicode property escapes\<close>

text \<open>
  Modelled from the spec: unicode-property-data.js is not among the sources, and the spec
  treats the table of Unicode property names and values as supplied from outside. The
  two validations against it stop with \<open>Unmodelled\<close>.
\<close>

definition regexp_validateUnicodePropertyNameAndValue :: "jsstring \<Rightarrow> jsstring \<Rightarrow> unit RM" where
  "regexp_validateUnicodePropertyNameAndValue name' val s =
     Err (Unmodelled ''unicode-property-data.js'') s"

definition regexp_validateUnicodePropertyNameOrValue :: "jsstring \<Rightarrow> unit RM" where
  "regexp_validateUnicodePropertyNameOrValue nameOrValue s =
     Err (Unmodelled ''unicode-property-data.js'') s"

function unicodePropertyName_loop :: "RegExpValidationState \<Rightarrow> RegExpValidationState" where
  "unicodePropertyName_loop s =
     (if isUnicodePropertyNameCharacter (state_current s False)
      then unicodePropertyName_loop
             (state_advance
                (s\<lparr>lastStringValue := lastStringValue s @ codePointToString (state_current s False)\<rparr>) False)
      else s)"
  by pat_completeness auto
termination
proof (relation "measure (\<lambda>s. length (source s) - rpos s)")
  show "wf (measure (\<lambda>s. length (source s) - rpos s))" by simp
next
  fix s assume d: "isUnicodePropertyNameCharacter (state_current s False)"
  let ?s = "s\<lparr>lastStringValue := lastStringValue s @ codePointToString (state_current s False)\<rparr>"
  have "state_current ?s False = state_current s False"
    by (simp add: state_current_def state_at_def Let_def)
  then have "state_current ?s False \<noteq> - 1"
    using d by (auto simp: isUnicodePropertyNameCharacter_def isControlLetter_def)
  then have "rpos ?s < length (source ?s)" by (rule state_current_in_range)
  then show "(state_advance ?s False, s) \<in> measure (\<lambda>s. length (source s) - rpos s)"
    using state_advance_measure [of ?s False] by simp
qed

declare unicodePropertyName_loop.simps [simp del]

definition regexp_eatUnicodePropertyName :: "bool RM" where
  "regexp_eatUnicodePropertyName s =
     (let s' = unicodePropertyName_loop (s\<lparr>lastStringValue := []\<rparr>) in
      Ok (lastStringValue s' \<noteq> []) s')"

function unicodePropertyValue_loop :: "RegExpValidationState \<Rightarrow> RegExpValidationState" where
  "unicodePropertyValue_loop s =
     (if isUnicodePropertyValueCharacter (state_current s False)
      then unicodePropertyValue_loop
             (state_advance
                (s\<lparr>lastStringValue := lastStringValue s @ codePointToString (state_current s False)\<rparr>) False)
      else s)"
  by pat_completeness auto
termination
proof (relation "measure (\<lambda>s. length (source s) - rpos s)")
  show "wf (measure (\<lambda>s. length (source s) - rpos s))" by simp
next
  fix s assume d: "isUnicodePropertyValueCharacter (state_current s False)"
  let ?s = "s\<lparr>lastStringValue := lastStringValue s @ codePointToString (state_current s False)\<rparr>"
  have "state_current ?s False = state_current s False"
    by (simp add: state_current_def state_at_def Let_def)
  then have "state_current ?s False \<noteq> - 1"
    using d by (auto simp: isUnicodePropertyValueCharacter_def isUnicodePropertyNameCharacter_def
        isControlLetter_def isDecimalDigit_def)
  then have "rpos ?s < length (source ?s)" by (rule state_current_in_range)
  then show "(state_advance ?s False, s) \<in> measure (\<lambda>s. length (source s) - rpos s)"
    using state_advance_measure [of ?s False] by simp
qed

declare unicodePropertyValue_loop.simps [simp del]

definition regexp_eatUnicodePropertyValue :: "bool RM" where
  "regexp_eatUnicodePropertyValue s =
     (let s' = unicodePropertyValue_loop (s\<lparr>lastStringValue := []\<rparr>) in
      Ok (lastStringValue s' \<noteq> []) s')"

definition regexp_eatLoneUnicodePropertyNameOrValue :: "bool RM" where
  "regexp_eatLoneUnicodePropertyNameOrValue s = regexp_eatUnicodePropertyValue s"

definition regexp_eatUnicodePropertyValueExpression :: "bool RM" where
  "regexp_eatUnicodePropertyValueExpression s =
     (let start0 = rpos s in
      bind (andAlso regexp_eatUnicodePropertyName (state_eat 0x3d False)) (\<lambda>b s1.
        bind (if b then
                (\<lambda>s2. let name' = lastStringValue s2 in
                   bind regexp_eatUnicodePropertyValue (\<lambda>v s3.
                     if v then
                       seq (regexp_validateUnicodePropertyNameAndValue name' (lastStringValue s3))
                         (ret True) s3
                     else Ok False s3) s2)
              else ret False) (\<lambda>done' s4.
          if done' then Ok True s4
          else
            bind regexp_eatLoneUnicodePropertyNameOrValue (\<lambda>l s5.
              if l then
                seq (regexp_validateUnicodePropertyNameOrValue (lastStringValue s5)) (ret True) s5
              else Ok False s5) (s4\<lparr>rpos := start0\<rparr>)) s1) s)"

definition regexp_eatCharacterClassEscape :: "nat \<Rightarrow> bool RM" where
  "regexp_eatCharacterClassEscape ev s =
     (let ch = state_current s False in
      if isCharacterClassEscape ch then Ok True (state_advance (s\<lparr>lastIntValue := - 1\<rparr>) False)
      else if switchU s \<and> ev \<ge> 9 \<and> (ch = 0x50 \<or> ch = 0x70) then
        bind (andAlso (state_eat 0x7b False)
               (andAlso regexp_eatUnicodePropertyValueExpression (state_eat 0x7d False))) (\<lambda>b s1.
          if b then Ok True s1 else state_raise ''Invalid property name'' s1)
          (state_advance (s\<lparr>lastIntValue := - 1\<rparr>) False)
      else Ok False s)"

subsection \<open>Character classes\<close>

definition regexp_eatClassEscape :: "nat \<Rightarrow> bool RM" where
  "regexp_eatClassEscape ev s =
     (let start0 = rpos s in
      bind (state_eat 0x62 False) (\<lambda>b s1.
        if b then Ok True (s1\<lparr>lastIntValue := 0x08\<rparr>)
        else
          bind (if switchU s1 then state_eat 0x2d False else ret False) (\<lambda>d s2.
            if d then Ok True (s2\<lparr>lastIntValue := 0x2d\<rparr>)
            else
              bind (if \<not> switchU s2 then state_eat 0x63 False else ret False) (\<lambda>c s3.
                bind (if c then regexp_eatClassControlLetter else ret False) (\<lambda>l s4.
                  if l then Ok True s4
                  else
                    orElse (regexp_eatCharacterClassEscape ev) regexp_eatCharacterEscape
                      (if c then s4\<lparr>rpos := start0\<rparr> else s4)) s3) s2) s1) s)"

definition regexp_eatClassAtom :: "nat \<Rightarrow> bool RM" where
  "regexp_eatClassAtom ev s =
     (let start0 = rpos s in
      bind (state_eat 0x5c False) (\<lambda>bs s1.
        bind (if bs then regexp_eatClassEscape ev else ret False) (\<lambda>e s2.
          if e then Ok True s2
          else if bs \<and> switchU s2 then
            (let ch = state_current s2 False in
             if ch = 0x63 \<or> isOctalDigit ch then state_raise ''Invalid class escape'' s2
             else state_raise ''Invalid escape'' s2)
          else
            (let s3 = (if bs then s2\<lparr>rpos := start0\<rparr> else s2); ch = state_current s3 False in
             if ch \<noteq> 0x5d then Ok True (state_advance (s3\<lparr>lastIntValue := ch\<rparr>) False)
             else Ok False s3)) s1) s)"

text \<open>
  The loop of \<open>regexp_classRanges\<close>. The loops of the validator that call other
  operations run on fuel; every turn that goes round again has consumed a character.
\<close>

primrec regexp_classRanges_loop :: "nat \<Rightarrow> nat \<Rightarrow> unit RM" where
  "regexp_classRanges_loop 0 ev s = Err OutOfFuel s"
| "regexp_classRanges_loop (Suc k) ev s =
     bind (regexp_eatClassAtom ev) (\<lambda>a s1.
       if \<not> a then Ok () s1
       else
         (let left = lastIntValue s1 in
          bind (andAlso (state_eat 0x2d False) (regexp_eatClassAtom ev)) (\<lambda>r s2.
            if r then
              (let right = lastIntValue s2 in
               if switchU s2 \<and> (left = - 1 \<or> right = - 1)
               then state_raise ''Invalid character class'' s2
               else if left \<noteq> - 1 \<and> right \<noteq> - 1 \<and> left > right
               then state_raise ''Range out of order in character class'' s2
               else regexp_classRanges_loop k ev s2)
            else regexp_classRanges_loop k ev s2) s1)) s"

definition regexp_classRanges :: "nat \<Rightarrow> unit RM" where
  "regexp_classRanges ev s = regexp_classRanges_loop (Suc (length (source s))) ev s"

definition regexp_eatCharacterClass :: "nat \<Rightarrow> bool RM" where
  "regexp_eatCharacterClass ev s =
     bind (state_eat 0x5b False) (\<lambda>b s1.
       if b then
         seq (state_eat 0x5e False)
           (seq (regexp_classRanges ev)
              (bind (state_eat 0x5d False) (\<lambda>c s2.
                 if c then Ok True s2 else state_raise ''Unterminated character class'' s2))) s1
       else Ok False s1) s"

subsection \<open>Group names and back references\<close>

definition regexp_eatRegExpIdentifierStart :: "nat \<Rightarrow> bool RM" where
  "regexp_eatRegExpIdentifierStart ev s =
     (let start0 = rpos s; forceU = (ev \<ge> 11); ch = state_current s forceU in
      bind (if ch = 0x5c then regexp_eatRegExpUnicodeEscapeSequence forceU else ret False) (\<lambda>u s1.
        let ch' = (if u then lastIntValue s1 else ch) in
        bind (state_known (isRegExpIdentifierStart ch')) (\<lambda>i s2.
          if i then Ok True (s2\<lparr>lastIntValue := ch'\<rparr>)
          else Ok False (s2\<lparr>rpos := start0\<rparr>)) s1) (state_advance s forceU))"

definition regexp_eatRegExpIdentifierPart :: "nat \<Rightarrow> bool RM" where
  "regexp_eatRegExpIdentifierPart ev s =
     (let start0 = rpos s; forceU = (ev \<ge> 11); ch = state_current s forceU in
      bind (if ch = 0x5c then regexp_eatRegExpUnicodeEscapeSequence forceU else ret False) (\<lambda>u s1.
        let ch' = (if u then lastIntValue s1 else ch) in
        bind (state_known (isRegExpIdentifierPart ch')) (\<lambda>i s2.
          if i then Ok True (s2\<lparr>lastIntValue := ch'\<rparr>)
          else Ok False (s2\<lparr>rpos := start0\<rparr>)) s1) (state_advance s forceU))"

primrec regexp_eatRegExpIdentifierName_loop :: "nat \<Rightarrow> nat \<Rightarrow> unit RM" where
  "regexp_eatRegExpIdentifierName_loop 0 ev s = Err OutOfFuel s"
| "regexp_eatRegExpIdentifierName_loop (Suc k) ev s =
     bind (regexp_eatRegExpIdentifierPart ev) (\<lambda>b s1.
       if b then
         regexp_eatRegExpIdentifierName_loop k ev
           (s1\<lparr>lastStringValue := lastStringValue s1 @ codePointToString (lastIntValue s1)\<rparr>)
       else Ok () s1) s"

definition regexp_eatRegExpIdentifierName :: "nat \<Rightarrow> bool RM" where
  "regexp_eatRegExpIdentifierName ev s =
     bind (regexp_eatRegExpIdentifierStart ev) (\<lambda>b s1.
       if b then
         seq (regexp_eatRegExpIdentifierName_loop (Suc (length (source s1))) ev) (ret True)
           (s1\<lparr>lastStringValue := lastStringValue s1 @ codePointToString (lastIntValue s1)\<rparr>)
       else Ok False s1) (s\<lparr>lastStringValue := []\<rparr>)"

definition regexp_eatGroupName :: "nat \<Rightarrow> bool RM" where
  "regexp_eatGroupName ev s =
     bind (state_eat 0x3c False) (\<lambda>lt s1.
       if lt then
         bind (andAlso (regexp_eatRegExpIdentifierName ev) (state_eat 0x3e False)) (\<lambda>b s2.
           if b then Ok True s2 else state_raise ''Invalid capture group name'' s2) s1
       else Ok False s1) (s\<lparr>lastStringValue := []\<rparr>)"

definition regexp_groupSpecifier :: "nat \<Rightarrow> unit RM" where
  "regexp_groupSpecifier ev s =
     bind (state_eat 0x3f False) (\<lambda>q s1.
       if q then
         bind (regexp_eatGroupName ev) (\<lambda>g s2.
           if g then
             (if lastStringValue s2 \<in> set (groupNames s2)
              then state_raise ''Duplicate capture group name'' s2
              else Ok () (s2\<lparr>groupNames := groupNames s2 @ [lastStringValue s2]\<rparr>))
           else state_raise ''Invalid group'' s2) s1
       else Ok () s1) s"

definition regexp_eatKGroupName :: "nat \<Rightarrow> bool RM" where
  "regexp_eatKGroupName ev s =
     bind (state_eat 0x6b False) (\<lambda>k s1.
       if k then
         bind (regexp_eatGroupName ev) (\<lambda>g s2.
           if g then Ok True (s2\<lparr>backReferenceNames := backReferenceNames s2 @ [lastStringValue s2]\<rparr>)
           else state_raise ''Invalid named reference'' s2) s1
       else Ok False s1) s"

definition regexp_eatBackReference :: "bool RM" where
  "regexp_eatBackReference s =
     (let start0 = rpos s in
      bind regexp_eatDecimalEscape (\<lambda>d s1.
        if d then
          (let n = lastIntValue s1 in
           if switchU s1 then
             Ok True (if n > maxBackReference s1 then s1\<lparr>maxBackReference := n\<rparr> else s1)
           else if n \<le> int (numCapturingParens s1) then Ok True s1
           else Ok False (s1\<lparr>rpos := start0\<rparr>))
        else Ok False s1) s)"

definition regexp_eatAtomEscape :: "nat \<Rightarrow> bool RM" where
  "regexp_eatAtomEscape ev s =
     bind (orElse regexp_eatBackReference
            (orElse (regexp_eatCharacterClassEscape ev)
               (orElse regexp_eatCharacterEscape
                  (\<lambda>s1. if switchN s1 then regexp_eatKGroupName ev s1 else Ok False s1)))) (\<lambda>b s2.
       if b then Ok True s2
       else if switchU s2 then
         (if state_current s2 False = 0x63 then state_raise ''Invalid unicode escape'' s2
          else state_raise ''Invalid escape'' s2)
       else Ok False s2) s"

definition regexp_eatReverseSolidusAtomEscape :: "nat \<Rightarrow> bool RM" where
  "regexp_eatReverseSolidusAtomEscape ev s =
     (let start0 = rpos s in
      bind (state_eat 0x5c False) (\<lambda>b s1.
        if b then
          bind (regexp_eatAtomEscape ev) (\<lambda>a s2.
            if a then Ok True s2 else Ok False (s2\<lparr>rpos := start0\<rparr>)) s1
        else Ok False s1) s)"

subsection \<open>Atoms and quantifiers\<close>

function patternCharacters_loop :: "RegExpValidationState \<Rightarrow> RegExpValidationState" where
  "patternCharacters_loop s =
     (if state_current s False \<noteq> - 1 \<and> \<not> isSyntaxCharacter (state_current s False)
      then patternCharacters_loop (state_advance s False)
      else s)"
  by pat_completeness auto
termination
proof (relation "measure (\<lambda>s. length (source s) - rpos s)")
  show "wf (measure (\<lambda>s. length (source s) - rpos s))" by simp
next
  fix s assume "state_current s False \<noteq> - 1 \<and> \<not> isSyntaxCharacter (state_current s False)"
  then have "rpos s < length (source s)" using state_current_in_range by blast
  then show "(state_advance s False, s) \<in> measure (\<lambda>s. length (source s) - rpos s)"
    using state_advance_measure [of s False] by simp
qed

declare patternCharacters_loop.simps [simp del]

definition regexp_eatPatternCharacters :: "bool RM" where
  "regexp_eatPatternCharacters s =
     (let s' = patternCharacters_loop s in Ok (rpos s' \<noteq> rpos s) s')"

definition regexp_eatExtendedPatternCharacter :: "bool RM" where
  "regexp_eatExtendedPatternCharacter s =
     (let ch = state_current s False in
      if ch \<noteq> - 1 \<and> ch \<noteq> 0x24 \<and> \<not> (ch \<ge> 0x28 \<and> ch \<le> 0x2b) \<and> ch \<noteq> 0x2e \<and> ch \<noteq> 0x3f \<and>
         ch \<noteq> 0x5b \<and> ch \<noteq> 0x5e \<and> ch \<noteq> 0x7c
      then Ok True (state_advance s False)
      else Ok False s)"

definition regexp_eatBracedQuantifier :: "bool \<Rightarrow> bool RM" where
  "regexp_eatBracedQuantifier noError s =
     (let start0 = rpos s in
      bind (state_eat 0x7b False) (\<lambda>b s1.
        if \<not> b then Ok False s1
        else
          bind regexp_eatDecimalDigits (\<lambda>d s2.
            bind (if d then
                    (\<lambda>s3. let min' = lastIntValue s3 in
                       bind (andAlso (state_eat 0x2c False) regexp_eatDecimalDigits) (\<lambda>c s4.
                         let max' = (if c then lastIntValue s4 else - 1) in
                         bind (state_eat 0x7d False) (\<lambda>e s5.
                           if e then
                             (if max' \<noteq> - 1 \<and> max' < min' \<and> \<not> noError
                              then state_raise ''numbers out of order in {} quantifier'' s5
                              else Ok True s5)
                           else Ok False s5) s4) s3)
                  else ret False) (\<lambda>done' s6.
              if done' then Ok True s6
              else if switchU s6 \<and> \<not> noError then state_raise ''Incomplete quantifier'' s6
              else Ok False (s6\<lparr>rpos := start0\<rparr>)) s2) s1) s)"

definition regexp_eatQuantifierPrefix :: "bool \<Rightarrow> bool RM" where
  "regexp_eatQuantifierPrefix noError s =
     orElse (state_eat 0x2a False)
       (orElse (state_eat 0x2b False)
          (orElse (state_eat 0x3f False) (regexp_eatBracedQuantifier noError))) s"

definition regexp_eatQuantifier :: "bool \<Rightarrow> bool RM" where
  "regexp_eatQuantifier noError s =
     bind (regexp_eatQuantifierPrefix noError) (\<lambda>q s1.
       if q then seq (state_eat 0x3f False) (ret True) s1 else Ok False s1) s"

definition regexp_eatInvalidBracedQuantifier :: "bool RM" where
  "regexp_eatInvalidBracedQuantifier s =
     bind (regexp_eatBracedQuantifier True) (\<lambda>b s1.
       if b then state_raise ''Nothing to repeat'' s1 else Ok False s1) s"

subsection \<open>Groups, terms and the pattern\<close>

text \<open>
  The operations from here on reach \<open>regexp_disjunction\<close> again through groups and
  lookaround assertions. They take the disjunction one level further in (\<open>inner\<close>) as an
  argument; \<open>regexp_disjunction\<close> closes the recursion on fuel.
\<close>

definition regexp_eatUncapturingGroup :: "unit RM \<Rightarrow> bool RM" where
  "regexp_eatUncapturingGroup inner s =
     (let start0 = rpos s in
      bind (state_eat 0x28 False) (\<lambda>b s1.
        if b then
          bind (andAlso (state_eat 0x3f False) (state_eat 0x3a False)) (\<lambda>q s2.
            if q then
              seq inner (bind (state_eat 0x29 False) (\<lambda>c s3.
                if c then Ok True s3 else state_raise ''Unterminated group'' s3)) s2
            else Ok False (s2\<lparr>rpos := start0\<rparr>)) s1
        else Ok False s1) s)"

definition regexp_eatCapturingGroup :: "unit RM \<Rightarrow> nat \<Rightarrow> bool RM" where
  "regexp_eatCapturingGroup inner ev s =
     bind (state_eat 0x28 False) (\<lambda>b s1.
       if b then
         seq (if ev \<ge> 9 then regexp_groupSpecifier ev
              else (\<lambda>s2. if state_current s2 False = 0x3f then state_raise ''Invalid group'' s2
                         else Ok () s2))
           (seq inner (bind (state_eat 0x29 False) (\<lambda>c s3.
              if c then Ok True (s3\<lparr>numCapturingParens := numCapturingParens s3 + 1\<rparr>)
              else state_raise ''Unterminated group'' s3))) s1
       else Ok False s1) s"

definition regexp_eatExtendedAtom :: "unit RM \<Rightarrow> nat \<Rightarrow> bool RM" where
  "regexp_eatExtendedAtom inner ev s =
     orElse (state_eat 0x2e False)
       (orElse (regexp_eatReverseSolidusAtomEscape ev)
          (orElse (regexp_eatCharacterClass ev)
             (orElse (regexp_eatUncapturingGroup inner)
                (orElse (regexp_eatCapturingGroup inner ev)
                   (orElse regexp_eatInvalidBracedQuantifier
                      regexp_eatExtendedPatternCharacter))))) s"

definition regexp_eatAtom :: "unit RM \<Rightarrow> nat \<Rightarrow> bool RM" where
  "regexp_eatAtom inner ev s =
     orElse regexp_eatPatternCharacters
       (orElse (state_eat 0x2e False)
          (orElse (regexp_eatReverseSolidusAtomEscape ev)
             (orElse (regexp_eatCharacterClass ev)
                (orElse (regexp_eatUncapturingGroup inner)
                   (regexp_eatCapturingGroup inner ev))))) s"

definition regexp_eatAssertion :: "unit RM \<Rightarrow> nat \<Rightarrow> bool RM" where
  "regexp_eatAssertion inner ev s =
     (let start0 = rpos s in
      bind (orElse (state_eat 0x5e False) (state_eat 0x24 False)) (\<lambda>a s1.
        if a then Ok True s1
        else
          bind (state_eat 0x5c False) (\<lambda>bs s2.
            bind (if bs then orElse (state_eat 0x42 False) (state_eat 0x62 False) else ret False) (\<lambda>b s3.
              if b then Ok True s3
              else
                bind (andAlso (state_eat 0x28 False) (state_eat 0x3f False)) (\<lambda>l s4.
                  if l then
                    bind (if ev \<ge> 9 then state_eat 0x3c False else ret False) (\<lambda>lookbehind s5.
                      bind (orElse (state_eat 0x3d False) (state_eat 0x21 False)) (\<lambda>e s6.
                        if e then
                          seq inner (bind (state_eat 0x29 False) (\<lambda>c s7.
                            if c then Ok True (s7\<lparr>lastAssertionIsQuantifiable := \<not> lookbehind\<rparr>)
                            else state_raise ''Unterminated group'' s7)) s6
                        else Ok False (s6\<lparr>rpos := start0\<rparr>)) s5) s4
                  else Ok False (s4\<lparr>rpos := start0\<rparr>))
                  (if bs then s3\<lparr>rpos := start0\<rparr> else s3)) s2) s1)
        (s\<lparr>lastAssertionIsQuantifiable := False\<rparr>))"

definition regexp_eatTerm :: "unit RM \<Rightarrow> nat \<Rightarrow> bool RM" where
  "regexp_eatTerm inner ev s =
     bind (regexp_eatAssertion inner ev) (\<lambda>a s1.
       if a then
         bind (if lastAssertionIsQuantifiable s1 then regexp_eatQuantifier False else ret False) (\<lambda>q s2.
           if q \<and> switchU s2 then state_raise ''Invalid quantifier'' s2 else Ok True s2) s1
       else
         bind (if switchU s1 then regexp_eatAtom inner ev else regexp_eatExtendedAtom inner ev) (\<lambda>t s2.
           if t then seq (regexp_eatQuantifier False) (ret True) s2 else Ok False s2) s1) s"

primrec regexp_alternative_loop :: "nat \<Rightarrow> unit RM \<Rightarrow> nat \<Rightarrow> unit RM" where
  "regexp_alternative_loop 0 inner ev s = Err OutOfFuel s"
| "regexp_alternative_loop (Suc k) inner ev s =
     (if rpos s < length (source s)
      then bind (regexp_eatTerm inner ev) (\<lambda>t s1.
             if t then regexp_alternative_loop k inner ev s1 else Ok () s1) s
      else Ok () s)"

definition regexp_alternative :: "unit RM \<Rightarrow> nat \<Rightarrow> unit RM" where
  "regexp_alternative inner ev s = regexp_alternative_loop (Suc (length (source s))) inner ev s"

primrec regexp_disjunction_loop :: "nat \<Rightarrow> unit RM \<Rightarrow> nat \<Rightarrow> unit RM" where
  "regexp_disjunction_loop 0 inner ev s = Err OutOfFuel s"
| "regexp_disjunction_loop (Suc k) inner ev s =
     bind (state_eat 0x7c False) (\<lambda>b s1.
       if b then seq (regexp_alternative inner ev) (regexp_disjunction_loop k inner ev) s1
       else Ok () s1) s"

primrec regexp_disjunction :: "nat \<Rightarrow> nat \<Rightarrow> unit RM" where
  "regexp_disjunction 0 ev s = Err OutOfFuel s"
| "regexp_disjunction (Suc n) ev s =
     seq (regexp_alternative (regexp_disjunction n ev) ev)
       (seq (regexp_disjunction_loop (Suc (length (source s))) (regexp_disjunction n ev) ev)
          (bind (regexp_eatQuantifier True) (\<lambda>q s1.
             if q then state_raise ''Nothing to repeat'' s1
             else
               bind (state_eat 0x7b False) (\<lambda>b s2.
                 if b then state_raise ''Lone quantifier brackets'' s2 else Ok () s2) s1))) s"

text \<open>
  \<open>regexp_pattern\<close>. A disjunction nests at most once per character of the pattern, so
  the fuel given here is never used up.
\<close>

definition regexp_pattern :: "nat \<Rightarrow> unit RM" where
  "regexp_pattern ev s =
     seq (regexp_disjunction (Suc (length (source s))) ev)
       (\<lambda>s1.
          bind (if rpos s1 \<noteq> length (source s1) then
                  (\<lambda>s2. bind (state_eat 0x29 False) (\<lambda>c s3.
                     if c then state_raise (''Unmatched ')'' @ [CHR 0x27]) s3
                     else
                       bind (orElse (state_eat 0x5d False) (state_eat 0x7d False)) (\<lambda>l s4.
                         if l then state_raise ''Lone quantifier brackets'' s4 else Ok () s4) s3) s2)
                else ret ()) (\<lambda>_ s5.
            if maxBackReference s5 > int (numCapturingParens s5) then state_raise ''Invalid escape'' s5
            else if list_ex (\<lambda>n. n \<notin> set (groupNames s5)) (backReferenceNames s5)
            then state_raise ''Invalid named capture referenced'' s5
            else Ok () s5) s1)
       (s\<lparr>rpos := 0, lastIntValue := 0, lastStringValue := [], lastAssertionIsQuantifiable := False,
          numCapturingParens := 0, maxBackReference := 0, groupNames := [], backReferenceNames := []\<rparr>)"

definition validateRegExpPattern :: "nat \<Rightarrow> unit RM" where
  "validateRegExpPattern ev s =
     seq (regexp_pattern ev) (\<lambda>s1.
       if \<not> switchN s1 \<and> ev \<ge> 9 \<and> length (groupNames s1) > 0
       then regexp_pattern ev (s1\<lparr>switchN := True\<rparr>)
       else Ok () s1) s"

text \<open>The constructor of \<open>RegExpValidationState\<close> and its \<open>reset\<close>.\<close>

definition new_RegExpValidationState :: "Options \<Rightarrow> RegExpValidationState" where
  "new_RegExpValidationState opts =
     \<lparr>validFlags = str ''gim'' @ (if ecmaVersion opts \<ge> 6 then str ''uy'' else []) @
                    (if ecmaVersion opts \<ge> 9 then str ''s'' else []),
      source = [], flags' = [], rstart = 0, switchU = False, switchN = False, rpos = 0,
      lastIntValue = 0, lastStringValue = [], lastAssertionIsQuantifiable = False,
      numCapturingParens = 0, maxBackReference = 0, groupNames = [], backReferenceNames = []\<rparr>"

definition state_reset :: "nat \<Rightarrow> nat \<Rightarrow> jsstring \<Rightarrow> jsstring \<Rightarrow> RegExpValidationState \<Rightarrow> RegExpValidationState" where
  "state_reset ev start0 pattern0 flags0 s =
     (let unicode = (0x75 \<in> set flags0) in
      s\<lparr>rstart := start0, source := pattern0, flags' := flags0,
        switchU := (unicode \<and> ev \<ge> 6), switchN := (unicode \<and> ev \<ge> 9)\<rparr>)"





section \<open>The tokenizer\<close>

subsection \<open>Context stack\<close>

text \<open>\<open>curContext()\<close> is \<open>undefined\<close> on an empty context stack.\<close>

definition curContext :: "parser \<Rightarrow> TokContext option" where
  "curContext p = (if context' p = [] then None else Some (last (context' p)))"

definition initialContext :: "TokContext list" where
  "initialContext = [b_stat]"

definition braceIsBlock :: "TokenType \<Rightarrow> parser \<Rightarrow> bool" where
  "braceIsBlock prevType p =
     (let parent = curContext p in
      if parent = Some f_expr \<or> parent = Some f_stat then True
      else if prevType = tt_colon \<and> (parent = Some b_stat \<or> parent = Some b_expr)
      then \<not> isExpr (the parent)
      else if prevType = tt__return \<or> (prevType = tt_name \<and> exprAllowed p)
      then lineBreak_test (slice (input p) (lastTokEnd p) (start p))
      else if prevType = tt__else \<or> prevType = tt_semi \<or> prevType = tt_eof \<or>
              prevType = tt_parenR \<or> prevType = tt_arrow then True
      else if prevType = tt_braceL then parent = Some b_stat
      else if prevType = tt__var \<or> prevType = tt__const \<or> prevType = tt_name then False
      else \<not> exprAllowed p)"

text \<open>
  \<open>inGeneratorContext\<close> walks the context stack from the top down to index 1 and
  answers at the first function context.
\<close>

definition inGeneratorContext :: "parser \<Rightarrow> bool" where
  "inGeneratorContext p =
     (case find (\<lambda>c. token c = ''function'') (rev (tl (context' p))) of
        None \<Rightarrow> False | Some c \<Rightarrow> generator c)"

text \<open>
  Modelled from the spec: the context updates that tokencontext.js attaches to token
  types are not among the sources. After every token \<open>updateContext(prevType)\<close> runs
  the update of the token's type, if it has one:
  \<^item> \<open>)\<close> and \<open>}\<close> pop a context (and the function context under a popped
    statement block) and allow an expression exactly when the popped context is not an
    expression context; on a stack of one context they only allow an expression;
  \<^item> \<open>{\<close> pushes a statement block or an expression brace as \<open>braceIsBlock\<close> says,
    \<open>${\<close> pushes \<open>b_tmpl\<close>, \<open>(\<close> pushes \<open>p_stat\<close> after \<open>if\<close>, \<open>for\<close>,
    \<open>with\<close>, \<open>while\<close> and \<open>p_expr\<close> otherwise; all three allow an expression;
  \<^item> \<open>++\<close>/\<open>--\<close> leave \<open>exprAllowed\<close> as it is;
  \<^item> \<open>function\<close> and \<open>class\<close> push \<open>f_expr\<close> in expression position and
    \<open>f_stat\<close> in statement position, and disallow an expression;
  \<^item> a backquote pops \<open>q_tmpl\<close> when it is on top and pushes it otherwise;
  \<^item> \<open>*\<close> after \<open>function\<close> turns the function context into its generator form;
  \<^item> a name allows an expression only after \<open>of\<close> (when none was allowed) and after
    \<open>yield\<close> in a generator context.
  Every other token type sets \<open>exprAllowed\<close> to its \<open>beforeExpr\<close>.
\<close>

definition update_parenR_braceR :: "unit M" where
  "update_parenR_braceR p =
     (if length (context' p) = 1 then Ok () (p\<lparr>exprAllowed := True\<rparr>)
      else if context' p = [] then Err TypeError p
      else
        (let out = last (context' p); rest = butlast (context' p) in
         if out = b_stat \<and> token (last rest) = ''function''
         then Ok () (p\<lparr>context' := butlast rest, exprAllowed := \<not> isExpr (last rest)\<rparr>)
         else Ok () (p\<lparr>context' := rest, exprAllowed := \<not> isExpr out\<rparr>)))"

definition update_braceL :: "TokenType \<Rightarrow> unit M" where
  "update_braceL prevType p =
     Ok () (p\<lparr>context' := context' p @ [if braceIsBlock prevType p then b_stat else b_expr],
              exprAllowed := True\<rparr>)"

definition update_dollarBraceL :: "unit M" where
  "update_dollarBraceL p = Ok () (p\<lparr>context' := context' p @ [b_tmpl], exprAllowed := True\<rparr>)"

definition update_parenL :: "TokenType \<Rightarrow> unit M" where
  "update_parenL prevType p =
     (let statementParens = (prevType = tt__if \<or> prevType = tt__for \<or> prevType = tt__with \<or>
                             prevType = tt__while) in
      Ok () (p\<lparr>context' := context' p @ [if statementParens then p_stat else p_expr],
               exprAllowed := True\<rparr>))"

definition update_function_class :: "TokenType \<Rightarrow> unit M" where
  "update_function_class prevType p =
     (if beforeExpr prevType \<and> prevType \<noteq> tt_semi \<and> prevType \<noteq> tt__else \<and>
         \<not> (prevType = tt__return \<and> lineBreak_test (slice (input p) (lastTokEnd p) (start p))) \<and>
         \<not> ((prevType = tt_colon \<or> prevType = tt_braceL) \<and> curContext p = Some b_stat)
      then Ok () (p\<lparr>context' := context' p @ [f_expr], exprAllowed := False\<rparr>)
      else Ok () (p\<lparr>context' := context' p @ [f_stat], exprAllowed := False\<rparr>))"

definition update_backQuote :: "unit M" where
  "update_backQuote p =
     (if curContext p = Some q_tmpl
      then Ok () (p\<lparr>context' := butlast (context' p), exprAllowed := False\<rparr>)
      else Ok () (p\<lparr>context' := context' p @ [q_tmpl], exprAllowed := False\<rparr>))"

definition update_star :: "TokenType \<Rightarrow> unit M" where
  "update_star prevType p =
     (if prevType = tt__function \<and> context' p \<noteq> []
      then Ok () (p\<lparr>context' := butlast (context' p) @
                      [if last (context' p) = f_expr then f_expr_gen else f_gen],
                    exprAllowed := True\<rparr>)
      else Ok () (p\<lparr>exprAllowed := True\<rparr>))"

definition update_name :: "TokenType \<Rightarrow> unit M" where
  "update_name prevType p =
     (let allowed =
            (ecmaVersion (options p) \<ge> 6 \<and> prevType \<noteq> tt_dot \<and>
             ((value' p = JStr (str ''of'') \<and> \<not> exprAllowed p) \<or>
              (value' p = JStr (str ''yield'') \<and> inGeneratorContext p)))
      in Ok () (p\<lparr>exprAllowed := allowed\<rparr>))"

definition type_updateContext :: "TokenType \<Rightarrow> (TokenType \<Rightarrow> unit M) option" where
  "type_updateContext t =
     (if t = tt_parenR \<or> t = tt_braceR then Some (\<lambda>prevType. update_parenR_braceR)
      else if t = tt_braceL then Some update_braceL
      else if t = tt_dollarBraceL then Some (\<lambda>prevType. update_dollarBraceL)
      else if t = tt_parenL then Some update_parenL
      else if t = tt_incDec then Some (\<lambda>prevType. ret ())
      else if t = tt__function \<or> t = tt__class then Some update_function_class
      else if t = tt_backQuote then Some (\<lambda>prevType. update_backQuote)
      else if t = tt_star then Some update_star
      else if t = tt_name then Some update_name
      else None)"

definition updateContext :: "TokenType \<Rightarrow> unit M" where
  "updateContext prevType p =
     (if keyword (type p) \<noteq> None \<and> prevType = tt_dot then Ok () (p\<lparr>exprAllowed := False\<rparr>)
      else
        (case type_updateContext (type p) of
           Some update \<Rightarrow> update prevType p
         | None \<Rightarrow> Ok () (p\<lparr>exprAllowed := beforeExpr (type p)\<rparr>)))"

text \<open>\<open>finishToken\<close> and \<open>finishOp\<close>.\<close>

definition finishToken :: "TokenType \<Rightarrow> jsval \<Rightarrow> unit M" where
  "finishToken t val p =
     updateContext (type p) (p\<lparr>end' := pos p, type := t, value' := val\<rparr>)"

definition finishOp :: "TokenType \<Rightarrow> nat \<Rightarrow> unit M" where
  "finishOp t size' p =
     finishToken t (JStr (slice (input p) (pos p) (pos p + size'))) (p\<lparr>pos := pos p + size'\<rparr>)"

text \<open>The class \<open>Token\<close>: a copy of the current token.\<close>

record Token =
  token_type :: TokenType
  token_value :: jsval
  token_start :: nat
  token_end :: nat

definition new_Token :: "parser \<Rightarrow> Token" where
  "new_Token p = \<lparr>token_type = type p, token_value = value' p, token_start = start p,
     token_end = end' p\<rparr>"

subsection \<open>Whitespace and comments\<close>

text \<open>\<open>s.indexOf(pat, from)\<close> for a non-empty \<open>pat\<close>; \<open>None\<close> is \<open>-1\<close>.\<close>

definition indexOf :: "jsstring \<Rightarrow> jsstring \<Rightarrow> nat \<Rightarrow> nat option" where
  "indexOf s pat from = find (\<lambda>j. take (length pat) (drop j s) = pat) [from ..< length s]"

text \<open>
  \<open>skipLineComment(startSkip)\<close> moves the cursor by \<open>startSkip\<close> and then on to the next
  line terminator or the end of the input: \<open>lineComment_end\<close> is where it stops when the
  scan starts at \<open>i\<close>.
\<close>

definition lineComment_end :: "jsstring \<Rightarrow> nat \<Rightarrow> nat" where
  "lineComment_end inp i = i + length (takeWhile (\<lambda>c. \<not> isNewLine c False) (drop i inp))"

definition skipLineComment :: "nat \<Rightarrow> unit M" where
  "skipLineComment startSkip p = Ok () (p\<lparr>pos := lineComment_end (input p) (pos p + startSkip)\<rparr>)"

lemma indexOf_ge: "indexOf s pat from = Some e \<Longrightarrow> from \<le> e \<and> e < length s"
  by (auto simp: indexOf_def find_Some_iff)

lemma lineComment_end_ge: "i \<le> lineComment_end inp i"
  by (simp add: lineComment_end_def)

text \<open>
  The loop of \<open>skipSpace\<close> on the input and the cursor: \<open>Inr\<close> is the cursor at the
  next token, \<open>Inl\<close> the start of a block comment that is not terminated (where
  \<open>skipBlockComment\<close> raises).
\<close>

function skipSpace_loop :: "jsstring \<Rightarrow> nat \<Rightarrow> nat + nat" where
  "skipSpace_loop inp i =
     (if i < length inp then
        (if inp ! i = 32 \<or> inp ! i = 160 then skipSpace_loop inp (i + 1)
         else if inp ! i = 13 then
           (if charCodeAt inp (i + 1) = Some 10 then skipSpace_loop inp (i + 2)
            else skipSpace_loop inp (i + 1))
         else if inp ! i = 10 \<or> inp ! i = 8232 \<or> inp ! i = 8233 then skipSpace_loop inp (i + 1)
         else if inp ! i = 47 then
           (if charCodeAt inp (i + 1) = Some 42 then
              (case indexOf inp (str ''*/'') (i + 2) of
                 None \<Rightarrow> Inl i
               | Some e \<Rightarrow> skipSpace_loop inp (e + 2))
            else if charCodeAt inp (i + 1) = Some 47
            then skipSpace_loop inp (lineComment_end inp (i + 2))
            else Inr i)
         else if (inp ! i > 8 \<and> inp ! i < 14) \<or> (inp ! i \<ge> 5760 \<and> nonASCIIwhitespace_test (inp ! i))
         then skipSpace_loop inp (i + 1)
         else Inr i)
      else Inr i)"
  by pat_completeness auto
termination
proof (relation "measure (\<lambda>(inp, i). length inp - i)", goal_cases)
  case 1
  show ?case by simp
next
  case (6 inp i e)
  then have "i + 2 \<le> e \<and> e < length inp"
    using indexOf_ge [of inp "str ''*/''" "i + 2" e] by simp
  then have "length inp - (e + 2) < length inp - i" by arith
  then show ?case by simp
next
  case (7 inp i)
  then show ?case using lineComment_end_ge [of "i + 2" inp] by simp
qed simp_all

declare skipSpace_loop.simps [simp del]

definition skipSpace :: "unit M" where
  "skipSpace p =
     (case skipSpace_loop (input p) (pos p) of
        Inr i \<Rightarrow> Ok () (p\<lparr>pos := i\<rparr>)
      | Inl i \<Rightarrow> raise i (str ''Unterminated comment'') (p\<lparr>pos := i + 2\<rparr>))"

text \<open>\<open>fullCharCodeAtPos()\<close>: the code point at the cursor; NaN is \<open>None\<close>.\<close>

definition fullCharCodeAtPos :: "parser \<Rightarrow> nat option" where
  "fullCharCodeAtPos p =
     (case charCodeAt (input p) (pos p) of
        None \<Rightarrow> None
      | Some code \<Rightarrow>
          if code \<le> 0xd7ff \<or> code \<ge> 0xe000 then Some code
          else
            (case charCodeAt (input p) (pos p + 1) of
               None \<Rightarrow> None
             | Some next \<Rightarrow> Some (code * 1024 + next - 0x35fdc00)))"

definition unexpected :: "nat \<Rightarrow> 'a M" where
  "unexpected at p = raise at (str ''Unexpected token'') p"

subsection \<open>Numbers and escapes\<close>

definition invalidStringToken :: "nat \<Rightarrow> jsstring \<Rightarrow> 'a M" where
  "invalidStringToken position message p =
     (if inTemplateElement p \<and> ecmaVersion (options p) \<ge> 9 then Err INVALID_TEMPLATE_ESCAPE_ERROR p
      else raise position message p)"

text \<open>
  The digit value \<open>readInt\<close> gives a code (\<open>None\<close> is \<open>Infinity\<close>, also for NaN).
\<close>

definition digit_val :: "nat option \<Rightarrow> nat option" where
  "digit_val c =
     (case c of None \<Rightarrow> None
      | Some code \<Rightarrow>
          if code \<ge> 97 then Some (code - 97 + 10)
          else if code \<ge> 65 then Some (code - 65 + 10)
          else if code \<ge> 48 \<and> code \<le> 57 then Some (code - 48)
          else None)"

text \<open>
  The loop of \<open>readInt\<close>: \<open>i\<close> counts the turns, \<open>len\<close> is the number of digits
  asked for (\<open>None\<close> when any number will do). The result is \<open>(total, lastCode)\<close>.
  The total is a double in the source and exact here.
\<close>

primrec readInt_loop ::
  "nat \<Rightarrow> nat \<Rightarrow> int option \<Rightarrow> bool \<Rightarrow> bool \<Rightarrow> int \<Rightarrow> nat \<Rightarrow> nat \<Rightarrow> (nat \<times> nat) M" where
  "readInt_loop 0 radix len allowSeparators isLegacyOctalNumericLiteral i total' lastCode p =
     Err OutOfFuel p"
| "readInt_loop (Suc k) radix len allowSeparators isLegacyOctalNumericLiteral i total' lastCode p =
     (if (case len of None \<Rightarrow> True | Some e \<Rightarrow> i < e) then
        (let code = charCodeAt (input p) (pos p) in
         if allowSeparators \<and> code = Some 95 then
           (if isLegacyOctalNumericLiteral
            then raiseRecoverable (pos p)
                   (str ''Numeric separator is not allowed in legacy octal numeric literals'') p
            else if lastCode = 95
            then raiseRecoverable (pos p) (str ''Numeric separator must be exactly one underscore'') p
            else if i = 0
            then raiseRecoverable (pos p)
                   (str ''Numeric separator is not allowed at the first of digits'') p
            else readInt_loop k radix len allowSeparators isLegacyOctalNumericLiteral (i + 1) total' 95
                   (p\<lparr>pos := pos p + 1\<rparr>))
         else
           (case digit_val code of
              None \<Rightarrow> Ok (total', lastCode) p
            | Some val \<Rightarrow>
                if val \<ge> radix then Ok (total', lastCode) p
                else readInt_loop k radix len allowSeparators isLegacyOctalNumericLiteral (i + 1)
                       (total' * radix + val) (the code) (p\<lparr>pos := pos p + 1\<rparr>)))
      else Ok (total', lastCode) p)"

text \<open>\<open>readInt(radix, len, maybeLegacyOctalNumericLiteral)\<close>; \<open>None\<close> is \<open>null\<close>.\<close>

definition readInt :: "nat \<Rightarrow> int option \<Rightarrow> bool \<Rightarrow> nat option M" where
  "readInt radix len maybeLegacyOctalNumericLiteral p =
     (let allowSeparators = (ecmaVersion (options p) \<ge> 12 \<and> len = None);
          isLegacyOctalNumericLiteral =
            (maybeLegacyOctalNumericLiteral \<and> charCodeAt (input p) (pos p) = Some 48);
          start0 = pos p
      in bind (readInt_loop (Suc (length (input p))) radix len allowSeparators
                 isLegacyOctalNumericLiteral 0 0 0) (\<lambda>(total', lastCode) p1.
           if allowSeparators \<and> lastCode = 95
           then raiseRecoverable (pos p1 - 1)
                  (str ''Numeric separator is not allowed at the last of digits'') p1
           else if pos p1 = start0 \<or>
                   (case len of None \<Rightarrow> False | Some e \<Rightarrow> int (pos p1 - start0) \<noteq> e)
           then Ok None p1
           else Ok (Some total') p1) p)"

definition readHexChar :: "int \<Rightarrow> nat M" where
  "readHexChar len p =
     (let codePos = pos p in
      bind (readInt 16 (Some len) False) (\<lambda>n p1.
        case n of
          None \<Rightarrow> invalidStringToken codePos (str ''Bad character escape sequence'') p1
        | Some v \<Rightarrow> Ok v p1) p)"

definition readCodePoint :: "nat M" where
  "readCodePoint p =
     (if charCodeAt (input p) (pos p) = Some 123 then
        (if ecmaVersion (options p) < 6 then unexpected (start p) p
         else
           (let p1 = p\<lparr>pos := pos p + 1\<rparr>; codePos = pos p1;
                close = (case indexOf (input p1) (str ''}'') (pos p1) of
                           None \<Rightarrow> - 1 | Some e \<Rightarrow> int e)
            in bind (readHexChar (close - int (pos p1))) (\<lambda>code p2.
                 if code > 0x10ffff
                 then invalidStringToken codePos (str ''Code point out of bounds'') (p2\<lparr>pos := pos p2 + 1\<rparr>)
                 else Ok code (p2\<lparr>pos := pos p2 + 1\<rparr>)) p1))
      else readHexChar 4 p)"

subsection \<open>Words\<close>

text \<open>
  The loop of \<open>readWord1\<close>, with its locals \<open>word\<close>, \<open>first\<close> and \<open>chunkStart\<close>.
\<close>

primrec readWord1_loop :: "nat \<Rightarrow> jsstring \<Rightarrow> bool \<Rightarrow> nat \<Rightarrow> jsstring M" where
  "readWord1_loop 0 word first chunkStart p = Err OutOfFuel p"
| "readWord1_loop (Suc k) word first chunkStart p =
     (let astral = (ecmaVersion (options p) \<ge> 6) in
      if pos p < length (input p) then
        (let ch = fullCharCodeAtPos p in
         bind (known ''identifier.js'' (isIdentifierChar_code ch astral)) (\<lambda>idChar p1.
           if idChar then
             readWord1_loop k word False chunkStart
               (p1\<lparr>pos := pos p1 + (if the ch \<le> 0xffff then 1 else 2)\<rparr>)
           else if ch = Some 92 then
             (let word1 = word @ slice (input p1) chunkStart (pos p1);
                  escStart = pos p1;
                  p2 = p1\<lparr>containsEsc := True, pos := pos p1 + 1\<rparr>
              in seq (when' (charCodeAt (input p2) (pos p2) \<noteq> Some 117)
                        (invalidStringToken (pos p2) (str ''Expecting Unicode escape sequence '' @ [92] @ str ''uXXXX'')))
                   (\<lambda>p3.
                      bind readCodePoint (\<lambda>esc p4.
                        bind (known ''identifier.js''
                                (if first then isIdentifierStart (int esc) astral
                                 else isIdentifierChar (int esc) astral)) (\<lambda>ok p5.
                          if \<not> ok then invalidStringToken escStart (str ''Invalid Unicode escape'') p5
                          else readWord1_loop k (word1 @ codePointToString (int esc)) False (pos p5) p5)
                          p4) (p3\<lparr>pos := pos p3 + 1\<rparr>)) p2)
           else Ok (word @ slice (input p1) chunkStart (pos p1)) p1) p)
      else Ok (word @ slice (input p) chunkStart (pos p)) p)"

definition readWord1 :: "jsstring M" where
  "readWord1 p = readWord1_loop (Suc (length (input p))) [] True (pos p) (p\<lparr>containsEsc := False\<rparr>)"

definition readWord :: "unit M" where
  "readWord p =
     bind readWord1 (\<lambda>word p1.
       if keywords_test p1 word
       then (case keywordTypes word of
               None \<Rightarrow> Err TypeError p1
             | Some t \<Rightarrow> finishToken t (JStr word) p1)
       else finishToken tt_name (JStr word) p1) p"

text \<open>The decimal digits of a radix, for the message of \<open>readRadixNumber\<close>.\<close>

definition radix_string :: "nat \<Rightarrow> string" where
  "radix_string radix = (if radix = 16 then ''16'' else if radix = 8 then ''8'' else ''2'')"

definition readRadixNumber :: "nat \<Rightarrow> unit M" where
  "readRadixNumber radix p =
     (let start0 = pos p in
      bind (readInt radix None False) (\<lambda>v p1.
        case v of
          None \<Rightarrow> raise (start p1 + 2) (str (''Expected number in radix '' @ radix_string radix)) p1
        | Some n \<Rightarrow>
            if ecmaVersion (options p1) \<ge> 11 \<and> charCodeAt (input p1) (pos p1) = Some 110
            then finishToken tt_num (JNum (StringToBigInt (slice (input p1) start0 (pos p1))))
                   (p1\<lparr>pos := pos p1 + 1\<rparr>)
            else
              bind (known ''identifier.js'' (isIdentifierStart_code (fullCharCodeAtPos p1) True)) (\<lambda>b p2.
                if b then raise (pos p2) (str ''Identifier directly after number'') p2
                else finishToken tt_num (JNum (IntValue n)) p2) p1) (p\<lparr>pos := pos p + 2\<rparr>))"

definition readNumber :: "bool \<Rightarrow> unit M" where
  "readNumber startsWithDot p =
     (let start0 = pos p in
      bind (if \<not> startsWithDot then readInt 10 None True else ret (Some 0)) (\<lambda>r p1.
        if r = None then raise start0 (str ''Invalid number'') p1
        else
          (let octal = (pos p1 - start0 \<ge> 2 \<and> charCodeAt (input p1) start0 = Some 48) in
           if octal \<and> strict p1 then raise start0 (str ''Invalid number'') p1
           else
             (let next = charCodeAt (input p1) (pos p1) in
              if \<not> octal \<and> \<not> startsWithDot \<and> ecmaVersion (options p1) \<ge> 11 \<and> next = Some 110 then
                (let val = JNum (StringToBigInt (slice (input p1) start0 (pos p1)));
                     p2 = p1\<lparr>pos := pos p1 + 1\<rparr>
                 in bind (known ''identifier.js'' (isIdentifierStart_code (fullCharCodeAtPos p2) True))
                      (\<lambda>b p3.
                         if b then raise (pos p3) (str ''Identifier directly after number'') p3
                         else finishToken tt_num val p3) p2)
              else
                (let octal1 = (octal \<and> \<not> list_ex (\<lambda>c. c = 56 \<or> c = 57) (slice (input p1) start0 (pos p1))) in
                 bind (if next = Some 46 \<and> \<not> octal1
                       then (\<lambda>q. bind (readInt 10 None False)
                                    (\<lambda>_ q1. Ok (charCodeAt (input q1) (pos q1)) q1) (q\<lparr>pos := pos q + 1\<rparr>))
                       else ret next) (\<lambda>next1 p4.
                   bind (if (next1 = Some 69 \<or> next1 = Some 101) \<and> \<not> octal1 then
                           (\<lambda>q. let q1 = q\<lparr>pos := pos q + 1\<rparr>;
                                    next2 = charCodeAt (input q1) (pos q1);
                                    q2 = (if next2 = Some 43 \<or> next2 = Some 45 then q1\<lparr>pos := pos q1 + 1\<rparr>
                                          else q1)
                                in bind (readInt 10 None False) (\<lambda>e q3.
                                     if e = None then raise start0 (str ''Invalid number'') q3
                                     else Ok () q3) q2)
                         else ret ()) (\<lambda>_ p5.
                     bind (known ''identifier.js'' (isIdentifierStart_code (fullCharCodeAtPos p5) True))
                       (\<lambda>b p6.
                          if b then raise (pos p6) (str ''Identifier directly after number'') p6
                          else finishToken tt_num
                                 (JNum (StringToNumber (slice (input p6) start0 (pos p6)) octal1)) p6)
                       p5) p4) p1)))) p)"

subsection \<open>Regular expression literals\<close>

text \<open>
  \<open>validateRegExpFlags\<close>: the first flag that is not valid or occurs again later decides.
\<close>

fun validateRegExpFlags_loop :: "jsstring \<Rightarrow> jsstring \<Rightarrow> string option" where
  "validateRegExpFlags_loop valid [] = None"
| "validateRegExpFlags_loop valid (flag # rest) =
     (if flag \<notin> set valid then Some ''Invalid regular expression flag''
      else if flag \<in> set rest then Some ''Duplicate regular expression flag''
      else validateRegExpFlags_loop valid rest)"

definition validateRegExpFlags :: "RegExpValidationState \<Rightarrow> unit M" where
  "validateRegExpFlags state p =
     (case validateRegExpFlags_loop (validFlags state) (flags' state) of
        None \<Rightarrow> Ok () p
      | Some message \<Rightarrow> raise (rstart state) (str message) p)"

text \<open>
  The scan of \<open>readRegexp\<close> for the terminating slash, on the input from the cursor on:
  \<open>Inr n\<close> when the slash is \<open>n\<close> characters ahead, \<open>Inl n\<close> when the input ends or a
  line terminator stands \<open>n\<close> characters ahead.
\<close>

fun readRegexp_scan :: "jsstring \<Rightarrow> bool \<Rightarrow> bool \<Rightarrow> nat + nat" where
  "readRegexp_scan [] escaped inClass = Inl 0"
| "readRegexp_scan (ch # rest) escaped inClass =
     (if isNewLine ch False then Inl 0
      else if \<not> escaped \<and> ch = 47 \<and> \<not> inClass then Inr 0
      else
        map_sum Suc Suc
          (readRegexp_scan rest
             (if \<not> escaped then ch = 92 else False)
             (if \<not> escaped then (if ch = 91 then True else if ch = 93 \<and> inClass then False else inClass)
              else inClass)))"

definition readRegexp :: "unit M" where
  "readRegexp p =
     (let start0 = pos p in
      case readRegexp_scan (drop (pos p) (input p)) False False of
        Inl n \<Rightarrow> raise start0 (str ''Unterminated regular expression'') (p\<lparr>pos := pos p + n\<rparr>)
      | Inr n \<Rightarrow>
          (let p1 = p\<lparr>pos := pos p + n\<rparr>;
               pattern0 = slice (input p1) start0 (pos p1);
               p2 = p1\<lparr>pos := pos p1 + 1\<rparr>;
               flagsStart = pos p2
           in bind readWord1 (\<lambda>flags0 p3.
                if containsEsc p3 then unexpected flagsStart p3
                else
                  (let state = state_reset (ecmaVersion (options p3)) start0 pattern0 flags0
                                 (case regexpState p3 of
                                    Some s \<Rightarrow> s
                                  | None \<Rightarrow> new_RegExpValidationState (options p3));
                       p4 = p3\<lparr>regexpState := Some state\<rparr>
                   in seq (validateRegExpFlags state) (\<lambda>p5.
                        case validateRegExpPattern (ecmaVersion (options p5)) state of
                          Ok _ state1 \<Rightarrow>
                            finishToken tt_regexp (JRegex pattern0 flags0) (p5\<lparr>regexpState := Some state1\<rparr>)
                        | Err (RegExpReason message) state1 \<Rightarrow>
                            raiseRecoverable (rstart state1)
                              (str ''Invalid regular expression: /'' @ source state1 @ str ''/: '' @
                               str message)
                              (p5\<lparr>regexpState := Some state1\<rparr>)
                        | Err e state1 \<Rightarrow> Err e (p5\<lparr>regexpState := Some state1\<rparr>)) p4)) p2))"

subsection \<open>Punctuation and operators\<close>

text \<open>
  \<open>readString\<close> and the template scanner (\<open>tryReadTemplateToken\<close>, the override of
  \<open>q_tmpl\<close>) are not embedded.
\<close>

definition readString :: "nat \<Rightarrow> unit M" where
  "readString quote p = Err (Unmodelled ''readString'') p"

definition tryReadTemplateToken :: "unit M" where
  "tryReadTemplateToken p = Err (Unmodelled ''tryReadTemplateToken'') p"

definition readToken_dot :: "unit M" where
  "readToken_dot p =
     (let next = charCodeAt (input p) (pos p + 1) in
      if (case next of None \<Rightarrow> False | Some n \<Rightarrow> n \<ge> 48 \<and> n \<le> 57) then readNumber True p
      else
        (let next2 = charCodeAt (input p) (pos p + 2) in
         if ecmaVersion (options p) \<ge> 6 \<and> next = Some 46 \<and> next2 = Some 46
         then finishToken tt_ellipsis JUndefined (p\<lparr>pos := pos p + 3\<rparr>)
         else finishToken tt_dot JUndefined (p\<lparr>pos := pos p + 1\<rparr>)))"

definition readToken_slash :: "unit M" where
  "readToken_slash p =
     (let next = charCodeAt (input p) (pos p + 1) in
      if exprAllowed p then readRegexp (p\<lparr>pos := pos p + 1\<rparr>)
      else if next = Some 61 then finishOp tt_assign 2 p
      else finishOp tt_slash 1 p)"

definition readToken_mult_modulo_exp :: "nat \<Rightarrow> unit M" where
  "readToken_mult_modulo_exp code p =
     (let next = charCodeAt (input p) (pos p + 1);
          tokentype = (if code = 42 then tt_star else tt_modulo)
      in if ecmaVersion (options p) \<ge> 7 \<and> code = 42 \<and> next = Some 42 then
           (if charCodeAt (input p) (pos p + 2) = Some 61 then finishOp tt_assign 3 p
            else finishOp tt_starstar 2 p)
         else if next = Some 61 then finishOp tt_assign 2 p
         else finishOp tokentype 1 p)"

definition readToken_pipe_amp :: "nat \<Rightarrow> unit M" where
  "readToken_pipe_amp code p =
     (let next = charCodeAt (input p) (pos p + 1) in
      if next = Some code then
        (if ecmaVersion (options p) \<ge> 12 \<and> charCodeAt (input p) (pos p + 2) = Some 61
         then finishOp tt_assign 3 p
         else finishOp (if code = 124 then tt_logicalOR else tt_logicalAND) 2 p)
      else if next = Some 61 then finishOp tt_assign 2 p
      else finishOp (if code = 124 then tt_bitwiseOR else tt_bitwiseAND) 1 p)"

definition readToken_caret :: "unit M" where
  "readToken_caret p =
     (if charCodeAt (input p) (pos p + 1) = Some 61 then finishOp tt_assign 2 p
      else finishOp tt_bitwiseXOR 1 p)"

text \<open>
  The two readers that may find an HTML-like comment skip it and read the next token
  again; \<open>nextToken'\<close> is \<open>nextToken\<close> one level further in.
\<close>

definition readToken_plus_min :: "unit M \<Rightarrow> nat \<Rightarrow> unit M" where
  "readToken_plus_min nextToken' code p =
     (let next = charCodeAt (input p) (pos p + 1) in
      if next = Some code then
        (if next = Some 45 \<and> \<not> inModule p \<and> charCodeAt (input p) (pos p + 2) = Some 62 \<and>
            (lastTokEnd p = 0 \<or> lineBreak_test (slice (input p) (lastTokEnd p) (pos p)))
         then seq (skipLineComment 3) (seq skipSpace nextToken') p
         else finishOp tt_incDec 2 p)
      else if next = Some 61 then finishOp tt_assign 2 p
      else finishOp tt_plusMin 1 p)"

definition readToken_lt_gt :: "unit M \<Rightarrow> nat \<Rightarrow> unit M" where
  "readToken_lt_gt nextToken' code p =
     (let next = charCodeAt (input p) (pos p + 1) in
      if next = Some code then
        (let size' = (if code = 62 \<and> charCodeAt (input p) (pos p + 2) = Some 62 then 3 else 2) in
         if charCodeAt (input p) (pos p + size') = Some 61 then finishOp tt_assign (size' + 1) p
         else finishOp tt_bitShift size' p)
      else if next = Some 33 \<and> code = 60 \<and> \<not> inModule p \<and>
              charCodeAt (input p) (pos p + 2) = Some 45 \<and> charCodeAt (input p) (pos p + 3) = Some 45
      then seq (skipLineComment 4) (seq skipSpace nextToken') p
      else finishOp tt_relational (if next = Some 61 then 2 else 1) p)"

definition readToken_eq_excl :: "nat \<Rightarrow> unit M" where
  "readToken_eq_excl code p =
     (let next = charCodeAt (input p) (pos p + 1) in
      if next = Some 61
      then finishOp tt_equality (if charCodeAt (input p) (pos p + 2) = Some 61 then 3 else 2) p
      else if code = 61 \<and> next = Some 62 \<and> ecmaVersion (options p) \<ge> 6
      then finishToken tt_arrow JUndefined (p\<lparr>pos := pos p + 2\<rparr>)
      else finishOp (if code = 61 then tt_eq else tt_prefix) 1 p)"

definition readToken_question :: "unit M" where
  "readToken_question p =
     (let ecmaVersion' = ecmaVersion (options p); next = charCodeAt (input p) (pos p + 1) in
      if ecmaVersion' \<ge> 11 \<and> next = Some 46 \<and>
         (case charCodeAt (input p) (pos p + 2) of None \<Rightarrow> False | Some next2 \<Rightarrow> next2 < 48 \<or> next2 > 57)
      then finishOp tt_questionDot 2 p
      else if ecmaVersion' \<ge> 11 \<and> next = Some 63 then
        (if ecmaVersion' \<ge> 12 \<and> charCodeAt (input p) (pos p + 2) = Some 61 then finishOp tt_assign 3 p
         else finishOp tt_coalesce 2 p)
      else finishOp tt_question 1 p)"

subsection \<open>Reading the next token\<close>

definition unexpected_character :: "nat option \<Rightarrow> jsstring" where
  "unexpected_character code =
     str ''Unexpected character '' @ [39] @
     (case code of None \<Rightarrow> [0xD800, 0xDC00] | Some c \<Rightarrow> codePointToString (int c)) @ [39]"

definition getTokenFromCode :: "unit M \<Rightarrow> nat option \<Rightarrow> unit M" where
  "getTokenFromCode nextToken' code p =
     (if code = Some 46 then readToken_dot p
      else if code = Some 40 then finishToken tt_parenL JUndefined (p\<lparr>pos := pos p + 1\<rparr>)
      else if code = Some 41 then finishToken tt_parenR JUndefined (p\<lparr>pos := pos p + 1\<rparr>)
      else if code = Some 59 then finishToken tt_semi JUndefined (p\<lparr>pos := pos p + 1\<rparr>)
      else if code = Some 44 then finishToken tt_comma JUndefined (p\<lparr>pos := pos p + 1\<rparr>)
      else if code = Some 91 then finishToken tt_bracketL JUndefined (p\<lparr>pos := pos p + 1\<rparr>)
      else if code = Some 93 then finishToken tt_bracketR JUndefined (p\<lparr>pos := pos p + 1\<rparr>)
      else if code = Some 123 then finishToken tt_braceL JUndefined (p\<lparr>pos := pos p + 1\<rparr>)
      else if code = Some 125 then finishToken tt_braceR JUndefined (p\<lparr>pos := pos p + 1\<rparr>)
      else if code = Some 58 then finishToken tt_colon JUndefined (p\<lparr>pos := pos p + 1\<rparr>)
      else if code = Some 96 \<and> ecmaVersion (options p) \<ge> 6
      then finishToken tt_backQuote JUndefined (p\<lparr>pos := pos p + 1\<rparr>)
      else if code = Some 48 \<and>
              (charCodeAt (input p) (pos p + 1) = Some 120 \<or> charCodeAt (input p) (pos p + 1) = Some 88)
      then readRadixNumber 16 p
      else if code = Some 48 \<and> ecmaVersion (options p) \<ge> 6 \<and>
              (charCodeAt (input p) (pos p + 1) = Some 111 \<or> charCodeAt (input p) (pos p + 1) = Some 79)
      then readRadixNumber 8 p
      else if code = Some 48 \<and> ecmaVersion (options p) \<ge> 6 \<and>
              (charCodeAt (input p) (pos p + 1) = Some 98 \<or> charCodeAt (input p) (pos p + 1) = Some 66)
      then readRadixNumber 2 p
      else if (case code of None \<Rightarrow> False | Some c \<Rightarrow> 48 \<le> c \<and> c \<le> 57) then readNumber False p
      else if code = Some 34 \<or> code = Some 39 then readString (the code) p
      else if code = Some 47 then readToken_slash p
      else if code = Some 37 \<or> code = Some 42 then readToken_mult_modulo_exp (the code) p
      else if code = Some 124 \<or> code = Some 38 then readToken_pipe_amp (the code) p
      else if code = Some 94 then readToken_caret p
      else if code = Some 43 \<or> code = Some 45 then readToken_plus_min nextToken' (the code) p
      else if code = Some 60 \<or> code = Some 62 then readToken_lt_gt nextToken' (the code) p
      else if code = Some 61 \<or> code = Some 33 then readToken_eq_excl (the code) p
      else if code = Some 63 then readToken_question p
      else if code = Some 126 then finishOp tt_prefix 1 p
      else raise (pos p) (unexpected_character code) p)"

definition readToken :: "unit M \<Rightarrow> nat option \<Rightarrow> unit M" where
  "readToken nextToken' code p =
     bind (known ''identifier.js'' (isIdentifierStart_code code (ecmaVersion (options p) \<ge> 6))) (\<lambda>b p1.
       if b \<or> code = Some 92 then readWord p1 else getTokenFromCode nextToken' code p1) p"

text \<open>
  \<open>nextToken\<close>. It calls itself after an HTML-like comment, each time further on in the
  input, so the fuel given by \<open>nextToken\<close> is never used up.
\<close>

primrec nextToken_fuel :: "nat \<Rightarrow> unit M" where
  "nextToken_fuel 0 p = Err OutOfFuel p"
| "nextToken_fuel (Suc n) p =
     (let curContext' = curContext p in
      seq (if curContext' = None \<or> \<not> preserveSpace (the curContext') then skipSpace else ret ())
        (\<lambda>p1.
           let p2 = p1\<lparr>start := pos p1\<rparr> in
           if pos p2 \<ge> length (input p2) then finishToken tt_eof JUndefined p2
           else
             (case curContext' of
                None \<Rightarrow> Err TypeError p2
              | Some c \<Rightarrow>
                  if has_override c then tryReadTemplateToken p2
                  else readToken (nextToken_fuel n) (fullCharCodeAtPos p2) p2)) p)"

definition nextToken :: "unit M" where
  "nextToken p = nextToken_fuel (Suc (length (input p))) p"

definition next' :: "bool \<Rightarrow> unit M" where
  "next' ignoreEscapeSequenceInKeyword p =
     (if \<not> ignoreEscapeSequenceInKeyword \<and> keyword (type p) \<noteq> None \<and> containsEsc p
      then raiseRecoverable (start p) (str (''Escape sequence in keyword '' @ the (keyword (type p)))) p
      else nextToken (p\<lparr>lastTokEnd := end' p, lastTokStart := start p\<rparr>))"

definition getToken :: "Token M" where
  "getToken p = bind (next' False) (\<lambda>_ p1. Ok (new_Token p1) p1) p"

subsection \<open>Parser utilities\<close>

definition eat :: "TokenType \<Rightarrow> bool M" where
  "eat t p = (if type p = t then seq (next' False) (ret True) p else Ok False p)"

definition isContextual :: "string \<Rightarrow> parser \<Rightarrow> bool" where
  "isContextual name' p = (type p = tt_name \<and> value' p = JStr (str name') \<and> \<not> containsEsc p)"

definition eatContextual :: "string \<Rightarrow> bool M" where
  "eatContextual name' p =
     (if \<not> isContextual name' p then Ok False p else seq (next' False) (ret True) p)"

definition expectContextual :: "string \<Rightarrow> unit M" where
  "expectContextual name' p =
     bind (eatContextual name') (\<lambda>b p1. if b then Ok () p1 else unexpected (start p1) p1) p"

definition canInsertSemicolon :: "parser \<Rightarrow> bool" where
  "canInsertSemicolon p =
     (type p = tt_eof \<or> type p = tt_braceR \<or>
      lineBreak_test (slice (input p) (lastTokEnd p) (start p)))"

definition insertSemicolon :: "parser \<Rightarrow> bool" where
  "insertSemicolon p = canInsertSemicolon p"

definition semicolon :: "unit M" where
  "semicolon p =
     bind (eat tt_semi) (\<lambda>b p1.
       if \<not> b \<and> \<not> insertSemicolon p1 then unexpected (start p1) p1 else Ok () p1) p"

definition afterTrailingComma :: "TokenType \<Rightarrow> bool \<Rightarrow> bool M" where
  "afterTrailingComma tokType notNext p =
     (if type p = tokType then
        (if \<not> notNext then seq (next' False) (ret True) p else Ok True p)
      else Ok False p)"

definition expect :: "TokenType \<Rightarrow> unit M" where
  "expect t p = bind (eat t) (\<lambda>b p1. if b then Ok () p1 else unexpected (start p1) p1) p"

section \<open>Construction of a parser\<close>

text \<open>
  Modelled from the spec: the regular expression \<open>skipWhiteSpace\<close> of whitespace.js is
  not among the sources. It matches, from \<open>lastIndex\<close> on, any run of white space,
  line comments and terminated block comments; \<open>skipWhiteSpace_end\<close> is where the
  match that starts at \<open>i\<close> ends.
\<close>

definition is_space :: "nat \<Rightarrow> bool" where
  "is_space ch =
     ((9 \<le> ch \<and> ch \<le> 13) \<or> ch = 32 \<or> ch = 0xa0 \<or> ch = 0x1680 \<or> (0x2000 \<le> ch \<and> ch \<le> 0x200a) \<or>
      ch = 0x2028 \<or> ch = 0x2029 \<or> ch = 0x202f \<or> ch = 0x205f \<or> ch = 0x3000 \<or> ch = 0xfeff)"

function skipWhiteSpace_end :: "jsstring \<Rightarrow> nat \<Rightarrow> nat" where
  "skipWhiteSpace_end inp i =
     (if i < length inp then
        (if is_space (inp ! i) then skipWhiteSpace_end inp (i + 1)
         else if inp ! i = 47 \<and> charCodeAt inp (i + 1) = Some 47
         then skipWhiteSpace_end inp (lineComment_end inp (i + 2))
         else if inp ! i = 47 \<and> charCodeAt inp (i + 1) = Some 42 then
           (case indexOf inp (str ''*/'') (i + 2) of
              None \<Rightarrow> i
            | Some e \<Rightarrow> skipWhiteSpace_end inp (e + 2))
         else i)
      else i)"
  by pat_completeness auto
termination
proof (relation "measure (\<lambda>(inp, i). length inp - i)", goal_cases)
  case 1
  show ?case by simp
next
  case (3 inp i)
  then show ?case using lineComment_end_ge [of "i + 2" inp] by simp
next
  case (4 inp i e)
  then have "i + 2 \<le> e \<and> e < length inp"
    using indexOf_ge [of inp "str ''*/''" "i + 2" e] by simp
  then have "length inp - (e + 2) < length inp - i" by arith
  then show ?case by simp
qed simp_all

declare skipWhiteSpace_end.simps [simp del]

text \<open>
  The regular expression \<open>literal\<close> of parseutil.js: a string literal at the start of
  the text. \<open>literal_body q s\<close> is the length of the body that the closing quote \<open>q\<close>
  ends; \<open>literal_exec\<close> gives the body and the length of the whole match.
\<close>

fun literal_body :: "nat \<Rightarrow> jsstring \<Rightarrow> nat option" where
  "literal_body q [] = None"
| "literal_body q [c] = (if c = q then Some 0 else None)"
| "literal_body q (c # d # ds) =
     (if c = q then Some 0
      else if c = 92 then
        (if isNewLine d False then None else map_option (\<lambda>n. n + 2) (literal_body q ds))
      else map_option Suc (literal_body q (d # ds)))"

definition literal_exec :: "jsstring \<Rightarrow> (jsstring \<times> nat) option" where
  "literal_exec s =
     (case s of
        [] \<Rightarrow> None
      | c # cs \<Rightarrow>
          if c = 39 \<or> c = 34
          then (case literal_body c cs of None \<Rightarrow> None | Some n \<Rightarrow> Some (take n cs, n + 2))
          else None)"

lemma literal_body_le: "literal_body q s = Some n \<Longrightarrow> n < length s"
  by (induction q s arbitrary: n rule: literal_body.induct) (auto split: if_splits)

lemma literal_exec_bounds: "literal_exec s = Some (body, n) \<Longrightarrow> 2 \<le> n \<and> n \<le> length s"
  by (auto simp: literal_exec_def split: list.splits if_splits option.splits dest: literal_body_le)

lemma skipWhiteSpace_end_ge: "i \<le> skipWhiteSpace_end inp i"
proof (induction inp i rule: skipWhiteSpace_end.induct)
  case (1 inp i)
  show ?case
  proof (cases "i < length inp")
    case False
    then show ?thesis by (simp add: skipWhiteSpace_end.simps)
  next
    case True
    note lt = True
    show ?thesis
    proof (cases "is_space (inp ! i)")
      case True
      then show ?thesis using 1(1) lt by (subst skipWhiteSpace_end.simps) simp
    next
      case nsp: False
      show ?thesis
      proof (cases "inp ! i = 47 \<and> charCodeAt inp (i + 1) = Some 47")
        case True
        then have "lineComment_end inp (i + 2) \<le> skipWhiteSpace_end inp (lineComment_end inp (i + 2))"
          using 1(2) lt nsp by simp
        moreover have "i \<le> lineComment_end inp (i + 2)"
          using lineComment_end_ge [of "i + 2" inp] by simp
        ultimately show ?thesis using lt nsp True by (subst skipWhiteSpace_end.simps) simp
      next
        case nlc: False
        show ?thesis
        proof (cases "inp ! i = 47 \<and> charCodeAt inp (i + 1) = Some 42")
          case False
          then show ?thesis using lt nsp nlc by (subst skipWhiteSpace_end.simps) auto
        next
          case True
          show ?thesis
          proof (cases "indexOf inp (str ''*/'') (i + 2)")
            case None
            then show ?thesis using lt nsp nlc True by (subst skipWhiteSpace_end.simps) auto
          next
            case (Some e)
            then have "e + 2 \<le> skipWhiteSpace_end inp (e + 2)"
              using 1(3) lt nsp nlc True by simp
            moreover have "i \<le> e" using indexOf_ge [OF Some] by simp
            ultimately show ?thesis using lt nsp nlc True Some
              by (subst skipWhiteSpace_end.simps) auto
          qed
        qed
      qed
    qed
  qed
qed

definition use_strict_follow :: "jsstring \<Rightarrow> nat \<Rightarrow> bool" where
  "use_strict_follow inp start0 =
     (let end0 = skipWhiteSpace_end inp start0;
          spaceAfter = slice inp start0 end0;
          next = charCodeAt inp end0
      in next = Some 59 \<or> next = Some 125 \<or>
         (lineBreak_test spaceAfter \<and>
          \<not> ((case next of None \<Rightarrow> False | Some c \<Rightarrow> c \<in> set (str ''(`.[+-/*%<>=,?^&'')) \<or>
             (next = Some 33 \<and> charCodeAt inp (end0 + 1) = Some 61))))"

function strictDirective_loop :: "jsstring \<Rightarrow> nat \<Rightarrow> bool" where
  "strictDirective_loop inp start0 =
     (let start1 = skipWhiteSpace_end inp start0 in
      case literal_exec (drop start1 inp) of
        None \<Rightarrow> False
      | Some (body, n) \<Rightarrow>
          if body = str ''use strict'' then use_strict_follow inp (start1 + n)
          else
            (let start2 = skipWhiteSpace_end inp (start1 + n) in
             strictDirective_loop inp (if charCodeAt inp start2 = Some 59 then start2 + 1 else start2)))"
  by pat_completeness auto
termination
proof (relation "measure (\<lambda>(inp, i). Suc (length inp) - i)", goal_cases)
  case 1
  show ?case by simp
next
  case (2 inp start0 start1 x2 body n start2)
  have a: "start0 \<le> start1" using 2(1) skipWhiteSpace_end_ge by simp
  have b: "2 \<le> n \<and> n \<le> length (drop start1 inp)"
    using 2(2,3) literal_exec_bounds [of "drop start1 inp" body n] by simp
  have c: "start1 + n \<le> start2" using 2(5) skipWhiteSpace_end_ge by simp
  from a b c show ?case by (auto split: if_splits)
qed

declare strictDirective_loop.simps [simp del]

definition strictDirective :: "nat \<Rightarrow> parser \<Rightarrow> bool" where
  "strictDirective start0 p = strictDirective_loop (input p) start0"

text \<open>
  Modelled from the spec: options.js is not among the sources. \<open>defaultOptions\<close> is what
  option normalisation gives when only \<open>ecmaVersion\<close> is set: a script, reserved words
  refused from ECMAScript 5 on, every escape hatch off.
\<close>

definition defaultOptions :: "nat \<Rightarrow> Options" where
  "defaultOptions ev =
     \<lparr>ecmaVersion = ev, sourceType = ''script'',
      allowReserved = (if ev < 5 then allowReserved_true else allowReserved_false),
      allowReturnOutsideFunction = False, allowImportExportEverywhere = False,
      allowAwaitOutsideFunction = False, allowHashBang = False, preserveParens = False\<rparr>"

text \<open>The constructor \<open>new Parser(options, input, startPos)\<close>, on normalised options.\<close>

definition new_Parser :: "Options \<Rightarrow> jsstring \<Rightarrow> nat \<Rightarrow> parser" where
  "new_Parser opts inp startPos =
     (let p0 = \<lparr>options = opts, input = inp, containsEsc = False, pos = startPos,
                 type = tt_eof, value' = JNull, start = startPos, end' = startPos,
                 lastTokStart = startPos, lastTokEnd = startPos,
                 context' = initialContext, exprAllowed = True,
                 inModule = (sourceType opts = ''module''), strict = False,
                 potentialArrowAt = - 1, yieldPos = 0, awaitPos = 0, awaitIdentPos = 0,
                 labels = [], undefinedExports = [], scopeStack = [], regexpState = None,
                 inTemplateElement = False, destructuringErrors = []\<rparr>;
          p1 = p0\<lparr>strict := (inModule p0 \<or> strictDirective (pos p0) p0)\<rparr>;
          p2 = (if pos p1 = 0 \<and> allowHashBang opts \<and> slice inp 0 2 = str ''#!''
                then p1\<lparr>pos := lineComment_end inp (pos p1 + 2)\<rparr> else p1)
      in enterScope SCOPE_TOP p2)"

definition tokenizer :: "jsstring \<Rightarrow> Options \<Rightarrow> parser" where
  "tokenizer inp opts = new_Parser opts inp 0"

section \<open>The parser\<close>

subsection \<open>Nodes\<close>

definition startNodeAt :: "nat \<Rightarrow> node" where
  "startNodeAt at = Node [] at 0 []"

definition startNode :: "parser \<Rightarrow> node" where
  "startNode p = startNodeAt (start p)"

definition finishNodeAt :: "node \<Rightarrow> string \<Rightarrow> nat \<Rightarrow> node" where
  "finishNodeAt n t at = Node t (nstart n) at (nfields n)"

definition finishNode :: "node \<Rightarrow> string \<Rightarrow> parser \<Rightarrow> node" where
  "finishNode n t p = finishNodeAt n t (lastTokEnd p)"

text \<open>\<open>node.type = t\<close> on a finished node.\<close>

definition set_type :: "string \<Rightarrow> node \<Rightarrow> node" where
  "set_type t n = Node t (nstart n) (nend n) (nfields n)"

text \<open>\<open>delete node.f\<close>: the field reads as \<open>undefined\<close> from then on.\<close>

definition delete_field :: "string \<Rightarrow> node \<Rightarrow> node" where
  "delete_field f n = set_field f JUndefined n"

text \<open>
  Reading a property of a value that is not an object (null, undefined) is the host's
  TypeError.
\<close>

definition as_node :: "jsval \<Rightarrow> node M" where
  "as_node v p = (case v of JNode n \<Rightarrow> Ok n p | _ \<Rightarrow> Err TypeError p)"

definition field_node :: "string \<Rightarrow> node \<Rightarrow> node M" where
  "field_node f n p = as_node (get_field f n) p"

text \<open>The \<open>name\<close> of a node is a string: the constructor's \<open>""\<close> or the one assigned.\<close>

definition node_name :: "node \<Rightarrow> jsstring" where
  "node_name n = (case get_field ''name'' n of JStr s \<Rightarrow> s | _ \<Rightarrow> [])"

definition truthy :: "jsval \<Rightarrow> bool" where
  "truthy v = (case v of JUndefined \<Rightarrow> False | JNull \<Rightarrow> False | JBool b \<Rightarrow> b
                | JStr s \<Rightarrow> s \<noteq> [] | _ \<Rightarrow> True)"

subsection \<open>References to DestructuringErrors objects\<close>

definition new_ref :: "nat M" where
  "new_ref p = Ok (length (destructuringErrors p))
                  (p\<lparr>destructuringErrors := destructuringErrors p @ [new_DestructuringErrors]\<rparr>)"

definition deref :: "nat \<Rightarrow> parser \<Rightarrow> DestructuringErrors" where
  "deref r p = destructuringErrors p ! r"

definition update_ref :: "nat \<Rightarrow> (DestructuringErrors \<Rightarrow> DestructuringErrors) \<Rightarrow> parser \<Rightarrow> parser" where
  "update_ref r f p = p\<lparr>destructuringErrors := (destructuringErrors p)[r := f (destructuringErrors p ! r)]\<rparr>"

subsection \<open>Scopes of the current position\<close>

definition currentVarScope :: "parser \<Rightarrow> Scope option" where
  "currentVarScope p = find (\<lambda>s. flags s AND SCOPE_VAR \<noteq> 0) (rev (scopeStack p))"

definition currentThisScope :: "parser \<Rightarrow> Scope option" where
  "currentThisScope p =
     find (\<lambda>s. flags s AND SCOPE_VAR \<noteq> 0 \<and> \<not> flags s AND SCOPE_ARROW \<noteq> 0) (rev (scopeStack p))"

text \<open>The loops of the two functions above run off the stack when no scope qualifies.\<close>

definition inFunction :: "bool M" where
  "inFunction p = (case currentVarScope p of None \<Rightarrow> Err TypeError p
                   | Some s \<Rightarrow> Ok (flags s AND SCOPE_FUNCTION > 0) p)"

definition inGenerator :: "bool M" where
  "inGenerator p = (case currentVarScope p of None \<Rightarrow> Err TypeError p
                    | Some s \<Rightarrow> Ok (flags s AND SCOPE_GENERATOR > 0) p)"

definition inAsync :: "bool M" where
  "inAsync p = (case currentVarScope p of None \<Rightarrow> Err TypeError p
                | Some s \<Rightarrow> Ok (flags s AND SCOPE_ASYNC > 0) p)"

definition allowSuper :: "bool M" where
  "allowSuper p = (case currentThisScope p of None \<Rightarrow> Err TypeError p
                   | Some s \<Rightarrow> Ok (flags s AND SCOPE_SUPER > 0) p)"

definition allowDirectSuper :: "bool M" where
  "allowDirectSuper p = (case currentThisScope p of None \<Rightarrow> Err TypeError p
                         | Some s \<Rightarrow> Ok (flags s AND SCOPE_DIRECT_SUPER > 0) p)"

definition treatFunctionsAsVar :: "bool M" where
  "treatFunctionsAsVar p = (case currentScope p of None \<Rightarrow> Err TypeError p
                            | Some s \<Rightarrow> Ok (treatFunctionsAsVarInScope p s) p)"

subsection \<open>Checks on collected errors\<close>

definition checkPatternErrors :: "nat option \<Rightarrow> bool \<Rightarrow> unit M" where
  "checkPatternErrors refDestructuringErrors isAssign0 p =
     (case refDestructuringErrors of
        None \<Rightarrow> Ok () p
      | Some r \<Rightarrow>
          seq (\<lambda>p1. if trailingComma (deref r p1) > - 1
                     then raiseRecoverable (nat (trailingComma (deref r p1)))
                            (str ''Comma is not permitted after the rest element'') p1
                     else Ok () p1)
            (\<lambda>p2. let parens = (if isAssign0 then parenthesizedAssign (deref r p2)
                                   else parenthesizedBind (deref r p2))
                   in if parens > - 1 then raiseRecoverable (nat parens) (str ''Parenthesized pattern'') p2
                      else Ok () p2) p)"

definition checkExpressionErrors :: "nat option \<Rightarrow> bool \<Rightarrow> bool M" where
  "checkExpressionErrors refDestructuringErrors andThrow p =
     (case refDestructuringErrors of
        None \<Rightarrow> Ok False p
      | Some r \<Rightarrow>
          (let shorthandAssign0 = shorthandAssign (deref r p); doubleProto0 = doubleProto (deref r p) in
           if \<not> andThrow then Ok (shorthandAssign0 \<ge> 0 \<or> doubleProto0 \<ge> 0) p
           else if shorthandAssign0 \<ge> 0
           then raise (nat shorthandAssign0)
                  (str ''Shorthand property assignments are valid only in destructuring patterns'') p
           else if doubleProto0 \<ge> 0
           then raiseRecoverable (nat doubleProto0) (str ''Redefinition of __proto__ property'') p
           else Ok False p))"

definition checkYieldAwaitInDefaultParams :: "unit M" where
  "checkYieldAwaitInDefaultParams p =
     (if yieldPos p \<noteq> 0 \<and> (awaitPos p = 0 \<or> yieldPos p < awaitPos p)
      then raise (yieldPos p) (str ''Yield expression cannot be a default value'') p
      else if awaitPos p \<noteq> 0
      then raise (awaitPos p) (str ''Await expression cannot be a default value'') p
      else Ok () p)"

subsection \<open>Identifiers and literals\<close>

definition checkUnreserved :: "node \<Rightarrow> unit M" where
  "checkUnreserved n p =
     (let start0 = nstart n; end0 = nend n; name' = node_name n in
      seq (bind inGenerator (\<lambda>g p1.
             if g \<and> name' = str ''yield''
             then raiseRecoverable start0 (str ''Cannot use 'yield' as identifier inside a generator'') p1
             else Ok () p1))
        (seq (bind inAsync (\<lambda>a p2.
                if a \<and> name' = str ''await''
                then raiseRecoverable start0
                       (str ''Cannot use 'await' as identifier inside an async function'') p2
                else Ok () p2))
           (\<lambda>p3.
              if keywords_test p3 name'
              then raise start0 (str ''Unexpected keyword '' @ [39] @ name' @ [39]) p3
              else if ecmaVersion (options p3) < 6 \<and> 92 \<in> set (slice (input p3) start0 end0)
              then Ok () p3
              else if (if strict p3 then reservedWordsStrict_test p3 name' else reservedWords_test p3 name')
              then
                seq (bind inAsync (\<lambda>a p4.
                       if \<not> a \<and> name' = str ''await''
                       then raiseRecoverable start0
                              (str ''Cannot use keyword 'await' outside an async function'') p4
                       else Ok () p4))
                  (raiseRecoverable start0 (str ''The keyword '' @ [39] @ name' @ [39] @ str '' is reserved''))
                  p3
              else Ok () p3)) p)"

definition parseIdent :: "bool \<Rightarrow> node M" where
  "parseIdent liberal p =
     (let n0 = startNode p in
      bind (\<lambda>p1.
              if type p1 = tt_name then Ok (set_field ''name'' (value' p1) n0) p1
              else
                (case keyword (type p1) of
                   Some k \<Rightarrow>
                     Ok (set_field ''name'' (JStr (str k)) n0)
                        (if (k = ''class'' \<or> k = ''function'') \<and>
                            (lastTokEnd p1 \<noteq> lastTokStart p1 + 1 \<or>
                             charCodeAt (input p1) (lastTokStart p1) \<noteq> Some 46)
                         then p1\<lparr>context' := butlast (context' p1)\<rparr> else p1)
                 | None \<Rightarrow> unexpected (start p1) p1))
        (\<lambda>n1. seq (next' liberal) (\<lambda>p2.
           let n2 = finishNode n1 ''Identifier'' p2 in
           if \<not> liberal then
             seq (checkUnreserved n2) (\<lambda>p3.
               Ok n2 (if node_name n2 = str ''await'' \<and> awaitIdentPos p3 = 0
                      then p3\<lparr>awaitIdentPos := nstart n2\<rparr> else p3)) p2
           else Ok n2 p2)) p)"

text \<open>\<open>raw.slice(0, -1).replace(/_/g, "")\<close>\<close>

definition bigint_of_raw :: "jsstring \<Rightarrow> jsstring" where
  "bigint_of_raw raw = filter (\<lambda>c. c \<noteq> 95) (butlast raw)"

definition parseLiteral :: "jsval \<Rightarrow> node M" where
  "parseLiteral val p =
     (let n0 = startNode p;
          n1 = set_field ''value'' val n0;
          raw = slice (input p) (start p) (end' p);
          n2 = set_field ''raw'' (JStr raw) n1;
          n3 = (if raw \<noteq> [] \<and> last raw = 110 then set_field ''bigint'' (JStr (bigint_of_raw raw)) n2
                else n2)
      in seq (next' False) (\<lambda>p1. Ok (finishNode n3 ''Literal'' p1) p1) p)"

subsection \<open>Functions and directives\<close>

definition initFunction :: "node \<Rightarrow> parser \<Rightarrow> node" where
  "initFunction n p =
     (let n1 = set_field ''id'' JNull n;
          n2 = (if ecmaVersion (options p) \<ge> 6
                then set_field ''generator'' (JBool False) (set_field ''expression'' (JBool False) n1)
                else n1)
      in if ecmaVersion (options p) \<ge> 8 then set_field ''async'' (JBool False) n2 else n2)"

primrec isSimpleParamList_loop :: "jsval list \<Rightarrow> bool option" where
  "isSimpleParamList_loop [] = Some True"
| "isSimpleParamList_loop (v # vs) =
     (case v of
        JNode n \<Rightarrow> if ntype n \<noteq> ''Identifier'' then Some False else isSimpleParamList_loop vs
      | _ \<Rightarrow> None)"

definition isSimpleParamList :: "jsval list \<Rightarrow> bool M" where
  "isSimpleParamList params p =
     (case isSimpleParamList_loop params of None \<Rightarrow> Err TypeError p | Some b \<Rightarrow> Ok b p)"

definition buildBinary :: "nat \<Rightarrow> node \<Rightarrow> node \<Rightarrow> jsval \<Rightarrow> bool \<Rightarrow> parser \<Rightarrow> node" where
  "buildBinary startPos left0 right0 op logical p =
     finishNode
       (set_field ''right'' (JNode right0)
          (set_field ''operator'' op (set_field ''left'' (JNode left0) (startNodeAt startPos))))
       (if logical then ''LogicalExpression'' else ''BinaryExpression'') p"


subsection \<open>The recursive functions\<close>

text \<open>
  The parser's functions call one another recursively. Each function below is written
  against a table of the functions it may re-enter; the table of depth \<open>n + 1\<close> holds the
  functions written against the table of depth \<open>n\<close> (\<open>parser_fuel\<close>, further down), and
  the table of depth \<open>0\<close> stops with \<open>OutOfFuel\<close>. \<open>r_fuel\<close> bounds the repetitions of
  the loops. A \<open>checkClashes\<close> object is the list of the names it holds, returned
  updated by the three \<open>checkLVal\<close> functions; \<open>afterLeftParse\<close> says whether
  \<open>parseParenItem\<close> (the identity) was passed.
\<close>

type_synonym clashes = "jsstring list option"

record callees =
  r_fuel :: nat
  r_parseMaybeAssign :: "bool \<Rightarrow> nat option \<Rightarrow> bool \<Rightarrow> node M"
  r_parseMaybeUnary :: "nat option \<Rightarrow> bool \<Rightarrow> node M"
  r_parseExprOp :: "node \<Rightarrow> nat \<Rightarrow> int \<Rightarrow> bool \<Rightarrow> node M"
  r_parseStatement :: "string option \<Rightarrow> bool \<Rightarrow> node M"
  r_parseBindingAtom :: "node M"
  r_toAssignable :: "jsval \<Rightarrow> bool \<Rightarrow> nat option \<Rightarrow> jsval M"
  r_checkLValSimple :: "node \<Rightarrow> BindingType \<Rightarrow> clashes \<Rightarrow> clashes M"
  r_checkLValPattern :: "node \<Rightarrow> BindingType \<Rightarrow> clashes \<Rightarrow> clashes M"
  r_checkLValInnerPattern :: "node \<Rightarrow> BindingType \<Rightarrow> clashes \<Rightarrow> clashes M"
  r_isSimpleAssignTarget :: "node \<Rightarrow> bool M"

subsection \<open>Assignment targets\<close>

definition isSimpleAssignTarget :: "callees \<Rightarrow> node \<Rightarrow> bool M" where
  "isSimpleAssignTarget R expr p =
     (if ntype expr = ''ParenthesizedExpression''
      then bind (field_node ''expression'' expr) (r_isSimpleAssignTarget R) p
      else Ok (ntype expr = ''Identifier'' \<or> ntype expr = ''MemberExpression'') p)"

definition checkLValSimple :: "callees \<Rightarrow> node \<Rightarrow> BindingType \<Rightarrow> clashes \<Rightarrow> clashes M" where
  "checkLValSimple R expr bindingType checkClashes p =
     (let isBind = (bindingType \<noteq> BIND_NONE) in
      if ntype expr = ''Identifier'' then
        seq (\<lambda>p1. if strict p1 \<and> reservedWordsStrictBind_test p1 (node_name expr)
                   then raiseRecoverable (nstart expr)
                          ((if isBind then str ''Binding '' else str ''Assigning to '') @
                           node_name expr @ str '' in strict mode'') p1
                   else Ok () p1)
          (\<lambda>p2.
             if isBind then
               seq (\<lambda>p3. if bindingType = BIND_LEXICAL \<and> node_name expr = str ''let''
                          then raiseRecoverable (nstart expr)
                                 (str ''let is disallowed as a lexically bound name'') p3
                          else Ok () p3)
                 (bind (\<lambda>p4. case checkClashes of
                                None \<Rightarrow> Ok None p4
                              | Some names \<Rightarrow>
                                  if node_name expr \<in> set names
                                  then raiseRecoverable (nstart expr) (str ''Argument name clash'') p4
                                  else Ok (Some (names @ [node_name expr])) p4)
                    (\<lambda>checkClashes1 p5.
                       if bindingType \<noteq> BIND_OUTSIDE
                       then seq (declareName (node_name expr) bindingType (nstart expr))
                              (ret checkClashes1) p5
                       else Ok checkClashes1 p5)) p2
             else Ok checkClashes p2) p
      else if ntype expr = ''ChainExpression'' then
        raiseRecoverable (nstart expr) (str ''Optional chaining cannot appear in left-hand side'') p
      else if ntype expr = ''MemberExpression'' then
        (if isBind then raiseRecoverable (nstart expr) (str ''Binding member expression'') p
         else Ok checkClashes p)
      else if ntype expr = ''ParenthesizedExpression'' then
        (if isBind then raiseRecoverable (nstart expr) (str ''Binding parenthesized expression'') p
         else bind (field_node ''expression'' expr)
                (\<lambda>e. r_checkLValSimple R e bindingType checkClashes) p)
      else raise (nstart expr) ((if isBind then str ''Binding'' else str ''Assigning to'') @ str '' rvalue'') p)"

text \<open>
  Object literals and patterns are not embedded (\<open>parseObj\<close>), so the branches for
  \<open>ObjectPattern\<close> and \<open>Property\<close> stop with \<open>Unmodelled\<close>.
\<close>

primrec checkLVal_elements ::
  "(node \<Rightarrow> BindingType \<Rightarrow> clashes \<Rightarrow> clashes M) \<Rightarrow> jsval list \<Rightarrow> BindingType \<Rightarrow> clashes \<Rightarrow> clashes M" where
  "checkLVal_elements f [] bindingType checkClashes p = Ok checkClashes p"
| "checkLVal_elements f (v # vs) bindingType checkClashes p =
     (if truthy v then
        bind (as_node v) (\<lambda>e. bind (f e bindingType checkClashes)
          (\<lambda>checkClashes1. checkLVal_elements f vs bindingType checkClashes1)) p
      else checkLVal_elements f vs bindingType checkClashes p)"

definition checkLValPattern :: "callees \<Rightarrow> node \<Rightarrow> BindingType \<Rightarrow> clashes \<Rightarrow> clashes M" where
  "checkLValPattern R expr bindingType checkClashes p =
     (if ntype expr = ''ObjectPattern'' then Err (Unmodelled ''ObjectPattern'') p
      else if ntype expr = ''ArrayPattern'' then
        (case get_field ''elements'' expr of
           JArr elems \<Rightarrow> checkLVal_elements (r_checkLValInnerPattern R) elems bindingType checkClashes p
         | _ \<Rightarrow> Err TypeError p)
      else checkLValSimple R expr bindingType checkClashes p)"

definition checkLValInnerPattern :: "callees \<Rightarrow> node \<Rightarrow> BindingType \<Rightarrow> clashes \<Rightarrow> clashes M" where
  "checkLValInnerPattern R expr bindingType checkClashes p =
     (if ntype expr = ''Property'' then Err (Unmodelled ''Property'') p
      else if ntype expr = ''AssignmentPattern'' then
        bind (field_node ''left'' expr) (\<lambda>l. r_checkLValPattern R l bindingType checkClashes) p
      else if ntype expr = ''RestElement'' then
        bind (field_node ''argument'' expr) (\<lambda>a. r_checkLValPattern R a bindingType checkClashes) p
      else r_checkLValPattern R expr bindingType checkClashes p)"

text \<open>
  \<open>checkParams\<close>: the parameters are checked in turn against one \<open>nameHash\<close>, or
  against none where duplicates are allowed.
\<close>

primrec checkParams_loop :: "callees \<Rightarrow> jsval list \<Rightarrow> clashes \<Rightarrow> unit M" where
  "checkParams_loop R [] nameHash p = Ok () p"
| "checkParams_loop R (v # vs) nameHash p =
     bind (as_node v) (\<lambda>param.
       bind (checkLValInnerPattern R param BIND_VAR nameHash) (\<lambda>nameHash1.
         checkParams_loop R vs nameHash1)) p"

definition checkParams :: "callees \<Rightarrow> node \<Rightarrow> bool \<Rightarrow> unit M" where
  "checkParams R n allowDuplicates p =
     (case get_field ''params'' n of
        JArr params \<Rightarrow> checkParams_loop R params (if allowDuplicates then None else Some []) p
      | _ \<Rightarrow> Err TypeError p)"

subsection \<open>Expressions to patterns\<close>

text \<open>
  \<open>toAssignable\<close> changes the node it is given and returns it; here it returns the
  changed node, which the caller puts back where the node was. The elements of a list
  are converted in turn (\<open>toAssignableList\<close>).
\<close>

primrec toAssignableList_loop :: "callees \<Rightarrow> jsval list \<Rightarrow> bool \<Rightarrow> (jsval list) M" where
  "toAssignableList_loop R [] isBinding p = Ok [] p"
| "toAssignableList_loop R (elt # elts) isBinding p =
     bind (if truthy elt then r_toAssignable R elt isBinding None else ret elt) (\<lambda>elt1.
       bind (toAssignableList_loop R elts isBinding) (\<lambda>elts1. ret (elt1 # elts1))) p"

definition toAssignableList :: "callees \<Rightarrow> jsval list \<Rightarrow> bool \<Rightarrow> (jsval list) M" where
  "toAssignableList R exprList isBinding p =
     bind (toAssignableList_loop R exprList isBinding) (\<lambda>exprList1 p1.
       if exprList1 \<noteq> [] then
         (let last0 = last exprList1 in
          if ecmaVersion (options p1) = 6 \<and> isBinding \<and> truthy last0 then
            bind (as_node last0) (\<lambda>l p2.
              if ntype l = ''RestElement'' then
                bind (field_node ''argument'' l) (\<lambda>a p3.
                  if ntype a \<noteq> ''Identifier'' then unexpected (nstart a) p3 else Ok exprList1 p3) p2
              else Ok exprList1 p2) p1
          else Ok exprList1 p1)
       else Ok exprList1 p1) p"

definition toAssignable :: "callees \<Rightarrow> jsval \<Rightarrow> bool \<Rightarrow> nat option \<Rightarrow> jsval M" where
  "toAssignable R v isBinding refDestructuringErrors p =
     (if ecmaVersion (options p) \<ge> 6 \<and> truthy v then
        bind (as_node v) (\<lambda>n p1.
          if ntype n = ''Identifier'' then
            bind inAsync (\<lambda>a p2.
              if a \<and> node_name n = str ''await''
              then raise (nstart n) (str ''Cannot use 'await' as identifier inside an async function'') p2
              else Ok (JNode n) p2) p1
          else if ntype n = ''ObjectPattern'' \<or> ntype n = ''ArrayPattern'' \<or>
                  ntype n = ''AssignmentPattern'' \<or> ntype n = ''RestElement'' then Ok (JNode n) p1
          else if ntype n = ''ObjectExpression'' then Err (Unmodelled ''ObjectExpression'') p1
          else if ntype n = ''Property'' then Err (Unmodelled ''Property'') p1
          else if ntype n = ''ArrayExpression'' then
            (let n1 = set_type ''ArrayPattern'' n in
             seq (checkPatternErrors refDestructuringErrors True) (\<lambda>p2.
               case get_field ''elements'' n1 of
                 JArr elems \<Rightarrow>
                   bind (toAssignableList R elems isBinding) (\<lambda>elems1.
                     ret (JNode (set_field ''elements'' (JArr elems1) n1))) p2
               | _ \<Rightarrow> Err TypeError p2) p1)
          else if ntype n = ''SpreadElement'' then
            (let n1 = set_type ''RestElement'' n in
             bind (r_toAssignable R (get_field ''argument'' n1) isBinding None) (\<lambda>arg1 p2.
               let n2 = set_field ''argument'' arg1 n1 in
               bind (as_node arg1) (\<lambda>a p3.
                 if ntype a = ''AssignmentPattern''
                 then raise (nstart a) (str ''Rest elements cannot have a default value'') p3
                 else Ok (JNode n2) p3) p2) p1)
          else if ntype n = ''AssignmentExpression'' then
            seq (\<lambda>p2. if get_field ''operator'' n \<noteq> JStr (str ''='')
                       then bind (field_node ''left'' n) (\<lambda>l.
                              raise (nend l)
                                (str ''Only '' @ [39] @ str ''='' @ [39] @
                                 str '' operator can be used for specifying default value.'')) p2
                       else Ok () p2)
              (\<lambda>p3. let n1 = delete_field ''operator'' (set_type ''AssignmentPattern'' n) in
                 bind (r_toAssignable R (get_field ''left'' n1) isBinding None) (\<lambda>left1.
                   ret (JNode (set_field ''left'' left1 n1))) p3) p1
          else if ntype n = ''ParenthesizedExpression'' then
            bind (r_toAssignable R (get_field ''expression'' n) isBinding refDestructuringErrors)
              (\<lambda>e1. ret (JNode (set_field ''expression'' e1 n))) p1
          else if ntype n = ''ChainExpression'' then
            raiseRecoverable (nstart n) (str ''Optional chaining cannot appear in left-hand side'') p1
          else if ntype n = ''MemberExpression'' \<and> \<not> isBinding then Ok (JNode n) p1
          else raise (nstart n) (str ''Assigning to rvalue'') p1) p
      else if refDestructuringErrors \<noteq> None then
        seq (checkPatternErrors refDestructuringErrors True) (ret v) p
      else Ok v p)"


subsection \<open>Binding patterns\<close>

definition parseSpread :: "callees \<Rightarrow> nat option \<Rightarrow> node M" where
  "parseSpread R refDestructuringErrors p =
     (let n0 = startNode p in
      seq (next' False)
        (bind (r_parseMaybeAssign R False refDestructuringErrors False) (\<lambda>arg p1.
           Ok (finishNode (set_field ''argument'' (JNode arg) n0) ''SpreadElement'' p1) p1)) p)"

definition parseRestBinding :: "callees \<Rightarrow> node M" where
  "parseRestBinding R p =
     (let n0 = startNode p in
      seq (next' False) (\<lambda>p1.
        if ecmaVersion (options p1) = 6 \<and> type p1 \<noteq> tt_name then unexpected (start p1) p1
        else
          bind (r_parseBindingAtom R) (\<lambda>arg p2.
            Ok (finishNode (set_field ''argument'' (JNode arg) n0) ''RestElement'' p2) p2) p1) p)"

definition parseMaybeDefault :: "callees \<Rightarrow> nat \<Rightarrow> node option \<Rightarrow> node M" where
  "parseMaybeDefault R startPos left0 p =
     bind (case left0 of Some l \<Rightarrow> ret l | None \<Rightarrow> r_parseBindingAtom R) (\<lambda>left1 p1.
       if ecmaVersion (options p1) < 6 then Ok left1 p1
       else
         bind (eat tt_eq) (\<lambda>e p2.
           if \<not> e then Ok left1 p2
           else
             (let n0 = set_field ''left'' (JNode left1) (startNodeAt startPos) in
              bind (r_parseMaybeAssign R False None False) (\<lambda>right0 p3.
                Ok (finishNode (set_field ''right'' (JNode right0) n0) ''AssignmentPattern'' p3) p3) p2)) p1) p"

text \<open>
  The loop of \<open>parseBindingList\<close>; \<open>parseBindingListItem\<close> is the identity.
\<close>

primrec parseBindingList_loop ::
  "callees \<Rightarrow> nat \<Rightarrow> TokenType \<Rightarrow> bool \<Rightarrow> bool \<Rightarrow> bool \<Rightarrow> jsval list \<Rightarrow> (jsval list) M" where
  "parseBindingList_loop R 0 close allowEmpty allowTrailingComma first elts p = Err OutOfFuel p"
| "parseBindingList_loop R (Suc k) close allowEmpty allowTrailingComma first elts p =
     bind (eat close) (\<lambda>closed p1.
       if closed then Ok elts p1
       else
         seq (if first then ret () else expect tt_comma) (\<lambda>p2.
           if allowEmpty \<and> type p2 = tt_comma
           then parseBindingList_loop R k close allowEmpty allowTrailingComma False (elts @ [JNull]) p2
           else
             bind (if allowTrailingComma then afterTrailingComma close False else ret False) (\<lambda>after p3.
               if after then Ok elts p3
               else if type p3 = tt_ellipsis then
                 bind (parseRestBinding R) (\<lambda>rest p4.
                   if type p4 = tt_comma
                   then raise (start p4) (str ''Comma is not permitted after the rest element'') p4
                   else seq (expect close) (ret (elts @ [JNode rest])) p4) p3
               else
                 bind (parseMaybeDefault R (start p3) None) (\<lambda>elem.
                   parseBindingList_loop R k close allowEmpty allowTrailingComma False
                     (elts @ [JNode elem])) p3) p2) p1) p"

definition parseBindingList :: "callees \<Rightarrow> TokenType \<Rightarrow> bool \<Rightarrow> bool \<Rightarrow> (jsval list) M" where
  "parseBindingList R close allowEmpty allowTrailingComma p =
     parseBindingList_loop R (r_fuel R) close allowEmpty allowTrailingComma True [] p"

definition parseBindingAtom :: "callees \<Rightarrow> node M" where
  "parseBindingAtom R p =
     (if ecmaVersion (options p) \<ge> 6 \<and> type p = tt_bracketL then
        (let n0 = startNode p in
         seq (next' False)
           (bind (parseBindingList R tt_bracketR True True) (\<lambda>elems p1.
              Ok (finishNode (set_field ''elements'' (JArr elems) n0) ''ArrayPattern'' p1) p1)) p)
      else if ecmaVersion (options p) \<ge> 6 \<and> type p = tt_braceL then Err (Unmodelled ''parseObj'') p
      else parseIdent False p)"

subsection \<open>Blocks and function bodies\<close>

definition isDirectiveCandidate :: "node \<Rightarrow> bool M" where
  "isDirectiveCandidate statement p =
     (if ntype statement = ''ExpressionStatement'' then
        bind (field_node ''expression'' statement) (\<lambda>e p1.
          Ok (ntype e = ''Literal'' \<and> (case get_field ''value'' e of JStr _ \<Rightarrow> True | _ \<Rightarrow> False) \<and>
              (charCodeAt (input p1) (nstart statement) = Some 34 \<or>
               charCodeAt (input p1) (nstart statement) = Some 39)) p1) p
      else Ok False p)"

primrec adaptDirectivePrologue :: "jsval list \<Rightarrow> (jsval list) M" where
  "adaptDirectivePrologue [] p = Ok [] p"
| "adaptDirectivePrologue (v # vs) p =
     bind (as_node v) (\<lambda>statement.
       bind (isDirectiveCandidate statement) (\<lambda>c p1.
         if c then
           bind (field_node ''expression'' statement) (\<lambda>e p2.
             case get_field ''raw'' e of
               JStr raw \<Rightarrow>
                 bind (adaptDirectivePrologue vs) (\<lambda>vs1.
                   ret (JNode (set_field ''directive'' (JStr (butlast (tl raw))) statement) # vs1)) p2
             | _ \<Rightarrow> Err TypeError p2) p1
         else Ok (v # vs) p1)) p"

primrec parseBlock_loop :: "callees \<Rightarrow> nat \<Rightarrow> jsval list \<Rightarrow> (jsval list) M" where
  "parseBlock_loop R 0 body p = Err OutOfFuel p"
| "parseBlock_loop R (Suc k) body p =
     (if type p \<noteq> tt_braceR
      then bind (r_parseStatement R None False) (\<lambda>stmt. parseBlock_loop R k (body @ [JNode stmt])) p
      else Ok body p)"

definition parseBlock :: "callees \<Rightarrow> bool \<Rightarrow> node option \<Rightarrow> bool \<Rightarrow> node M" where
  "parseBlock R createNewLexicalScope given exitStrict p =
     (let n0 = set_field ''body'' (JArr []) (case given of Some n \<Rightarrow> n | None \<Rightarrow> startNode p) in
      seq (expect tt_braceL) (\<lambda>p1.
        bind (parseBlock_loop R (r_fuel R)  [])
          (\<lambda>body p2.
             seq (next' False) (\<lambda>p3.
               let p4 = (if createNewLexicalScope then exitScope p3 else p3) in
               Ok (finishNode (set_field ''body'' (JArr body) n0) ''BlockStatement'' p4) p4)
               (if exitStrict then p2\<lparr>strict := False\<rparr> else p2))
          (if createNewLexicalScope then enterScope 0 p1 else p1)) p)"

definition parseFunctionBody :: "callees \<Rightarrow> node \<Rightarrow> bool \<Rightarrow> bool \<Rightarrow> node M" where
  "parseFunctionBody R n isArrowFunction isMethod p =
     (let isExpression = (isArrowFunction \<and> type p \<noteq> tt_braceL); oldStrict = strict p in
      bind (\<lambda>p1.
        if isExpression then
          bind (r_parseMaybeAssign R False None False) (\<lambda>body p2.
            let n1 = set_field ''expression'' (JBool True) (set_field ''body'' (JNode body) n) in
            seq (checkParams R n1 False) (ret n1) p2) p1
        else
          (case get_field ''params'' n of
             JArr params \<Rightarrow>
               bind (if ecmaVersion (options p1) \<ge> 7
                     then bind (isSimpleParamList params) (\<lambda>s. ret (\<not> s)) else ret False) (\<lambda>nonSimple p2.
                 bind (\<lambda>p3.
                         if \<not> oldStrict \<or> nonSimple then
                           (let useStrict = strictDirective (end' p3) p3 in
                            if useStrict \<and> nonSimple
                            then raiseRecoverable (nstart n)
                                   (str ''Illegal 'use strict' directive in function with non-simple parameter list'') p3
                            else Ok useStrict p3)
                         else Ok False p3) (\<lambda>useStrict p4.
                   let oldLabels = labels p4;
                       p5 = p4\<lparr>labels := []\<rparr>;
                       p6 = (if useStrict then p5\<lparr>strict := True\<rparr> else p5)
                   in
                   bind (if \<not> oldStrict \<and> \<not> useStrict \<and> \<not> isArrowFunction \<and> \<not> isMethod
                         then isSimpleParamList params else ret False) (\<lambda>allowDuplicates.
                     seq (checkParams R n allowDuplicates)
                       (seq (\<lambda>p7. if strict p7 \<and> truthy (get_field ''id'' n)
                                   then bind (field_node ''id'' n) (\<lambda>ident.
                                          bind (checkLValSimple R ident BIND_OUTSIDE None) (\<lambda>_. ret ())) p7
                                   else Ok () p7)
                          (bind (parseBlock R False None (useStrict \<and> \<not> oldStrict)) (\<lambda>body.
                             case get_field ''body'' body of
                               JArr statements \<Rightarrow>
                                 bind (adaptDirectivePrologue statements) (\<lambda>statements1 p8.
                                   Ok (set_field ''expression'' (JBool False)
                                         (set_field ''body''
                                            (JNode (set_field ''body'' (JArr statements1) body)) n))
                                      (p8\<lparr>labels := oldLabels\<rparr>))
                             | _ \<Rightarrow> throw TypeError)))) p6) p2) p1
           | _ \<Rightarrow> Err TypeError p1))
        (\<lambda>n1 p9. Ok n1 (exitScope p9)) p)"

definition parseArrowExpression :: "callees \<Rightarrow> node \<Rightarrow> jsval list \<Rightarrow> bool \<Rightarrow> node M" where
  "parseArrowExpression R n params isAsync p =
     (let oldYieldPos = yieldPos p; oldAwaitPos = awaitPos p; oldAwaitIdentPos = awaitIdentPos p;
          p1 = enterScope (functionFlags isAsync False OR SCOPE_ARROW) p;
          n1 = initFunction n p1;
          n2 = (if ecmaVersion (options p1) \<ge> 8 then set_field ''async'' (JBool isAsync) n1 else n1);
          p2 = p1\<lparr>yieldPos := 0, awaitPos := 0, awaitIdentPos := 0\<rparr>
      in bind (toAssignableList R params True) (\<lambda>params1.
           bind (parseFunctionBody R (set_field ''params'' (JArr params1) n2) True False) (\<lambda>n3 p3.
             let p4 = p3\<lparr>yieldPos := oldYieldPos, awaitPos := oldAwaitPos,
                          awaitIdentPos := oldAwaitIdentPos\<rparr>
             in Ok (finishNode n3 ''ArrowFunctionExpression'' p4) p4)) p2)"

definition parseFunctionParams :: "callees \<Rightarrow> node \<Rightarrow> node M" where
  "parseFunctionParams R n p =
     seq (expect tt_parenL) (\<lambda>p1.
       bind (parseBindingList R tt_parenR False (ecmaVersion (options p1) \<ge> 8)) (\<lambda>params.
         seq checkYieldAwaitInDefaultParams (ret (set_field ''params'' (JArr params) n))) p1) p"

definition FUNC_STATEMENT :: nat where "FUNC_STATEMENT = 1"
definition FUNC_HANGING_STATEMENT :: nat where "FUNC_HANGING_STATEMENT = 2"
definition FUNC_NULLABLE_ID :: nat where "FUNC_NULLABLE_ID = 4"

definition parseFunction :: "callees \<Rightarrow> node \<Rightarrow> nat \<Rightarrow> bool \<Rightarrow> bool \<Rightarrow> node M" where
  "parseFunction R n statement allowExpressionBody isAsync p =
     (let n1 = initFunction n p in
      bind (\<lambda>p1.
        if ecmaVersion (options p1) \<ge> 9 \<or> (ecmaVersion (options p1) \<ge> 6 \<and> \<not> isAsync) then
          (if type p1 = tt_star \<and> statement AND FUNC_HANGING_STATEMENT \<noteq> 0 then unexpected (start p1) p1
           else bind (eat tt_star) (\<lambda>g. ret (set_field ''generator'' (JBool g) n1)) p1)
        else Ok n1 p1) (\<lambda>n2 p2.
        let n3 = (if ecmaVersion (options p2) \<ge> 8 then set_field ''async'' (JBool isAsync) n2 else n2) in
        bind (\<lambda>p3.
          if statement AND FUNC_STATEMENT \<noteq> 0 then
            bind (if statement AND FUNC_NULLABLE_ID \<noteq> 0 \<and> type p3 \<noteq> tt_name then ret JNull
                  else bind (parseIdent False) (\<lambda>ident. ret (JNode ident))) (\<lambda>ident p4.
              let n4 = set_field ''id'' ident n3 in
              if truthy ident \<and> \<not> statement AND FUNC_HANGING_STATEMENT \<noteq> 0 then
                bind (as_node ident) (\<lambda>ident1.
                  bind (\<lambda>p5. if strict p5 \<or> truthy (get_field ''generator'' n4) \<or>
                                 truthy (get_field ''async'' n4)
                              then bind treatFunctionsAsVar (\<lambda>t. ret (if t then BIND_VAR else BIND_LEXICAL)) p5
                              else Ok BIND_FUNCTION p5) (\<lambda>bindingType.
                    bind (checkLValSimple R ident1 bindingType None) (\<lambda>_. ret n4))) p4
              else Ok n4 p4) p3
          else Ok n3 p3) (\<lambda>n5 p6.
          let oldYieldPos = yieldPos p6; oldAwaitPos = awaitPos p6; oldAwaitIdentPos = awaitIdentPos p6;
              p7 = enterScope (functionFlags (truthy (get_field ''async'' n5))
                                 (truthy (get_field ''generator'' n5)))
                     (p6\<lparr>yieldPos := 0, awaitPos := 0, awaitIdentPos := 0\<rparr>)
          in
          bind (\<lambda>p8.
            if \<not> statement AND FUNC_STATEMENT \<noteq> 0 then
              (if type p8 = tt_name
               then bind (parseIdent False) (\<lambda>ident. ret (set_field ''id'' (JNode ident) n5)) p8
               else Ok (set_field ''id'' JNull n5) p8)
            else Ok n5 p8) (\<lambda>n6.
            bind (parseFunctionParams R n6) (\<lambda>n7.
              bind (parseFunctionBody R n7 allowExpressionBody False) (\<lambda>n8 p9.
                let p10 = p9\<lparr>yieldPos := oldYieldPos, awaitPos := oldAwaitPos,
                              awaitIdentPos := oldAwaitIdentPos\<rparr>
                in Ok (finishNode n8
                         (if statement AND FUNC_STATEMENT \<noteq> 0 then ''FunctionDeclaration''
                          else ''FunctionExpression'') p10) p10))) p7) p2) p)"


subsection \<open>Expressions\<close>

primrec parseExpression_loop :: "callees \<Rightarrow> nat \<Rightarrow> bool \<Rightarrow> nat option \<Rightarrow> jsval list \<Rightarrow> (jsval list) M" where
  "parseExpression_loop R 0 noIn refDestructuringErrors exprs p = Err OutOfFuel p"
| "parseExpression_loop R (Suc k) noIn refDestructuringErrors exprs p =
     bind (eat tt_comma) (\<lambda>c p1.
       if c then
         bind (r_parseMaybeAssign R noIn refDestructuringErrors False) (\<lambda>e.
           parseExpression_loop R k noIn refDestructuringErrors (exprs @ [JNode e])) p1
       else Ok exprs p1) p"

definition parseExpression :: "callees \<Rightarrow> bool \<Rightarrow> nat option \<Rightarrow> node M" where
  "parseExpression R noIn refDestructuringErrors p =
     (let startPos = start p in
      bind (r_parseMaybeAssign R noIn refDestructuringErrors False) (\<lambda>expr p1.
        if type p1 = tt_comma then
          bind (parseExpression_loop R (r_fuel R) noIn refDestructuringErrors [JNode expr]) (\<lambda>exprs p2.
            Ok (finishNode (set_field ''expressions'' (JArr exprs) (startNodeAt startPos))
                  ''SequenceExpression'' p2) p2) p1
        else Ok expr p1) p)"

definition parseParenExpression :: "callees \<Rightarrow> node M" where
  "parseParenExpression R p =
     seq (expect tt_parenL)
       (bind (parseExpression R False None) (\<lambda>val. seq (expect tt_parenR) (ret val))) p"

primrec parseExprList_loop ::
  "callees \<Rightarrow> nat \<Rightarrow> TokenType \<Rightarrow> bool \<Rightarrow> bool \<Rightarrow> nat option \<Rightarrow> bool \<Rightarrow> jsval list \<Rightarrow> (jsval list) M" where
  "parseExprList_loop R 0 close allowTrailingComma allowEmpty refDestructuringErrors first elts p =
     Err OutOfFuel p"
| "parseExprList_loop R (Suc k) close allowTrailingComma allowEmpty refDestructuringErrors first elts p =
     bind (eat close) (\<lambda>closed p1.
       if closed then Ok elts p1
       else
         bind (if \<not> first
               then seq (expect tt_comma)
                      (if allowTrailingComma then afterTrailingComma close False else ret False)
               else ret False) (\<lambda>after p2.
           if after then Ok elts p2
           else
             bind (\<lambda>p3.
                     if allowEmpty \<and> type p3 = tt_comma then Ok JNull p3
                     else if type p3 = tt_ellipsis then
                       bind (parseSpread R refDestructuringErrors) (\<lambda>elt p4.
                         Ok (JNode elt)
                            (case refDestructuringErrors of
                               Some r \<Rightarrow>
                                 if type p4 = tt_comma \<and> trailingComma (deref r p4) < 0
                                 then update_ref r (\<lambda>d. d\<lparr>trailingComma := int (start p4)\<rparr>) p4
                                 else p4
                             | None \<Rightarrow> p4)) p3
                     else bind (r_parseMaybeAssign R False refDestructuringErrors False)
                            (\<lambda>elt. ret (JNode elt)) p3)
               (\<lambda>elt. parseExprList_loop R k close allowTrailingComma allowEmpty refDestructuringErrors
                         False (elts @ [elt])) p2) p1) p"

definition parseExprList :: "callees \<Rightarrow> TokenType \<Rightarrow> bool \<Rightarrow> bool \<Rightarrow> nat option \<Rightarrow> (jsval list) M" where
  "parseExprList R close allowTrailingComma allowEmpty refDestructuringErrors p =
     parseExprList_loop R (r_fuel R) close allowTrailingComma allowEmpty refDestructuringErrors True [] p"

text \<open>
  The loop of \<open>parseParenAndDistinguishExpression\<close>: it returns \<open>exprList\<close>,
  \<open>lastIsComma\<close> and \<open>spreadStart\<close>. \<open>parseParenItem\<close> is the identity.
\<close>

primrec parseParen_loop ::
  "callees \<Rightarrow> nat \<Rightarrow> bool \<Rightarrow> nat \<Rightarrow> bool \<Rightarrow> jsval list \<Rightarrow> (jsval list \<times> bool \<times> nat option) M" where
  "parseParen_loop R 0 allowTrailingComma refDestructuringErrors first exprList p = Err OutOfFuel p"
| "parseParen_loop R (Suc k) allowTrailingComma refDestructuringErrors first exprList p =
     (if type p \<noteq> tt_parenR then
        seq (if first then ret () else expect tt_comma) (\<lambda>p1.
          bind (if allowTrailingComma then afterTrailingComma tt_parenR True else ret False) (\<lambda>after p2.
            if after then Ok (exprList, True, None) p2
            else if type p2 = tt_ellipsis then
              (let spreadStart = start p2 in
               bind (parseRestBinding R) (\<lambda>rest p3.
                 if type p3 = tt_comma
                 then raise (start p3) (str ''Comma is not permitted after the rest element'') p3
                 else Ok (exprList @ [JNode rest], False, Some spreadStart) p3) p2)
            else
              bind (r_parseMaybeAssign R False (Some refDestructuringErrors) True) (\<lambda>e.
                parseParen_loop R k allowTrailingComma refDestructuringErrors False
                  (exprList @ [JNode e])) p2) p1) p
      else Ok (exprList, False, None) p)"

definition parseParenArrowList :: "callees \<Rightarrow> nat \<Rightarrow> jsval list \<Rightarrow> node M" where
  "parseParenArrowList R startPos exprList p =
     parseArrowExpression R (startNodeAt startPos) exprList False p"

definition parseParenAndDistinguishExpression :: "callees \<Rightarrow> bool \<Rightarrow> node M" where
  "parseParenAndDistinguishExpression R canBeArrow p =
     (let startPos = start p; allowTrailingComma = (ecmaVersion (options p) \<ge> 8) in
      bind (\<lambda>p0.
        if ecmaVersion (options p0) \<ge> 6 then
          seq (next' False) (\<lambda>p1.
            let innerStartPos = start p1 in
            bind new_ref (\<lambda>refDestructuringErrors p2.
              let oldYieldPos = yieldPos p2; oldAwaitPos = awaitPos p2 in
              bind (parseParen_loop R (r_fuel R) allowTrailingComma refDestructuringErrors True [])
                (\<lambda>(exprList, lastIsComma, spreadStart) p3.
                   let innerEndPos = start p3 in
                   seq (expect tt_parenR)
                     (bind (\<lambda>p4. if canBeArrow \<and> \<not> canInsertSemicolon p4 then eat tt_arrow p4
                                  else Ok False p4) (\<lambda>arrow p5.
                        if arrow then
                          seq (checkPatternErrors (Some refDestructuringErrors) False)
                            (seq checkYieldAwaitInDefaultParams (\<lambda>p6.
                               parseParenArrowList R startPos exprList
                                 (p6\<lparr>yieldPos := oldYieldPos, awaitPos := oldAwaitPos\<rparr>))) p5
                        else if exprList = [] \<or> lastIsComma then unexpected (lastTokStart p5) p5
                        else if spreadStart \<noteq> None \<and> spreadStart \<noteq> Some 0
                        then unexpected (the spreadStart) p5
                        else
                          bind (checkExpressionErrors (Some refDestructuringErrors) True) (\<lambda>_ p7.
                            let p8 = p7\<lparr>yieldPos := (if oldYieldPos \<noteq> 0 then oldYieldPos else yieldPos p7),
                                         awaitPos := (if oldAwaitPos \<noteq> 0 then oldAwaitPos else awaitPos p7)\<rparr>
                            in if length exprList > 1 then
                                 Ok (finishNodeAt
                                       (set_field ''expressions'' (JArr exprList) (startNodeAt innerStartPos))
                                       ''SequenceExpression'' innerEndPos) p8
                               else as_node (hd exprList) p8) p5)) p3)
                (p2\<lparr>yieldPos := 0, awaitPos := 0\<rparr>)) p1) p0
        else parseParenExpression R p0) (\<lambda>val p9.
        if preserveParens (options p9) then
          Ok (finishNode (set_field ''expression'' (JNode val) (startNodeAt startPos))
                ''ParenthesizedExpression'' p9) p9
        else Ok val p9) p)"

text \<open>
  Object literals, classes, \<open>new\<close>, templates and \<open>import\<close> expressions are not
  embedded: \<open>parseExprAtom\<close> stops with \<open>Unmodelled\<close> where it would call their
  functions.
\<close>

definition parseExprAtom :: "callees \<Rightarrow> nat option \<Rightarrow> node M" where
  "parseExprAtom R refDestructuringErrors p =
     seq (\<lambda>p0. if type p0 = tt_slash then readRegexp p0 else Ok () p0) (\<lambda>p1.
       let canBeArrow = (potentialArrowAt p1 = int (start p1)) in
       if type p1 = tt__super then
         bind allowSuper (\<lambda>a p2.
           if \<not> a then raise (start p2) (str ''super'' @ [39] @ str '' keyword outside a method'') p2
           else
             (let n0 = startNode p2 in
              seq (next' False)
                (bind (\<lambda>p3. if type p3 = tt_parenL then allowDirectSuper p3 else Ok True p3) (\<lambda>d p4.
                   if \<not> d then raise (nstart n0) (str ''super() call outside constructor of a subclass'') p4
                   else if type p4 \<noteq> tt_dot \<and> type p4 \<noteq> tt_bracketL \<and> type p4 \<noteq> tt_parenL
                   then unexpected (start p4) p4
                   else Ok (finishNode n0 ''Super'' p4) p4)) p2)) p1
       else if type p1 = tt__this then
         (let n0 = startNode p1 in
          seq (next' False) (\<lambda>p2. Ok (finishNode n0 ''ThisExpression'' p2) p2) p1)
       else if type p1 = tt_name then
         (let startPos = start p1; containsEsc0 = containsEsc p1 in
          bind (parseIdent False) (\<lambda>ident p2.
            bind (\<lambda>p3. if ecmaVersion (options p3) \<ge> 8 \<and> \<not> containsEsc0 \<and>
                           node_name ident = str ''async'' \<and> \<not> canInsertSemicolon p3
                        then eat tt__function p3 else Ok False p3) (\<lambda>f p4.
              if f then parseFunction R (startNodeAt startPos) 0 False True p4
              else if canBeArrow \<and> \<not> canInsertSemicolon p4 then
                bind (eat tt_arrow) (\<lambda>arrow p5.
                  if arrow then parseArrowExpression R (startNodeAt startPos) [JNode ident] False p5
                  else if ecmaVersion (options p5) \<ge> 8 \<and> node_name ident = str ''async'' \<and>
                          type p5 = tt_name \<and> \<not> containsEsc0 then
                    bind (parseIdent False) (\<lambda>ident1 p6.
                      bind (\<lambda>p7. if canInsertSemicolon p7 then Ok False p7 else eat tt_arrow p7) (\<lambda>arrow1 p8.
                        if \<not> arrow1 then unexpected (start p8) p8
                        else parseArrowExpression R (startNodeAt startPos) [JNode ident1] True p8) p6) p5
                  else Ok ident p5) p4
              else Ok ident p4) p2) p1)
       else if type p1 = tt_regexp then
         (case value' p1 of
            JRegex pattern0 flags0 \<Rightarrow>
              bind (parseLiteral (JHostRegExp pattern0 flags0)) (\<lambda>n.
                ret (set_field ''regex'' (JObj [(''pattern'', JStr pattern0), (''flags'', JStr flags0)]) n)) p1
          | _ \<Rightarrow> Err TypeError p1)
       else if type p1 = tt_num \<or> type p1 = tt_string then parseLiteral (value' p1) p1
       else if type p1 = tt__null \<or> type p1 = tt__true \<or> type p1 = tt__false then
         (let n0 = set_field ''raw'' (JStr (str (the (keyword (type p1)))))
                     (set_field ''value'' (if type p1 = tt__null then JNull else JBool (type p1 = tt__true))
                        (startNode p1))
          in seq (next' False) (\<lambda>p2. Ok (finishNode n0 ''Literal'' p2) p2) p1)
       else if type p1 = tt_parenL then
         (let start0 = start p1 in
          bind (parseParenAndDistinguishExpression R canBeArrow) (\<lambda>expr p2.
            case refDestructuringErrors of
              Some r \<Rightarrow>
                bind (\<lambda>p3. if parenthesizedAssign (deref r p3) < 0
                            then bind (isSimpleAssignTarget R expr) (\<lambda>s. ret (\<not> s)) p3
                            else Ok False p3) (\<lambda>setAssign p4.
                  let p5 = (if setAssign then update_ref r (\<lambda>d. d\<lparr>parenthesizedAssign := int start0\<rparr>) p4
                            else p4);
                      p6 = (if parenthesizedBind (deref r p5) < 0
                            then update_ref r (\<lambda>d. d\<lparr>parenthesizedBind := int start0\<rparr>) p5 else p5)
                  in Ok expr p6) p2
            | None \<Rightarrow> Ok expr p2) p1)
       else if type p1 = tt_bracketL then
         (let n0 = startNode p1 in
          seq (next' False)
            (bind (parseExprList R tt_bracketR True True refDestructuringErrors) (\<lambda>elems p2.
               Ok (finishNode (set_field ''elements'' (JArr elems) n0) ''ArrayExpression'' p2) p2)) p1)
       else if type p1 = tt_braceL then Err (Unmodelled ''parseObj'') p1
       else if type p1 = tt__function then
         (let n0 = startNode p1 in
          seq (next' False) (parseFunction R n0 0 False False) p1)
       else if type p1 = tt__class then Err (Unmodelled ''parseClass'') p1
       else if type p1 = tt__new then Err (Unmodelled ''parseNew'') p1
       else if type p1 = tt_backQuote then Err (Unmodelled ''parseTemplate'') p1
       else if type p1 = tt__import then
         (if ecmaVersion (options p1) \<ge> 11 then Err (Unmodelled ''parseExprImport'') p1
          else unexpected (start p1) p1)
       else unexpected (start p1) p1) p"

definition parseSubscript ::
  "callees \<Rightarrow> node \<Rightarrow> nat \<Rightarrow> bool \<Rightarrow> bool \<Rightarrow> bool \<Rightarrow> node M" where
  "parseSubscript R base startPos noCalls maybeAsyncArrow optionalChained p =
     (let optionalSupported = (ecmaVersion (options p) \<ge> 11) in
      bind (if optionalSupported then eat tt_questionDot else ret False) (\<lambda>optional p1.
        if noCalls \<and> optional
        then raise (lastTokStart p1)
               (str ''Optional chaining cannot appear in the callee of new expressions'') p1
        else
          bind (eat tt_bracketL) (\<lambda>computed p2.
            bind (\<lambda>p3. if computed \<or> (optional \<and> type p3 \<noteq> tt_parenL \<and> type p3 \<noteq> tt_backQuote)
                        then Ok True p3 else eat tt_dot p3) (\<lambda>member p4.
              if member then
                (let n0 = set_field ''object'' (JNode base) (startNodeAt startPos) in
                 bind (if computed then parseExpression R False None
                       else parseIdent (allowReserved (options p4) \<noteq> allowReserved_never)) (\<lambda>property.
                   let n1 = set_field ''computed'' (JBool computed)
                              (set_field ''property'' (JNode property) n0)
                   in seq (if computed then expect tt_bracketR else ret ()) (\<lambda>p5.
                        Ok (finishNode (if optionalSupported then set_field ''optional'' (JBool optional) n1
                                        else n1) ''MemberExpression'' p5) p5)) p4)
              else
                bind (if \<not> noCalls then eat tt_parenL else ret False) (\<lambda>call p6.
                  if call then
                    bind new_ref (\<lambda>refDestructuringErrors p7.
                      let oldYieldPos = yieldPos p7; oldAwaitPos = awaitPos p7;
                          oldAwaitIdentPos = awaitIdentPos p7
                      in
                      bind (parseExprList R tt_parenR (ecmaVersion (options p7) \<ge> 8) False
                              (Some refDestructuringErrors)) (\<lambda>exprList.
                        bind (\<lambda>p8. if maybeAsyncArrow \<and> \<not> optional \<and> \<not> canInsertSemicolon p8
                                    then eat tt_arrow p8 else Ok False p8) (\<lambda>arrow p9.
                          if arrow then
                            seq (checkPatternErrors (Some refDestructuringErrors) False)
                              (seq checkYieldAwaitInDefaultParams (\<lambda>p10.
                                 if awaitIdentPos p10 > 0
                                 then raise (awaitIdentPos p10)
                                        (str ''Cannot use 'await' as identifier inside an async function'') p10
                                 else parseArrowExpression R (startNodeAt startPos) exprList True
                                        (p10\<lparr>yieldPos := oldYieldPos, awaitPos := oldAwaitPos,
                                              awaitIdentPos := oldAwaitIdentPos\<rparr>))) p9
                          else
                            bind (checkExpressionErrors (Some refDestructuringErrors) True) (\<lambda>_ p11.
                              let p12 = p11\<lparr>yieldPos := (if oldYieldPos \<noteq> 0 then oldYieldPos
                                                            else yieldPos p11),
                                             awaitPos := (if oldAwaitPos \<noteq> 0 then oldAwaitPos
                                                          else awaitPos p11),
                                             awaitIdentPos := (if oldAwaitIdentPos \<noteq> 0 then oldAwaitIdentPos
                                                               else awaitIdentPos p11)\<rparr>;
                                  n1 = set_field ''arguments'' (JArr exprList)
                                         (set_field ''callee'' (JNode base) (startNodeAt startPos))
                              in Ok (finishNode (if optionalSupported
                                                 then set_field ''optional'' (JBool optional) n1 else n1)
                                       ''CallExpression'' p12) p12) p9))
                        (p7\<lparr>yieldPos := 0, awaitPos := 0, awaitIdentPos := 0\<rparr>)) p6
                  else if type p6 = tt_backQuote then
                    (if optional \<or> optionalChained
                     then raise (start p6)
                            (str ''Optional chaining cannot appear in the tag of tagged template expressions'') p6
                     else Err (Unmodelled ''parseTemplate'') p6)
                  else Ok base p6) p4) p2) p1) p)"

text \<open>
  The loop of \<open>parseSubscripts\<close>. \<open>element === base\<close> compares two objects; a node
  that \<open>parseSubscript\<close> builds holds \<open>base\<close> or is an arrow function, so it is the
  same object exactly when it is equal to \<open>base\<close>.
\<close>

primrec parseSubscripts_loop ::
  "callees \<Rightarrow> nat \<Rightarrow> node \<Rightarrow> nat \<Rightarrow> bool \<Rightarrow> bool \<Rightarrow> bool \<Rightarrow> node M" where
  "parseSubscripts_loop R 0 base startPos noCalls maybeAsyncArrow optionalChained p = Err OutOfFuel p"
| "parseSubscripts_loop R (Suc k) base startPos noCalls maybeAsyncArrow optionalChained p =
     bind (parseSubscript R base startPos noCalls maybeAsyncArrow optionalChained) (\<lambda>element p1.
       let optionalChained1 = (optionalChained \<or> truthy (get_field ''optional'' element)) in
       if element = base \<or> ntype element = ''ArrowFunctionExpression'' then
         (if optionalChained1 then
            Ok (finishNode (set_field ''expression'' (JNode element) (startNodeAt startPos))
                  ''ChainExpression'' p1) p1
          else Ok element p1)
       else parseSubscripts_loop R k element startPos noCalls maybeAsyncArrow optionalChained1 p1) p"

definition parseSubscripts :: "callees \<Rightarrow> node \<Rightarrow> nat \<Rightarrow> bool \<Rightarrow> node M" where
  "parseSubscripts R base startPos noCalls p =
     (let maybeAsyncArrow =
            (ecmaVersion (options p) \<ge> 8 \<and> ntype base = ''Identifier'' \<and> node_name base = str ''async'' \<and>
             lastTokEnd p = nend base \<and> \<not> canInsertSemicolon p \<and> nend base - nstart base = 5 \<and>
             nstart base \<le> nend base \<and> potentialArrowAt p = int (nstart base))
      in parseSubscripts_loop R (r_fuel R) base startPos noCalls maybeAsyncArrow False p)"

definition parseExprSubscripts :: "callees \<Rightarrow> nat option \<Rightarrow> node M" where
  "parseExprSubscripts R refDestructuringErrors p =
     (let startPos = start p in
      bind (parseExprAtom R refDestructuringErrors) (\<lambda>expr p1.
        if ntype expr = ''ArrowFunctionExpression'' \<and>
           slice (input p1) (lastTokStart p1) (lastTokEnd p1) \<noteq> str '')''
        then Ok expr p1
        else
          bind (parseSubscripts R expr startPos False) (\<lambda>result p2.
            Ok result
              (case refDestructuringErrors of
                 Some r \<Rightarrow>
                   if ntype result = ''MemberExpression'' then
                     update_ref r (\<lambda>d.
                       d\<lparr>parenthesizedAssign :=
                            (if parenthesizedAssign d \<ge> int (nstart result) then - 1 else parenthesizedAssign d),
                          parenthesizedBind :=
                            (if parenthesizedBind d \<ge> int (nstart result) then - 1 else parenthesizedBind d),
                          trailingComma :=
                            (if trailingComma d \<ge> int (nstart result) then - 1 else trailingComma d)\<rparr>) p2
                   else p2
               | None \<Rightarrow> p2)) p1) p)"

definition parseAwait :: "callees \<Rightarrow> node M" where
  "parseAwait R p =
     (let p1 = (if awaitPos p = 0 then p\<lparr>awaitPos := start p\<rparr> else p); n0 = startNode p1 in
      seq (next' False)
        (bind (r_parseMaybeUnary R None True) (\<lambda>arg p2.
           Ok (finishNode (set_field ''argument'' (JNode arg) n0) ''AwaitExpression'' p2) p2)) p1)"

text \<open>The loop of \<open>parseMaybeUnary\<close> over postfix operators.\<close>

primrec parseMaybeUnary_postfix :: "callees \<Rightarrow> nat \<Rightarrow> nat \<Rightarrow> node \<Rightarrow> node M" where
  "parseMaybeUnary_postfix R 0 startPos expr p = Err OutOfFuel p"
| "parseMaybeUnary_postfix R (Suc k) startPos expr p =
     (if postfix (type p) \<and> \<not> canInsertSemicolon p then
        (let n0 = set_field ''argument'' (JNode expr)
                    (set_field ''prefix'' (JBool False)
                       (set_field ''operator'' (value' p) (startNodeAt startPos)))
         in bind (checkLValSimple R expr BIND_NONE None) (\<lambda>_.
              seq (next' False) (\<lambda>p1.
                parseMaybeUnary_postfix R k startPos (finishNode n0 ''UpdateExpression'' p1) p1)) p)
      else Ok expr p)"

definition parseMaybeUnary :: "callees \<Rightarrow> nat option \<Rightarrow> bool \<Rightarrow> node M" where
  "parseMaybeUnary R refDestructuringErrors sawUnary p =
     (let startPos = start p in
      bind (\<lambda>p0.
        bind (\<lambda>p1. if isContextual ''await'' p1 then
                      bind inAsync (\<lambda>a p2.
                        if a then Ok True p2
                        else bind inFunction (\<lambda>f p3.
                               Ok (\<not> f \<and> allowAwaitOutsideFunction (options p3)) p3) p2) p1
                    else Ok False p1) (\<lambda>await p4.
          if await then bind (parseAwait R) (\<lambda>expr. ret (expr, True, False)) p4
          else if prefix (type p4) then
            (let update = (type p4 = tt_incDec);
                 n0 = set_field ''prefix'' (JBool True) (set_field ''operator'' (value' p4) (startNode p4))
             in seq (next' False)
                  (bind (r_parseMaybeUnary R None True) (\<lambda>arg.
                     let n1 = set_field ''argument'' (JNode arg) n0 in
                     bind (checkExpressionErrors refDestructuringErrors True) (\<lambda>_.
                       bind (\<lambda>p5.
                               if update then
                                 bind (checkLValSimple R arg BIND_NONE None) (\<lambda>_. ret sawUnary) p5
                               else if strict p5 \<and> get_field ''operator'' n1 = JStr (str ''delete'') \<and>
                                       ntype arg = ''Identifier''
                               then raiseRecoverable (nstart n1)
                                      (str ''Deleting local variable in strict mode'') p5
                               else Ok True p5) (\<lambda>sawUnary1 p6.
                         Ok (finishNode n1 (if update then ''UpdateExpression'' else ''UnaryExpression'') p6,
                             sawUnary1, False) p6)))) p4)
          else
            bind (parseExprSubscripts R refDestructuringErrors) (\<lambda>expr.
              bind (checkExpressionErrors refDestructuringErrors False) (\<lambda>err p7.
                if err then Ok (expr, sawUnary, True) p7
                else bind (parseMaybeUnary_postfix R (r_fuel R) startPos expr)
                       (\<lambda>expr1. ret (expr1, sawUnary, False)) p7)) p4) p0)
        (\<lambda>(expr, sawUnary1, returned0) p8.
           if returned0 then Ok expr p8
           else
             bind (if \<not> sawUnary1 then eat tt_starstar else ret False) (\<lambda>power p9.
               if power then
                 bind (r_parseMaybeUnary R None False) (\<lambda>right0 p10.
                   Ok (buildBinary startPos expr right0 (JStr (str ''**'')) False p10) p10) p9
               else Ok expr p9) p8) p)"

definition parseExprOp :: "callees \<Rightarrow> node \<Rightarrow> nat \<Rightarrow> int \<Rightarrow> bool \<Rightarrow> node M" where
  "parseExprOp R left0 leftStartPos minPrec noIn p =
     (case binop (type p) of
        Some prec0 \<Rightarrow>
          if (\<not> noIn \<or> type p \<noteq> tt__in) \<and> int prec0 > minPrec then
            (let logical = (type p = tt_logicalOR \<or> type p = tt_logicalAND);
                 coalesce = (type p = tt_coalesce);
                 prec = (if coalesce then the (binop tt_logicalAND) else prec0);
                 op = value' p
             in seq (next' False) (\<lambda>p1.
                  let startPos = start p1 in
                  bind (r_parseMaybeUnary R None False) (\<lambda>operand.
                    bind (r_parseExprOp R operand startPos (int prec) noIn) (\<lambda>right0 p2.
                      let n = buildBinary leftStartPos left0 right0 op (logical \<or> coalesce) p2 in
                      if (logical \<and> type p2 = tt_coalesce) \<or>
                         (coalesce \<and> (type p2 = tt_logicalOR \<or> type p2 = tt_logicalAND))
                      then raiseRecoverable (start p2)
                             (str ''Logical expressions and coalesce expressions cannot be mixed. Wrap either by parentheses'') p2
                      else r_parseExprOp R n leftStartPos minPrec noIn p2)) p1) p)
          else Ok left0 p
      | None \<Rightarrow> Ok left0 p)"

definition parseExprOps :: "callees \<Rightarrow> bool \<Rightarrow> nat option \<Rightarrow> node M" where
  "parseExprOps R noIn refDestructuringErrors p =
     (let startPos = start p in
      bind (parseMaybeUnary R refDestructuringErrors False) (\<lambda>expr.
        bind (checkExpressionErrors refDestructuringErrors False) (\<lambda>err p1.
          if err then Ok expr p1
          else if nstart expr = startPos \<and> ntype expr = ''ArrowFunctionExpression'' then Ok expr p1
          else parseExprOp R expr startPos (- 1) noIn p1)) p)"

definition parseMaybeConditional :: "callees \<Rightarrow> bool \<Rightarrow> nat option \<Rightarrow> node M" where
  "parseMaybeConditional R noIn refDestructuringErrors p =
     (let startPos = start p in
      bind (parseExprOps R noIn refDestructuringErrors) (\<lambda>expr.
        bind (checkExpressionErrors refDestructuringErrors False) (\<lambda>err p1.
          if err then Ok expr p1
          else
            bind (eat tt_question) (\<lambda>q p2.
              if q then
                (let n0 = set_field ''test'' (JNode expr) (startNodeAt startPos) in
                 bind (r_parseMaybeAssign R False None False) (\<lambda>consequent.
                   seq (expect tt_colon)
                     (bind (r_parseMaybeAssign R noIn None False) (\<lambda>alternate p3.
                        Ok (finishNode (set_field ''alternate'' (JNode alternate)
                                          (set_field ''consequent'' (JNode consequent) n0))
                              ''ConditionalExpression'' p3) p3))) p2)
              else Ok expr p2) p1)) p)"

definition parseYield :: "callees \<Rightarrow> bool \<Rightarrow> node M" where
  "parseYield R noIn p =
     (let p1 = (if yieldPos p = 0 then p\<lparr>yieldPos := start p\<rparr> else p); n0 = startNode p1 in
      seq (next' False) (\<lambda>p2.
        if type p2 = tt_semi \<or> canInsertSemicolon p2 \<or> (type p2 \<noteq> tt_star \<and> \<not> startsExpr (type p2))
        then Ok (finishNode (set_field ''argument'' JNull (set_field ''delegate'' (JBool False) n0))
                   ''YieldExpression'' p2) p2
        else
          bind (eat tt_star) (\<lambda>delegate.
            bind (r_parseMaybeAssign R noIn None False) (\<lambda>arg p3.
              Ok (finishNode (set_field ''argument'' (JNode arg)
                                (set_field ''delegate'' (JBool delegate) n0))
                    ''YieldExpression'' p3) p3)) p2) p1)"

definition parseMaybeAssign :: "callees \<Rightarrow> bool \<Rightarrow> nat option \<Rightarrow> bool \<Rightarrow> node M" where
  "parseMaybeAssign R noIn refDestructuringErrors afterLeftParse p =
     bind (\<lambda>p0. if isContextual ''yield'' p0
                then bind inGenerator (\<lambda>g p00. Ok g (if g then p00 else p00\<lparr>exprAllowed := False\<rparr>)) p0
                else Ok False p0) (\<lambda>yield p1.
       if yield then parseYield R noIn p1
       else
         bind (\<lambda>p2.
           case refDestructuringErrors of
             Some r \<Rightarrow>
               Ok (r, False, parenthesizedAssign (deref r p2), trailingComma (deref r p2))
                  (update_ref r (\<lambda>d. d\<lparr>parenthesizedAssign := - 1, trailingComma := - 1\<rparr>) p2)
           | None \<Rightarrow> bind new_ref (\<lambda>r. ret (r, True, - 1, - 1)) p2)
           (\<lambda>(r, ownDestructuringErrors, oldParenAssign, oldTrailingComma) p3.
              let startPos = start p3;
                  p4 = (if type p3 = tt_parenL \<or> type p3 = tt_name
                        then p3\<lparr>potentialArrowAt := int (start p3)\<rparr> else p3)
              in
              bind (parseMaybeConditional R noIn (Some r)) (\<lambda>left0 p5.
                if isAssign (type p5) then
                  (let n0 = set_field ''operator'' (value' p5) (startNodeAt startPos) in
                   bind (if type p5 = tt_eq
                         then bind (toAssignable R (JNode left0) False (Some r)) as_node
                         else ret left0) (\<lambda>left1 p6.
                     let p7 = (if \<not> ownDestructuringErrors
                               then update_ref r (\<lambda>d. d\<lparr>parenthesizedAssign := - 1, trailingComma := - 1,
                                                          doubleProto := - 1\<rparr>) p6
                               else p6);
                         p8 = (if shorthandAssign (deref r p7) \<ge> int (nstart left1)
                               then update_ref r (\<lambda>d. d\<lparr>shorthandAssign := - 1\<rparr>) p7 else p7)
                     in
                     bind (if type p8 = tt_eq then checkLValPattern R left1 BIND_NONE None
                           else checkLValSimple R left1 BIND_NONE None) (\<lambda>_.
                       seq (next' False)
                         (bind (r_parseMaybeAssign R noIn None False) (\<lambda>right0 p9.
                            Ok (finishNode (set_field ''right'' (JNode right0)
                                              (set_field ''left'' (JNode left1) n0))
                                  ''AssignmentExpression'' p9) p9))) p8) p5)
                else
                  bind (if ownDestructuringErrors then checkExpressionErrors (Some r) True else ret False)
                    (\<lambda>_ p10.
                       let p11 = (if oldParenAssign > - 1
                                  then update_ref r (\<lambda>d. d\<lparr>parenthesizedAssign := oldParenAssign\<rparr>) p10
                                  else p10);
                           p12 = (if oldTrailingComma > - 1
                                  then update_ref r (\<lambda>d. d\<lparr>trailingComma := oldTrailingComma\<rparr>) p11
                                  else p11)
                       in Ok left0 p12) p5) p4) p1) p"


subsection \<open>Statements\<close>

text \<open>
  \<open>isLet\<close> and \<open>isAsyncFunction\<close> look ahead in the input. The word after \<open>let\<close>
  is read with \<open>isIdentifierStart\<close> and \<open>isIdentifierChar\<close>; where these are not
  decided here the call stops with \<open>Unmodelled\<close>. \<open>isAsyncFunction\<close> hands
  \<open>isIdentifierChar\<close> a one-character string instead of a code, on which every
  comparison of that function fails, so that its last conjunct always holds.
\<close>

primrec identifierChars_run :: "jsstring \<Rightarrow> nat option" where
  "identifierChars_run [] = Some 0"
| "identifierChars_run (c # cs) =
     (case isIdentifierChar (int c) True of
        None \<Rightarrow> None
      | Some b \<Rightarrow> if b then map_option Suc (identifierChars_run cs) else Some 0)"

definition isLet :: "string option \<Rightarrow> bool M" where
  "isLet context0 p =
     (if ecmaVersion (options p) < 6 \<or> \<not> isContextual ''let'' p then Ok False p
      else
        (let next = skipWhiteSpace_end (input p) (pos p); nextCh = charCodeAt (input p) next in
         if nextCh = Some 91 then Ok True p
         else if context0 \<noteq> None \<and> context0 \<noteq> Some [] then Ok False p
         else if nextCh = Some 123 then Ok True p
         else
           bind (known ''identifier.js'' (isIdentifierStart_code nextCh True)) (\<lambda>s p1.
             if s then
               bind (known ''identifier.js'' (identifierChars_run (drop (next + 1) (input p1)))) (\<lambda>k p2.
                 Ok (\<not> keywordRelationalOperator_test (slice (input p2) next (next + 1 + k))) p2) p1
             else Ok False p1) p))"

definition isAsyncFunction :: "parser \<Rightarrow> bool" where
  "isAsyncFunction p =
     (if ecmaVersion (options p) < 8 \<or> \<not> isContextual ''async'' p then False
      else
        (let next = skipWhiteSpace_end (input p) (pos p) in
         \<not> lineBreak_test (slice (input p) (pos p) next) \<and>
         slice (input p) next (next + 8) = str ''function''))"

definition parseExpressionStatement :: "node \<Rightarrow> node \<Rightarrow> node M" where
  "parseExpressionStatement n expr p =
     seq semicolon
       (\<lambda>p1. Ok (finishNode (set_field ''expression'' (JNode expr) n) ''ExpressionStatement'' p1) p1) p"

definition parseDebuggerStatement :: "node \<Rightarrow> node M" where
  "parseDebuggerStatement n p =
     seq (next' False) (seq semicolon (\<lambda>p1. Ok (finishNode n ''DebuggerStatement'' p1) p1)) p"

definition parseEmptyStatement :: "node \<Rightarrow> node M" where
  "parseEmptyStatement n p =
     seq (next' False) (\<lambda>p1. Ok (finishNode n ''EmptyStatement'' p1) p1) p"

definition parseFunctionStatement :: "callees \<Rightarrow> node \<Rightarrow> bool \<Rightarrow> bool \<Rightarrow> node M" where
  "parseFunctionStatement R n isAsync declarationPosition p =
     seq (next' False)
       (parseFunction R n
          (FUNC_STATEMENT OR (if declarationPosition then 0 else FUNC_HANGING_STATEMENT)) False isAsync) p"

definition parseIfStatement :: "callees \<Rightarrow> node \<Rightarrow> node M" where
  "parseIfStatement R n p =
     seq (next' False)
       (bind (parseParenExpression R) (\<lambda>test.
          bind (r_parseStatement R (Some ''if'') False) (\<lambda>consequent.
            bind (eat tt__else) (\<lambda>e.
              bind (if e then bind (r_parseStatement R (Some ''if'') False) (\<lambda>a. ret (JNode a))
                    else ret JNull) (\<lambda>alternate p1.
                Ok (finishNode (set_field ''alternate'' alternate
                                  (set_field ''consequent'' (JNode consequent)
                                     (set_field ''test'' (JNode test) n)))
                      ''IfStatement'' p1) p1))))) p"

definition parseReturnStatement :: "callees \<Rightarrow> node \<Rightarrow> node M" where
  "parseReturnStatement R n p =
     bind inFunction (\<lambda>f p1.
       if \<not> f \<and> \<not> allowReturnOutsideFunction (options p1)
       then raise (start p1) (str ''return'' @ [39] @ str '' outside of function'') p1
       else
         seq (next' False)
           (bind (eat tt_semi) (\<lambda>semi p2.
              if semi \<or> insertSemicolon p2
              then Ok (finishNode (set_field ''argument'' JNull n) ''ReturnStatement'' p2) p2
              else
                bind (parseExpression R False None) (\<lambda>arg.
                  seq semicolon (\<lambda>p3.
                    Ok (finishNode (set_field ''argument'' (JNode arg) n) ''ReturnStatement'' p3) p3)) p2))
           p1) p"

definition parseVarId :: "callees \<Rightarrow> node \<Rightarrow> jsstring \<Rightarrow> node M" where
  "parseVarId R decl kind p =
     bind (parseBindingAtom R) (\<lambda>ident.
       bind (checkLValPattern R ident (if kind = str ''var'' then BIND_VAR else BIND_LEXICAL) None) (\<lambda>_.
         ret (set_field ''id'' (JNode ident) decl))) p"

primrec parseVar_loop :: "callees \<Rightarrow> nat \<Rightarrow> bool \<Rightarrow> jsstring \<Rightarrow> jsval list \<Rightarrow> (jsval list) M" where
  "parseVar_loop R 0 isFor kind declarations p = Err OutOfFuel p"
| "parseVar_loop R (Suc k) isFor kind declarations p =
     bind (parseVarId R (startNode p) kind) (\<lambda>decl.
       bind (eat tt_eq) (\<lambda>e p1.
         bind (\<lambda>p2.
           if e then bind (r_parseMaybeAssign R isFor None False) (\<lambda>init0.
                       ret (set_field ''init'' (JNode init0) decl)) p2
           else if kind = str ''const'' \<and>
                   \<not> (type p2 = tt__in \<or> (ecmaVersion (options p2) \<ge> 6 \<and> isContextual ''of'' p2))
           then unexpected (start p2) p2
           else
             bind (field_node ''id'' decl) (\<lambda>ident p3.
               if ntype ident \<noteq> ''Identifier'' \<and>
                  \<not> (isFor \<and> (type p3 = tt__in \<or> isContextual ''of'' p3))
               then raise (lastTokEnd p3)
                      (str ''Complex binding patterns require an initialization value'') p3
               else Ok (set_field ''init'' JNull decl) p3) p2) (\<lambda>decl1 p4.
           let declarations1 = declarations @ [JNode (finishNode decl1 ''VariableDeclarator'' p4)] in
           bind (eat tt_comma) (\<lambda>c p5.
             if \<not> c then Ok declarations1 p5
             else parseVar_loop R k isFor kind declarations1 p5) p4) p1)) p"

definition parseVar :: "callees \<Rightarrow> node \<Rightarrow> bool \<Rightarrow> jsstring \<Rightarrow> node M" where
  "parseVar R n isFor kind p =
     (let n1 = set_field ''kind'' (JStr kind) (set_field ''declarations'' (JArr []) n) in
      bind (parseVar_loop R (r_fuel R) isFor kind [])
        (\<lambda>declarations. ret (set_field ''declarations'' (JArr declarations) n1)) p)"

definition parseVarStatement :: "callees \<Rightarrow> node \<Rightarrow> jsstring \<Rightarrow> node M" where
  "parseVarStatement R n kind p =
     seq (next' False)
       (bind (parseVar R n False kind) (\<lambda>n1.
          seq semicolon (\<lambda>p1. Ok (finishNode n1 ''VariableDeclaration'' p1) p1))) p"

definition loopLabel :: Label where
  "loopLabel = \<lparr>label_kind = Some ''loop'', label_name = None, statementStart = None\<rparr>"

definition parseWhileStatement :: "callees \<Rightarrow> node \<Rightarrow> node M" where
  "parseWhileStatement R n p =
     seq (next' False)
       (bind (parseParenExpression R) (\<lambda>test p1.
          bind (r_parseStatement R (Some ''while'') False) (\<lambda>body p2.
            let p3 = p2\<lparr>labels := butlast (labels p2)\<rparr> in
            Ok (finishNode (set_field ''body'' (JNode body) (set_field ''test'' (JNode test) n))
                  ''WhileStatement'' p3) p3)
            (p1\<lparr>labels := labels p1 @ [loopLabel]\<rparr>))) p"

text \<open>
  The statements whose functions are not embedded stop with \<open>Unmodelled\<close>:
  \<open>break\<close>, \<open>continue\<close>, \<open>do\<close>, \<open>for\<close>, \<open>switch\<close>, \<open>throw\<close>, \<open>try\<close>,
  \<open>with\<close>, classes, \<open>import\<close>, \<open>export\<close> and labelled statements. The
  \<open>exports\<close> object is used by \<open>parseExport\<close> alone and is left out.
\<close>

definition parseStatement :: "callees \<Rightarrow> string option \<Rightarrow> bool \<Rightarrow> node M" where
  "parseStatement R context0 topLevel p =
     (let n = startNode p; inContext = (context0 \<noteq> None \<and> context0 \<noteq> Some []) in
      bind (isLet context0) (\<lambda>l p1.
        let starttype = (if l then tt__var else type p1);
            kind = (if l then JStr (str ''let'') else JUndefined)
        in
        if starttype = tt__break \<or> starttype = tt__continue
        then Err (Unmodelled ''parseBreakContinueStatement'') p1
        else if starttype = tt__debugger then parseDebuggerStatement n p1
        else if starttype = tt__do then Err (Unmodelled ''parseDoStatement'') p1
        else if starttype = tt__for then Err (Unmodelled ''parseForStatement'') p1
        else if starttype = tt__function then
          (if inContext \<and> (strict p1 \<or> (context0 \<noteq> Some ''if'' \<and> context0 \<noteq> Some ''label'')) \<and>
              ecmaVersion (options p1) \<ge> 6
           then unexpected (start p1) p1
           else parseFunctionStatement R n False (\<not> inContext) p1)
        else if starttype = tt__class then
          (if inContext then unexpected (start p1) p1 else Err (Unmodelled ''parseClass'') p1)
        else if starttype = tt__if then parseIfStatement R n p1
        else if starttype = tt__return then parseReturnStatement R n p1
        else if starttype = tt__switch then Err (Unmodelled ''parseSwitchStatement'') p1
        else if starttype = tt__throw then Err (Unmodelled ''parseThrowStatement'') p1
        else if starttype = tt__try then Err (Unmodelled ''parseTryStatement'') p1
        else if starttype = tt__const \<or> starttype = tt__var then
          (let kind1 = (if truthy kind then kind else value' p1) in
           if inContext \<and> kind1 \<noteq> JStr (str ''var'') then unexpected (start p1) p1
           else (case kind1 of
                   JStr k \<Rightarrow> parseVarStatement R n k p1
                 | _ \<Rightarrow> Err TypeError p1))
        else if starttype = tt__while then parseWhileStatement R n p1
        else if starttype = tt__with then Err (Unmodelled ''parseWithStatement'') p1
        else if starttype = tt_braceL then parseBlock R True (Some n) False p1
        else if starttype = tt_semi then parseEmptyStatement n p1
        else if starttype = tt__export \<or> starttype = tt__import then
          (let next = skipWhiteSpace_end (input p1) (pos p1); nextCh = charCodeAt (input p1) next in
           if ecmaVersion (options p1) > 10 \<and> starttype = tt__import \<and> (nextCh = Some 40 \<or> nextCh = Some 46)
           then bind (parseExpression R False None) (parseExpressionStatement n) p1
           else if \<not> allowImportExportEverywhere (options p1) \<and> \<not> topLevel
           then raise (start p1)
                  ([39] @ str ''import'' @ [39] @ str '' and '' @ [39] @ str ''export'' @ [39] @
                   str '' may only appear at the top level'') p1
           else if \<not> allowImportExportEverywhere (options p1) \<and> \<not> inModule p1
           then raise (start p1)
                  ([39] @ str ''import'' @ [39] @ str '' and '' @ [39] @ str ''export'' @ [39] @
                   str '' may appear only with '' @ [39] @ str ''sourceType: module'' @ [39]) p1
           else if starttype = tt__import then Err (Unmodelled ''parseImport'') p1
           else Err (Unmodelled ''parseExport'') p1)
        else if isAsyncFunction p1 then
          (if inContext then unexpected (start p1) p1
           else seq (next' False) (parseFunctionStatement R n True (\<not> inContext)) p1)
        else
          bind (parseExpression R False None) (\<lambda>expr.
            bind (\<lambda>p2. if starttype = tt_name \<and> ntype expr = ''Identifier'' then eat tt_colon p2
                        else Ok False p2) (\<lambda>colon p3.
              if colon then Err (Unmodelled ''parseLabeledStatement'') p3
              else parseExpressionStatement n expr p3)) p1) p)"

primrec parseTopLevel_loop :: "callees \<Rightarrow> nat \<Rightarrow> jsval list \<Rightarrow> (jsval list) M" where
  "parseTopLevel_loop R 0 body p = Err OutOfFuel p"
| "parseTopLevel_loop R (Suc k) body p =
     (if type p \<noteq> tt_eof
      then bind (r_parseStatement R None True) (\<lambda>stmt. parseTopLevel_loop R k (body @ [JNode stmt])) p
      else Ok body p)"

text \<open>
  In a module, \<open>parseTopLevel\<close> reports the first of the \<open>undefinedExports\<close>; they are
  filled by \<open>parseExport\<close>, which is not embedded.
\<close>

definition parseTopLevel :: "callees \<Rightarrow> node \<Rightarrow> node M" where
  "parseTopLevel R n p =
     (case (if truthy (get_field ''body'' n) then get_field ''body'' n else JArr []) of
        JArr body0 \<Rightarrow>
          bind (parseTopLevel_loop R (r_fuel R) body0) (\<lambda>body p1.
            seq (\<lambda>p2. case (if inModule p2 then undefinedExports p2 else []) of
                         [] \<Rightarrow> Ok () p2
                       | (name', ident) # _ \<Rightarrow>
                           raiseRecoverable (nstart ident)
                             (str ''Export '' @ [39] @ name' @ [39] @ str '' is not defined'') p2)
              (bind (adaptDirectivePrologue body) (\<lambda>body1.
                 seq (next' False) (\<lambda>p3.
                   Ok (finishNode
                         (set_field ''sourceType'' (JStr (str (sourceType (options p3))))
                            (set_field ''body'' (JArr body1) n))
                         ''Program'' p3) p3))) p1) p
      | _ \<Rightarrow> Err TypeError p)"

subsection \<open>Tying the knot\<close>

primrec parser_fuel :: "nat \<Rightarrow> callees" where
  "parser_fuel 0 =
     \<lparr>r_fuel = 0,
      r_parseMaybeAssign = (\<lambda>noIn refDestructuringErrors afterLeftParse. throw OutOfFuel),
      r_parseMaybeUnary = (\<lambda>refDestructuringErrors sawUnary. throw OutOfFuel),
      r_parseExprOp = (\<lambda>left0 leftStartPos minPrec noIn. throw OutOfFuel),
      r_parseStatement = (\<lambda>context0 topLevel. throw OutOfFuel),
      r_parseBindingAtom = throw OutOfFuel,
      r_toAssignable = (\<lambda>v isBinding refDestructuringErrors. throw OutOfFuel),
      r_checkLValSimple = (\<lambda>expr bindingType checkClashes. throw OutOfFuel),
      r_checkLValPattern = (\<lambda>expr bindingType checkClashes. throw OutOfFuel),
      r_checkLValInnerPattern = (\<lambda>expr bindingType checkClashes. throw OutOfFuel),
      r_isSimpleAssignTarget = (\<lambda>expr. throw OutOfFuel)\<rparr>"
| "parser_fuel (Suc n) =
     \<lparr>r_fuel = Suc n,
      r_parseMaybeAssign = parseMaybeAssign (parser_fuel n),
      r_parseMaybeUnary = parseMaybeUnary (parser_fuel n),
      r_parseExprOp = parseExprOp (parser_fuel n),
      r_parseStatement = parseStatement (parser_fuel n),
      r_parseBindingAtom = parseBindingAtom (parser_fuel n),
      r_toAssignable = toAssignable (parser_fuel n),
      r_checkLValSimple = checkLValSimple (parser_fuel n),
      r_checkLValPattern = checkLValPattern (parser_fuel n),
      r_checkLValInnerPattern = checkLValInnerPattern (parser_fuel n),
      r_isSimpleAssignTarget = isSimpleAssignTarget (parser_fuel n)\<rparr>"

declare parser_fuel.simps [simp del]

subsection \<open>Entry points\<close>

text \<open>
  \<open>parse\<close>, \<open>Parser.parse\<close> and \<open>Parser.parseExpressionAt\<close>. The depth allowed to
  the recursion is taken from the length of the input; a run that uses it up ends in
  \<open>OutOfFuel\<close>, which is not a result of the source.
\<close>

definition recursion_depth :: "parser \<Rightarrow> nat" where
  "recursion_depth p = Suc (Suc (Suc (length (input p))))"

definition parse :: "node M" where
  "parse p =
     (let n = startNode p in
      seq nextToken (parseTopLevel (parser_fuel (recursion_depth p)) n) p)"

definition Parser_parse :: "jsstring \<Rightarrow> Options \<Rightarrow> (node, parser) result" where
  "Parser_parse inp opts = parse (new_Parser opts inp 0)"

definition Parser_parseExpressionAt :: "jsstring \<Rightarrow> nat \<Rightarrow> Options \<Rightarrow> (node, parser) result" where
  "Parser_parseExpressionAt inp at opts =
     (let p = new_Parser opts inp at in
      seq nextToken (parseExpression (parser_fuel (recursion_depth p)) False None) p)"


section \<open>Example states\<close>

text \<open>
  A parser on the empty program whose top scope already holds \<open>x\<close> as a lexical name:
  declaring \<open>x\<close> again, as a lexical binding or as a function, throws and leaves the
  name twice in the list.
\<close>

definition scope_with_x :: Scope where
  "scope_with_x = (new_Scope SCOPE_TOP)\<lparr>lexical := [str ''x'']\<rparr>"

definition parser_with_x :: parser where
  "parser_with_x = set_currentScope scope_with_x (new_Parser (defaultOptions 11) [] 0)"


text \<open>A tokenizer whose cursor is at the end of its input \<open>a\<close>.\<close>

definition parser_at_end :: parser where
  "parser_at_end = new_Parser (defaultOptions 11) (str ''a'') 1"



text \<open>
  The tokenizer on \<open>return\<close>, a line feed and \<open>1\<close>, after \<open>nextToken\<close> and
  \<open>next\<close>: \<open>1\<close> is its current token and \<open>return\<close> the token before.
\<close>

definition parser_after_return :: parser where
  "parser_after_return =
     state_after (seq nextToken (next' False)
       (tokenizer (str ''return'' @ [10] @ str ''1'') (defaultOptions 11)))"

text \<open>
  The tokenizer on \<open>a\<close> after two calls of \<open>nextToken\<close>: its current token is the
  \<open>eof\<close> token and its cursor is at the end.
\<close>

definition tokenizer_at_eof :: parser where
  "tokenizer_at_eof =
     state_after (seq nextToken nextToken (tokenizer (str ''a'') (defaultOptions 11)))"

text \<open>\<open>n\<close> calls of \<open>nextToken\<close> in a row.\<close>

primrec nextToken_times :: "nat \<Rightarrow> unit M" where
  "nextToken_times 0 p = Ok () p"
| "nextToken_times (Suc n) p = seq nextToken (nextToken_times n) p"

text \<open>The tokenizer on \<open>a b\<close> after a first call of \<open>getToken\<close>: its current token is \<open>a\<close>.\<close>

definition tokenizer_after_a :: parser where
  "tokenizer_after_a = state_after (getToken (tokenizer (str ''a b'') (defaultOptions 11)))"


section \<open>Evaluation of the model\<close>

text \<open>
  The operations are evaluated by rewriting, innermost state first: the congruence rules
  below keep the simplifier out of continuations and branches until the state they are
  applied to is known.
\<close>

lemma Let_weak_cong: "a = b \<Longrightarrow> Let a f = Let b f" by simp
lemma case_prod_weak_cong: "p = q \<Longrightarrow> case_prod f p = case_prod f q" by simp
lemma bind_weak_cong: "p = q \<Longrightarrow> bind m f p = bind m f q" by simp
lemma seq_weak_cong: "p = q \<Longrightarrow> seq m f p = seq m f q" by simp
lemma orElse_weak_cong: "p = q \<Longrightarrow> orElse m f p = orElse m f q" by simp
lemma andAlso_weak_cong: "p = q \<Longrightarrow> andAlso m f p = andAlso m f q" by simp
lemma when'_weak_cong: "p = q \<Longrightarrow> when' b m p = when' b m q" by simp

lemmas weak_congs = Let_weak_cong case_prod_weak_cong bind_weak_cong seq_weak_cong orElse_weak_cong
  andAlso_weak_cong when'_weak_cong

lemmas tt_defs = tt_num_def tt_regexp_def tt_string_def tt_name_def tt_eof_def tt_bracketL_def tt_bracketR_def
  tt_braceL_def tt_braceR_def tt_parenL_def tt_parenR_def tt_comma_def tt_semi_def tt_colon_def tt_dot_def
  tt_question_def tt_questionDot_def tt_arrow_def tt_template_def tt_invalidTemplate_def tt_ellipsis_def
  tt_backQuote_def tt_dollarBraceL_def tt_eq_def tt_assign_def tt_incDec_def tt_prefix_def tt_logicalOR_def
  tt_logicalAND_def tt_bitwiseOR_def tt_bitwiseXOR_def tt_bitwiseAND_def tt_equality_def tt_relational_def
  tt_bitShift_def tt_plusMin_def tt_modulo_def tt_star_def tt_slash_def tt_starstar_def tt_coalesce_def
  tt__break_def tt__case_def tt__catch_def tt__continue_def tt__debugger_def tt__default_def tt__do_def
  tt__else_def tt__finally_def tt__for_def tt__function_def tt__if_def tt__return_def tt__switch_def
  tt__throw_def tt__try_def tt__var_def tt__const_def tt__while_def tt__with_def tt__new_def tt__this_def
  tt__super_def tt__class_def tt__extends_def tt__export_def tt__import_def tt__null_def tt__true_def
  tt__false_def tt__in_def tt__instanceof_def tt__typeof_def tt__void_def tt__delete_def
  new_TokenType_def tt_binop_def kw_def

lemmas monad_defs = bind_def seq_def ret_def throw_def modify_def get_def when'_def orElse_def andAlso_def
  raise_def raiseRecoverable_def known_def unexpected_def

lemmas regexp_defs =
  validateRegExpPattern_def regexp_pattern_def regexp_alternative_def regexp_eatTerm_def
  regexp_eatAssertion_def regexp_eatAtom_def regexp_eatExtendedAtom_def regexp_eatCapturingGroup_def
  regexp_eatUncapturingGroup_def regexp_eatInvalidBracedQuantifier_def regexp_eatQuantifier_def
  regexp_eatQuantifierPrefix_def regexp_eatBracedQuantifier_def regexp_eatExtendedPatternCharacter_def
  regexp_eatPatternCharacters_def regexp_eatReverseSolidusAtomEscape_def regexp_eatAtomEscape_def
  regexp_eatBackReference_def regexp_eatKGroupName_def regexp_groupSpecifier_def regexp_eatGroupName_def
  regexp_eatRegExpIdentifierName_def regexp_eatRegExpIdentifierPart_def
  regexp_eatRegExpIdentifierStart_def regexp_eatCharacterClass_def regexp_classRanges_def
  regexp_eatClassAtom_def regexp_eatClassEscape_def regexp_eatCharacterClassEscape_def
  regexp_eatDecimalEscape_def regexp_eatCharacterEscape_def regexp_eatDecimalDigits_def
  regexp_eatControlEscape_def regexp_eatCControlLetter_def regexp_eatZero_def
  regexp_eatHexEscapeSequence_def regexp_eatRegExpUnicodeEscapeSequence_def
  regexp_eatLegacyOctalEscapeSequence_def regexp_eatIdentityEscape_def regexp_eatSyntaxCharacter_def
  regexp_eatOctalDigit_def regexp_eatFixedHexDigits_def regexp_eatControlLetter_def
  regexp_eatClassControlLetter_def
  state_eat_def state_current_def state_lookahead_def state_at_def state_advance_def
  state_nextIndex_def state_raise_def state_known_def state_reset_def new_RegExpValidationState_def
  isDecimalDigit_def isSyntaxCharacter_def isHexDigit_def isOctalDigit_def isControlLetter_def
  isCharacterClassEscape_def isRegExpIdentifierStart_def isRegExpIdentifierPart_def
  decimalDigits_loop.simps patternCharacters_loop.simps hexDigits_loop.simps

lemmas tok_defs = getToken_def next'_def nextToken_def readToken_def getTokenFromCode_def
  readToken_dot_def readToken_slash_def readToken_mult_modulo_exp_def readToken_pipe_amp_def
  readToken_caret_def readToken_plus_min_def readToken_lt_gt_def readToken_eq_excl_def
  readToken_question_def readWord_def readWord1_def readNumber_def readRadixNumber_def readInt_def
  readRegexp_def validateRegExpFlags_def
  finishToken_def finishOp_def updateContext_def type_updateContext_def update_name_def
  update_parenL_def update_parenR_braceR_def update_braceL_def update_star_def
  update_function_class_def update_backQuote_def update_dollarBraceL_def braceIsBlock_def
  inGeneratorContext_def curContext_def skipSpace_def skipSpace_loop.simps skipLineComment_def
  lineComment_end_def indexOf_def fullCharCodeAtPos_def charCodeAt_def slice_def
  isIdentifierStart_code_def isIdentifierChar_code_def isIdentifierStart_def isIdentifierChar_def
  keywords_test_def keywords_for_def ecma5AndLessKeywords_def words_test_def keywordTypes_def
  keywordTypes_list_def new_Token_def tokenizer_def new_Parser_def defaultOptions_def
  strictDirective_def strictDirective_loop.simps use_strict_follow_def skipWhiteSpace_end.simps
  literal_exec_def initialContext_def enterScope_def exitScope_def new_Scope_def is_space_def
  preserveSpace_def has_override_def token_def isExpr_def generator_def nonASCIIwhitespace_test_def
  lineBreak_test_def isNewLine_def digit_val_def SCOPE_TOP_def eat_def expect_def semicolon_def
  insertSemicolon_def canInsertSemicolon_def isContextual_def eatContextual_def
  expectContextual_def afterTrailingComma_def invalidStringToken_def readCodePoint_def
  readHexChar_def codePointToString_def unexpected_character_def

section \<open>Redeclarations\<close>

lemma currentScope_set_currentScope:
  "scopeStack p \<noteq> [] \<Longrightarrow> currentScope (set_currentScope s p) = Some s"
  by (simp add: currentScope_def set_currentScope_def last_conv_nth)

lemma declareName_lexical_redeclared:
  assumes cur: "currentScope p = Some scope"
    and dup: "name \<in> set (lexical scope) \<or> name \<in> set (functions' scope) \<or> name \<in> set (var scope)"
  shows "thrown (declareName name BIND_LEXICAL at p) =
           Some (SyntaxError at (already_declared name) (pos p)) \<and>
         currentScope (state_after (declareName name BIND_LEXICAL at p)) =
           Some (scope\<lparr>lexical := lexical scope @ [name]\<rparr>)"
proof -
  have ne: "scopeStack p \<noteq> []"
    using cur by (auto simp: currentScope_def split: if_splits)
  have pos_set: "\<And>s. pos (set_currentScope s p) = pos p"
    by (simp add: set_currentScope_def)
  have cur_set: "\<And>s. currentScope (set_currentScope s p) = Some s"
    using ne by (rule currentScope_set_currentScope)
  have cur_ue: "\<And>q f. currentScope (q\<lparr>undefinedExports := f\<rparr>) = currentScope q"
    by (simp add: currentScope_def)
  show ?thesis
    using cur dup
    by (auto simp: declareName_def raiseRecoverable_def raise_def Let_def pos_set cur_set cur_ue
        thrown_def state_after_def)
qed

lemma declareName_function_redeclared:
  assumes cur: "currentScope p = Some scope"
    and dup: "if treatFunctionsAsVarInScope p scope then name \<in> set (lexical scope)
              else name \<in> set (lexical scope) \<or> name \<in> set (var scope)"
  shows "thrown (declareName name BIND_FUNCTION at p) =
           Some (SyntaxError at (already_declared name) (pos p)) \<and>
         currentScope (state_after (declareName name BIND_FUNCTION at p)) =
           Some (scope\<lparr>functions' := functions' scope @ [name]\<rparr>)"
proof -
  have ne: "scopeStack p \<noteq> []"
    using cur by (auto simp: currentScope_def split: if_splits)
  have pos_set: "\<And>s. pos (set_currentScope s p) = pos p"
    by (simp add: set_currentScope_def)
  have cur_set: "\<And>s. currentScope (set_currentScope s p) = Some s"
    using ne by (rule currentScope_set_currentScope)
  show ?thesis
    using cur dup
    by (auto simp: declareName_def raiseRecoverable_def raise_def Let_def pos_set cur_set
        thrown_def state_after_def split: if_splits)
qed

text \<open>
  C10. \<open>declareName\<close> changes the scope before it reports a redeclaration. When the
  name of a lexical binding is already in one of the three lists of the current scope,
  the call throws ``Identifier '\<open>name\<close>' has already been declared'' at the position
  given, and the object it leaves has the name appended to the \<open>lexical\<close> list of the
  current scope. When a function binding is a duplicate (of the \<open>lexical\<close> list, or
  also of the \<open>var\<close> list where functions are not treated as \<open>var\<close>), the exception
  is the same and the name has been appended to the \<open>functions\<close> list.
\<close>

theorem declareName_mutates_before_raise:
  assumes "currentScope p = Some scope"
  shows
    "((name \<in> set (lexical scope) \<or> name \<in> set (functions' scope) \<or> name \<in> set (var scope)) \<longrightarrow>
        thrown (declareName name BIND_LEXICAL at p) =
          Some (SyntaxError at (already_declared name) (pos p)) \<and>
        currentScope (state_after (declareName name BIND_LEXICAL at p)) =
          Some (scope\<lparr>lexical := lexical scope @ [name]\<rparr>)) \<and>
     ((if treatFunctionsAsVarInScope p scope then name \<in> set (lexical scope)
       else name \<in> set (lexical scope) \<or> name \<in> set (var scope)) \<longrightarrow>
        thrown (declareName name BIND_FUNCTION at p) =
          Some (SyntaxError at (already_declared name) (pos p)) \<and>
        currentScope (state_after (declareName name BIND_FUNCTION at p)) =
          Some (scope\<lparr>functions' := functions' scope @ [name]\<rparr>))"
  using declareName_lexical_redeclared [OF assms] declareName_function_redeclared [OF assms]
  by blast

lemma currentScope_parser_with_x: "currentScope parser_with_x = Some scope_with_x"
  by (simp add: parser_with_x_def new_Parser_def enterScope_def Let_def currentScope_set_currentScope)

theorem declareName_mutates_before_raise_witness:
  "currentScope parser_with_x = Some scope_with_x \<and>
   str ''x'' \<in> set (lexical scope_with_x) \<and>
   thrown (declareName (str ''x'') BIND_LEXICAL 4 parser_with_x) =
     Some (SyntaxError 4 (str ''Identifier '' @ [39] @ str ''x'' @ [39] @ str '' has already been declared'') 0) \<and>
   currentScope (state_after (declareName (str ''x'') BIND_LEXICAL 4 parser_with_x)) =
     Some (scope_with_x\<lparr>lexical := [str ''x'', str ''x'']\<rparr>) \<and>
   currentScope (state_after (declareName (str ''x'') BIND_FUNCTION 4 parser_with_x)) =
     Some (scope_with_x\<lparr>functions' := [str ''x'']\<rparr>)"
proof -
  have l: "lexical scope_with_x = [str ''x'']" and f: "functions' scope_with_x = []"
    by (simp_all add: scope_with_x_def new_Scope_def)
  have p: "pos parser_with_x = 0"
    by (simp add: parser_with_x_def set_currentScope_def new_Parser_def enterScope_def Let_def
        defaultOptions_def)
  show ?thesis
    using declareName_mutates_before_raise [OF currentScope_parser_with_x, of "str ''x''" 4]
    by (simp add: l f p currentScope_parser_with_x already_declared_def)
qed


section \<open>The end of the input\<close>

lemma skipSpace_at_end: "length (input p) \<le> pos p \<Longrightarrow> skipSpace p = Ok () p"
  by (simp add: skipSpace_def skipSpace_loop.simps)

lemma tt_eof_no_update: "type_updateContext tt_eof = None"
  by (simp add: type_updateContext_def tt_defs)

lemma finishToken_eof:
  "finishToken tt_eof JUndefined p =
     Ok () (p\<lparr>end' := pos p, type := tt_eof, value' := JUndefined, exprAllowed := False\<rparr>)"
  by (simp add: finishToken_def updateContext_def tt_eof_no_update) (simp add: tt_defs)

lemma nextToken_fuel_at_end:
  "length (input p) \<le> pos p \<Longrightarrow>
   nextToken_fuel (Suc n) p =
     Ok () (p\<lparr>start := pos p, end' := pos p, type := tt_eof, value' := JUndefined, exprAllowed := False\<rparr>)"
  by (simp add: Let_def seq_def ret_def skipSpace_at_end finishToken_eof)

lemma nextToken_at_end:
  "length (input p) \<le> pos p \<Longrightarrow>
   nextToken p =
     Ok () (p\<lparr>start := pos p, end' := pos p, type := tt_eof, value' := JUndefined, exprAllowed := False\<rparr>)"
  by (simp add: nextToken_def nextToken_fuel_at_end del: nextToken_fuel.simps)

lemma nextToken_times_fixed:
  "nextToken q = Ok () q \<Longrightarrow> nextToken_times n q = Ok () q"
  by (induction n) (simp_all add: seq_def)

lemma nextToken_times_at_end:
  assumes "length (input p) \<le> pos p"
  shows "nextToken_times (Suc n) p =
     Ok () (p\<lparr>start := pos p, end' := pos p, type := tt_eof, value' := JUndefined, exprAllowed := False\<rparr>)"
proof -
  let ?p' = "p\<lparr>start := pos p, end' := pos p, type := tt_eof, value' := JUndefined, exprAllowed := False\<rparr>"
  have 1: "nextToken p = Ok () ?p'" using assms by (rule nextToken_at_end)
  have 2: "nextToken ?p' = Ok () ?p'" using assms nextToken_at_end [of ?p'] by simp
  have "nextToken_times (Suc n) p = nextToken_times n ?p'" using 1 by (simp add: seq_def)
  then show ?thesis using nextToken_times_fixed [OF 2] by simp
qed

text \<open>
  C9. With the cursor at or past the end of the input, \<open>nextToken\<close> returns and leaves
  an \<open>eof\<close> token whose start and end are the cursor, which it does not move; nothing
  else of the parser changes but the token's value and \<open>exprAllowed\<close>. The state it
  leaves is a fixed point: \<open>nextToken\<close> on it returns the same state, and so does any
  number of calls in a row.
\<close>

theorem nextToken_eof_absorbing:
  "length (input p) \<le> pos p \<longrightarrow>
     (let p' = p\<lparr>start := pos p, end' := pos p, type := tt_eof, value' := JUndefined,
                  exprAllowed := False\<rparr>
      in nextToken p = Ok () p' \<and> type p' = tt_eof \<and> start p' = pos p \<and> end' p' = pos p \<and>
         pos p' = pos p \<and> nextToken p' = Ok () p' \<and>
         (\<forall>n. nextToken_times (Suc n) p = Ok () p') \<and> (\<forall>n. nextToken_times n p' = Ok () p'))"
proof
  assume a: "length (input p) \<le> pos p"
  let ?p' = "p\<lparr>start := pos p, end' := pos p, type := tt_eof, value' := JUndefined, exprAllowed := False\<rparr>"
  have 1: "nextToken p = Ok () ?p'" using a by (rule nextToken_at_end)
  have 2: "nextToken ?p' = Ok () ?p'" using a nextToken_at_end [of ?p'] by simp
  have 3: "\<And>n. nextToken_times (Suc n) p = Ok () ?p'" using a by (rule nextToken_times_at_end)
  have 4: "nextToken_times n ?p' = Ok () ?p'" for n
  proof (cases n)
    case 0
    then show ?thesis by simp
  next
    case (Suc m)
    then show ?thesis using a nextToken_times_at_end [of ?p' m] by simp
  qed
  show "let p' = ?p' in nextToken p = Ok () p' \<and> type p' = tt_eof \<and> start p' = pos p \<and>
      end' p' = pos p \<and> pos p' = pos p \<and> nextToken p' = Ok () p' \<and>
      (\<forall>n. nextToken_times (Suc n) p = Ok () p') \<and> (\<forall>n. nextToken_times n p' = Ok () p')"
    unfolding Let_def using 1 2 3 4 by simp
qed

theorem nextToken_eof_absorbing_witness:
  "length (input parser_at_end) \<le> pos parser_at_end \<and>
   returned (nextToken parser_at_end) = Some () \<and>
   type (state_after (nextToken parser_at_end)) = tt_eof \<and>
   start (state_after (nextToken parser_at_end)) = 1 \<and>
   end' (state_after (nextToken parser_at_end)) = 1 \<and>
   pos (state_after (nextToken parser_at_end)) = 1 \<and>
   nextToken_times 3 parser_at_end = nextToken parser_at_end"
proof -
  have h: "length (input parser_at_end) \<le> pos parser_at_end" "pos parser_at_end = 1"
    by (simp_all add: parser_at_end_def new_Parser_def enterScope_def defaultOptions_def Let_def str_def)
  show ?thesis
    using nextToken_eof_absorbing [of parser_at_end] h
    by (simp add: Let_def returned_def state_after_def numeral_3_eq_3 del: nextToken_times.simps)
qed

section \<open>Semicolon insertion\<close>

lemma lineBreak_test_slice:
  "lineBreak_test (slice s a b) \<longleftrightarrow> (\<exists>i. a \<le> i \<and> i < b \<and> i < length s \<and> isNewLine (s ! i) False)"
proof
  assume "lineBreak_test (slice s a b)"
  then obtain j where j: "j < length (take (b - a) (drop a s))"
      and nl: "isNewLine (take (b - a) (drop a s) ! j) False"
    by (auto simp: lineBreak_test_def slice_def list_ex_iff in_set_conv_nth)
  then have "a \<le> a + j \<and> a + j < b \<and> a + j < length s \<and> isNewLine (s ! (a + j)) False"
    by auto
  then show "\<exists>i. a \<le> i \<and> i < b \<and> i < length s \<and> isNewLine (s ! i) False" by blast
next
  assume "\<exists>i. a \<le> i \<and> i < b \<and> i < length s \<and> isNewLine (s ! i) False"
  then obtain i where i: "a \<le> i" "i < b" "i < length s" "isNewLine (s ! i) False" by blast
  then have "i - a < length (take (b - a) (drop a s))" by auto
  moreover have "take (b - a) (drop a s) ! (i - a) = s ! i" using i by auto
  ultimately have "s ! i \<in> set (take (b - a) (drop a s))"
    by (metis nth_mem)
  then show "lineBreak_test (slice s a b)"
    using i(4) by (auto simp: lineBreak_test_def slice_def list_ex_iff)
qed

section \<open>The slash\<close>










section \<open>What the readers leave of the current token\<close>

lemma state_after_simps [simp]:
  "state_after (Ok x p) = p" "state_after (Err e p) = p"
  by (simp_all add: state_after_def)













section \<open>getToken\<close>

lemma next'_at_eof:
  assumes "length (input p) \<le> pos p" "type p = tt_eof"
  shows "next' False p =
           Ok () (p\<lparr>lastTokEnd := end' p, lastTokStart := start p, start := pos p, end' := pos p,
                     type := tt_eof, value' := JUndefined, exprAllowed := False\<rparr>)"
proof -
  have k: "keyword (type p) = None" using assms(2) by (simp add: tt_defs)
  show ?thesis
    using assms(1) nextToken_at_end [of "p\<lparr>lastTokEnd := end' p, lastTokStart := start p\<rparr>"] k
    by (simp add: next'_def)
qed

text \<open>
  C3, as the code has it. \<open>getToken\<close> advances first (\<open>next\<close>) and then returns a
  copy of the token that has become current: it returns exactly when \<open>next\<close> does, with
  the token of the state it leaves, and throws what \<open>next\<close> throws. The token returned
  is therefore the one after the token that was current at the call; the two are the
  same only where advancing changes nothing of the token, as on the \<open>eof\<close> token at the
  end of the input.
\<close>

theorem getToken_advances_first:
  "(getToken p = Ok t p' \<longleftrightarrow> next' False p = Ok () p' \<and> t = new_Token p') \<and>
   (getToken p = Err e p' \<longleftrightarrow> next' False p = Err e p') \<and>
   (returned (getToken p) \<noteq> None \<longrightarrow>
      returned (getToken p) = Some (new_Token (state_after (getToken p))) \<and>
      state_after (getToken p) = state_after (next' False p)) \<and>
   (length (input p) \<le> pos p \<and> type p = tt_eof \<and> start p = pos p \<and> end' p = pos p \<and>
    value' p = JUndefined \<longrightarrow> returned (getToken p) = Some (new_Token p))"
proof (intro conjI impI)
  show "getToken p = Ok t p' \<longleftrightarrow> next' False p = Ok () p' \<and> t = new_Token p'"
    by (auto simp: getToken_def bind_def split: result.splits)
  show "getToken p = Err e p' \<longleftrightarrow> next' False p = Err e p'"
    by (auto simp: getToken_def bind_def split: result.splits)
  show "returned (getToken p) = Some (new_Token (state_after (getToken p)))"
    if "returned (getToken p) \<noteq> None"
    using that by (auto simp: getToken_def bind_def returned_def split: result.splits)
  show "state_after (getToken p) = state_after (next' False p)"
    by (auto simp: getToken_def bind_def split: result.splits)
  show "returned (getToken p) = Some (new_Token p)"
    if "length (input p) \<le> pos p \<and> type p = tt_eof \<and> start p = pos p \<and> end' p = pos p \<and>
        value' p = JUndefined"
    using that next'_at_eof [of p]
    by (simp add: getToken_def bind_def returned_def new_Token_def)
qed

theorem getToken_advances_first_witness:
  "returned (next' False tokenizer_after_a) = Some () \<and>
   getToken tokenizer_after_a =
     Ok (new_Token (state_after (next' False tokenizer_after_a)))
        (state_after (next' False tokenizer_after_a)) \<and>
   returned (getToken tokenizer_after_a) =
     Some \<lparr>token_type = tt_name, token_value = JStr (str ''b''), token_start = 2, token_end = 3\<rparr> \<and>
   new_Token (state_after (getToken tokenizer_after_a)) =
     \<lparr>token_type = tt_name, token_value = JStr (str ''b''), token_start = 2, token_end = 3\<rparr> \<and>
   length (input tokenizer_at_eof) \<le> pos tokenizer_at_eof \<and> type tokenizer_at_eof = tt_eof \<and>
   start tokenizer_at_eof = pos tokenizer_at_eof \<and> end' tokenizer_at_eof = pos tokenizer_at_eof \<and>
   value' tokenizer_at_eof = JUndefined \<and>
   returned (getToken tokenizer_at_eof) = Some (new_Token tokenizer_at_eof)"
proof -
  have "\<exists>X. next' False tokenizer_after_a = Ok () X \<and>
          new_Token X = \<lparr>token_type = tt_name, token_value = JStr (str ''b''),
                          token_start = 2, token_end = 3\<rparr>"
    by (simp add: tokenizer_after_a_def state_after_def tok_defs monad_defs tt_defs str_def Let_def
        split del: if_split cong: weak_congs)
  then obtain X where X: "next' False tokenizer_after_a = Ok () X"
    "new_Token X = \<lparr>token_type = tt_name, token_value = JStr (str ''b''),
                          token_start = 2, token_end = 3\<rparr>" by blast
  have e: "length (input tokenizer_at_eof) \<le> pos tokenizer_at_eof \<and> type tokenizer_at_eof = tt_eof \<and>
     start tokenizer_at_eof = pos tokenizer_at_eof \<and> end' tokenizer_at_eof = pos tokenizer_at_eof \<and>
     value' tokenizer_at_eof = JUndefined"
    by (simp add: tokenizer_at_eof_def state_after_def tok_defs monad_defs tt_defs str_def Let_def
        split del: if_split cong: weak_congs)
  show ?thesis
    using getToken_advances_first [of tokenizer_after_a "new_Token X" X]
      getToken_advances_first [of tokenizer_at_eof] X e
    by (simp add: returned_def state_after_def)
qed

text \<open>
  The claim as written fails on the tokenizer of \<open>a b\<close> after one call: the current
  token is \<open>a\<close>, and the next call of \<open>getToken\<close> returns \<open>b\<close>.
\<close>

theorem getToken_returns_next_token:
  "new_Token tokenizer_after_a =
     \<lparr>token_type = tt_name, token_value = JStr (str ''a''), token_start = 0, token_end = 1\<rparr> \<and>
   returned (getToken tokenizer_after_a) =
     Some \<lparr>token_type = tt_name, token_value = JStr (str ''b''), token_start = 2, token_end = 3\<rparr> \<and>
   returned (getToken tokenizer_after_a) \<noteq> Some (new_Token tokenizer_after_a)"
  by (simp add: tokenizer_after_a_def returned_def state_after_def tok_defs monad_defs tt_defs
      str_def Let_def split del: if_split cong: weak_congs)


section \<open>Braced quantifiers\<close>

















section \<open>Running the parser\<close>

text \<open>
  The functions of a table of depth \<open>n + 1\<close> are the parser's functions over the table
  of depth \<open>n\<close>.
\<close>

lemma r_fields:
  "r_fuel (parser_fuel (Suc n)) = Suc n"
  "r_parseMaybeAssign (parser_fuel (Suc n)) = parseMaybeAssign (parser_fuel n)"
  "r_parseMaybeUnary (parser_fuel (Suc n)) = parseMaybeUnary (parser_fuel n)"
  "r_parseExprOp (parser_fuel (Suc n)) = parseExprOp (parser_fuel n)"
  "r_parseStatement (parser_fuel (Suc n)) = parseStatement (parser_fuel n)"
  "r_parseBindingAtom (parser_fuel (Suc n)) = parseBindingAtom (parser_fuel n)"
  "r_toAssignable (parser_fuel (Suc n)) = toAssignable (parser_fuel n)"
  "r_checkLValSimple (parser_fuel (Suc n)) = checkLValSimple (parser_fuel n)"
  "r_checkLValPattern (parser_fuel (Suc n)) = checkLValPattern (parser_fuel n)"
  "r_checkLValInnerPattern (parser_fuel (Suc n)) = checkLValInnerPattern (parser_fuel n)"
  "r_isSimpleAssignTarget (parser_fuel (Suc n)) = isSimpleAssignTarget (parser_fuel n)"
  by (simp_all add: parser_fuel.simps)

lemmas parse_defs = startNodeAt_def startNode_def finishNodeAt_def finishNode_def set_type_def
  delete_field_def as_node_def field_node_def node_name_def truthy_def new_ref_def deref_def
  update_ref_def currentVarScope_def currentThisScope_def inFunction_def inGenerator_def inAsync_def
  allowSuper_def allowDirectSuper_def treatFunctionsAsVar_def checkPatternErrors_def
  checkExpressionErrors_def checkYieldAwaitInDefaultParams_def checkUnreserved_def parseIdent_def
  bigint_of_raw_def parseLiteral_def initFunction_def isSimpleParamList_def buildBinary_def
  isSimpleAssignTarget_def checkLValSimple_def checkLValPattern_def checkLValInnerPattern_def
  checkParams_def toAssignableList_def toAssignable_def
  parseSpread_def parseRestBinding_def parseMaybeDefault_def parseBindingList_def parseBindingAtom_def
  isDirectiveCandidate_def parseBlock_def parseFunctionBody_def parseArrowExpression_def
  parseFunctionParams_def FUNC_STATEMENT_def FUNC_HANGING_STATEMENT_def FUNC_NULLABLE_ID_def
  parseFunction_def parseExpression_def parseParenExpression_def parseExprList_def
  parseParenArrowList_def parseParenAndDistinguishExpression_def parseExprAtom_def parseSubscript_def
  parseSubscripts_def parseExprSubscripts_def parseAwait_def parseMaybeUnary_def parseExprOp_def
  parseExprOps_def parseMaybeConditional_def parseYield_def parseMaybeAssign_def
  isLet_def isAsyncFunction_def parseExpressionStatement_def parseDebuggerStatement_def
  parseEmptyStatement_def parseFunctionStatement_def parseIfStatement_def parseReturnStatement_def
  parseVarId_def parseVar_def parseVarStatement_def loopLabel_def parseWhileStatement_def
  parseStatement_def parseTopLevel_def parse_def Parser_parse_def Parser_parseExpressionAt_def
  get_field_def set_field_def Node_defaults_def new_DestructuringErrors_def
  reservedWords_test_def reservedWordsStrict_test_def reservedWordsStrictBind_test_def
  reserved_for_def reservedWords_6_def reservedWords_strict_def reservedWords_strictBind_def
  keywordRelationalOperator_test_def declareName_def currentScope_def set_currentScope_def
  treatFunctionsAsVarInScope_def functionFlags_def already_declared_def
  SCOPE_FUNCTION_def SCOPE_VAR_def SCOPE_ASYNC_def SCOPE_GENERATOR_def SCOPE_ARROW_def
  SCOPE_SUPER_def SCOPE_DIRECT_SUPER_def SCOPE_SIMPLE_CATCH_def
  returned_def thrown_def state_after_def r_fields recursion_depth_def


section \<open>Regular expression or division\<close>






section \<open>Semicolon insertion at a line break\<close>

lemma return_line_break_1:
  "returned (Parser_parse (str ''function f(){return'' @ [10] @ str ''1}'') (defaultOptions 11)) =
     Some (Node ''Program'' 0 22
       [(''body'', JArr
          [JNode (Node ''FunctionDeclaration'' 0 22
             [(''id'', JNode (Node ''Identifier'' 9 10 [(''name'', JStr (str ''f''))])),
              (''expression'', JBool False), (''generator'', JBool False), (''async'', JBool False),
              (''params'', JArr []),
              (''body'', JNode (Node ''BlockStatement'' 12 22
                 [(''body'', JArr
                    [JNode (Node ''ReturnStatement'' 13 19 [(''argument'', JNull)]),
                     JNode (Node ''ExpressionStatement'' 20 21
                       [(''expression'', JNode (Node ''Literal'' 20 21
                          [(''value'', JNum (StringToNumber (str ''1'') False)),
                           (''raw'', JStr (str ''1''))]))])])]))])]),
        (''sourceType'', JStr (str ''script''))])"
  by (simp add: parse_defs tok_defs monad_defs tt_defs regexp_defs str_def Let_def
      split del: if_split cong: weak_congs)

lemma return_space_1:
  "returned (Parser_parse (str ''function f(){return 1}'') (defaultOptions 11)) =
     Some (Node ''Program'' 0 22
       [(''body'', JArr
          [JNode (Node ''FunctionDeclaration'' 0 22
             [(''id'', JNode (Node ''Identifier'' 9 10 [(''name'', JStr (str ''f''))])),
              (''expression'', JBool False), (''generator'', JBool False), (''async'', JBool False),
              (''params'', JArr []),
              (''body'', JNode (Node ''BlockStatement'' 12 22
                 [(''body'', JArr
                    [JNode (Node ''ReturnStatement'' 13 21
                       [(''argument'', JNode (Node ''Literal'' 20 21
                          [(''value'', JNum (StringToNumber (str ''1'') False)),
                           (''raw'', JStr (str ''1''))]))])])]))])]),
        (''sourceType'', JStr (str ''script''))])"
  by (simp add: parse_defs tok_defs monad_defs tt_defs regexp_defs str_def Let_def
      split del: if_split cong: weak_congs)

text \<open>
  C4. \<open>canInsertSemicolon\<close> holds exactly when the current token is \<open>eof\<close>, or is
  \<open>}\<close>, or one of the characters of the input from the end of the previous token up to
  the start of the current one is a line terminator; \<open>insertSemicolon\<close> inserts one
  exactly then. So the function whose body is \<open>return\<close>, a line feed and \<open>1\<close> parses
  to a \<open>ReturnStatement\<close> with \<open>argument\<close> null followed by an
  \<open>ExpressionStatement\<close> for \<open>1\<close>, where with a space in place of the line feed the
  \<open>1\<close> is the argument of the \<open>ReturnStatement\<close>.
\<close>

theorem semicolon_inserted_at_line_break:
  "(canInsertSemicolon p \<longleftrightarrow>
     (type p = tt_eof \<or> type p = tt_braceR \<or>
      (\<exists>i. lastTokEnd p \<le> i \<and> i < start p \<and> i < length (input p) \<and> isNewLine (input p ! i) False))) \<and>
   insertSemicolon p = canInsertSemicolon p \<and>
   returned (Parser_parse (str ''function f(){return'' @ [10] @ str ''1}'') (defaultOptions 11)) =
     Some (Node ''Program'' 0 22
       [(''body'', JArr
          [JNode (Node ''FunctionDeclaration'' 0 22
             [(''id'', JNode (Node ''Identifier'' 9 10 [(''name'', JStr (str ''f''))])),
              (''expression'', JBool False), (''generator'', JBool False), (''async'', JBool False),
              (''params'', JArr []),
              (''body'', JNode (Node ''BlockStatement'' 12 22
                 [(''body'', JArr
                    [JNode (Node ''ReturnStatement'' 13 19 [(''argument'', JNull)]),
                     JNode (Node ''ExpressionStatement'' 20 21
                       [(''expression'', JNode (Node ''Literal'' 20 21
                          [(''value'', JNum (StringToNumber (str ''1'') False)),
                           (''raw'', JStr (str ''1''))]))])])]))])]),
        (''sourceType'', JStr (str ''script''))]) \<and>
   returned (Parser_parse (str ''function f(){return 1}'') (defaultOptions 11)) =
     Some (Node ''Program'' 0 22
       [(''body'', JArr
          [JNode (Node ''FunctionDeclaration'' 0 22
             [(''id'', JNode (Node ''Identifier'' 9 10 [(''name'', JStr (str ''f''))])),
              (''expression'', JBool False), (''generator'', JBool False), (''async'', JBool False),
              (''params'', JArr []),
              (''body'', JNode (Node ''BlockStatement'' 12 22
                 [(''body'', JArr
                    [JNode (Node ''ReturnStatement'' 13 21
                       [(''argument'', JNode (Node ''Literal'' 20 21
                          [(''value'', JNum (StringToNumber (str ''1'') False)),
                           (''raw'', JStr (str ''1''))]))])])]))])]),
        (''sourceType'', JStr (str ''script''))])"
  using return_line_break_1 return_space_1
  by (simp add: canInsertSemicolon_def lineBreak_test_slice insertSemicolon_def)

theorem semicolon_inserted_at_line_break_witness:
  "type parser_after_return = tt_num \<and> lastTokEnd parser_after_return = 6 \<and>
   start parser_after_return = 7 \<and>
   canInsertSemicolon parser_after_return \<and> insertSemicolon parser_after_return \<and>
   (\<exists>i. lastTokEnd parser_after_return \<le> i \<and> i < start parser_after_return \<and>
        i < length (input parser_after_return) \<and> isNewLine (input parser_after_return ! i) False)"
proof -
  have h: "type parser_after_return = tt_num \<and> lastTokEnd parser_after_return = 6 \<and>
      start parser_after_return = 7 \<and> canInsertSemicolon parser_after_return"
    by (simp add: parser_after_return_def state_after_def tok_defs monad_defs tt_defs str_def Let_def
        split del: if_split cong: weak_congs)
  have n: "tt_num \<noteq> tt_eof" "tt_num \<noteq> tt_braceR" by (simp_all add: tt_defs)
  show ?thesis
    using semicolon_inserted_at_line_break [of parser_after_return] h n by simp
qed


end
